theory Spec2Isabelle
  imports Complex_Main "HOL-Library.Word" "HOL-Library.AList" "HOL-Library.Sublist"
    "HOL-Library.Char_ord" "HOL-Library.List_Lexorder"
begin

section \<open>Descriptors and field annotations\<close>

text \<open>
  The protobuf reflection interface is modelled by what the bridge reads from it.
  A field descriptor gives its fully-qualified name, its kind (a message or group kind
  carries the child descriptor that \<open>field.Message()\<close> returns), its cardinality, the
  key and value descriptors when it is a map field, and its options. A Go function
  that can panic returns an \<open>option\<close>, with \<open>None\<close> for the panic.
\<close>

datatype Cardinality = Card_Optional | Card_Required | Card_Repeated

datatype RawMode = NOT_RAW | MESSAGEPACK | JSON | RawMode_Other nat

datatype CollectionKind = AUTO | TUPLE | LIST | SET | CollectionKind_Other nat

record Attribute =
  attr_Name :: string
  attr_Required :: bool
  attr_Type :: string
  attr_Raw :: RawMode

record NestedBlock =
  block_TypeName :: string
  block_Kind :: CollectionKind

record BlockLabel =
  label_Name :: string

record FieldOptions =
  E_Attr :: "Attribute option"
  E_Block :: "NestedBlock option"
  E_Flatten :: bool
  E_Label :: "BlockLabel option"

record OneofDescriptor =
  oneof_FullName :: string
  IsSynthetic :: bool

datatype Kind =
    BoolKind | EnumKind | Int32Kind | Sint32Kind | Uint32Kind
  | Int64Kind | Sint64Kind | Uint64Kind | Sfixed32Kind | Fixed32Kind
  | FloatKind | Sfixed64Kind | Fixed64Kind | DoubleKind | StringKind | BytesKind
  | MessageKind MessageDescriptor | GroupKind MessageDescriptor
and FieldDescriptor =
  FieldDescriptor (FullName: string) (Kind: Kind) (Cardinality: Cardinality)
    (MapKV: "(FieldDescriptor \<times> FieldDescriptor) option")
    (Options: "FieldOptions option")
and MessageDescriptor =
  MessageDescriptor (MessageFullName: string) (Oneofs: "OneofDescriptor list")
    (Fields: "FieldDescriptor list")

definition IsMap :: "FieldDescriptor \<Rightarrow> bool" where
  "IsMap field = (MapKV field \<noteq> None)"

definition IsList :: "FieldDescriptor \<Rightarrow> bool" where
  "IsList field = (Cardinality field = Card_Repeated \<and> \<not> IsMap field)"

text \<open>The descriptor of the elements: the value descriptor of a map field, the field itself otherwise.\<close>

definition elementField :: "FieldDescriptor \<Rightarrow> FieldDescriptor" where
  "elementField field = (case MapKV field of Some (k, v) \<Rightarrow> v | None \<Rightarrow> field)"

fun isMessageKind :: "Kind \<Rightarrow> bool" where
  "isMessageKind (MessageKind d) = True"
| "isMessageKind k = False"

fun Kind_String :: "Kind \<Rightarrow> string" where
  "Kind_String BoolKind = ''bool''"
| "Kind_String EnumKind = ''enum''"
| "Kind_String Int32Kind = ''int32''"
| "Kind_String Sint32Kind = ''sint32''"
| "Kind_String Uint32Kind = ''uint32''"
| "Kind_String Int64Kind = ''int64''"
| "Kind_String Sint64Kind = ''sint64''"
| "Kind_String Uint64Kind = ''uint64''"
| "Kind_String Sfixed32Kind = ''sfixed32''"
| "Kind_String Fixed32Kind = ''fixed32''"
| "Kind_String FloatKind = ''float''"
| "Kind_String Sfixed64Kind = ''sfixed64''"
| "Kind_String Fixed64Kind = ''fixed64''"
| "Kind_String DoubleKind = ''double''"
| "Kind_String StringKind = ''string''"
| "Kind_String BytesKind = ''bytes''"
| "Kind_String (MessageKind d) = ''message''"
| "Kind_String (GroupKind d) = ''group''"

subsection \<open>Formatting helpers\<close>

text \<open>
  Decimal rendering of integers (Go's \<open>%d\<close>) and string quoting (Go's \<open>%q\<close>, exact
  for strings that need no escape, which identifiers never do).
\<close>

definition digitChar :: "nat \<Rightarrow> char" where
  "digitChar d = ''0123456789'' ! d"

fun showNat :: "nat \<Rightarrow> string" where
  "showNat n = (if n < 10 then [digitChar n] else showNat (n div 10) @ [digitChar (n mod 10)])"

declare showNat.simps [simp del]

definition showInt :: "int \<Rightarrow> string" where
  "showInt i = (if i < 0 then CHR ''-'' # showNat (nat (- i)) else showNat (nat i))"

definition quoteGo :: "string \<Rightarrow> string" where
  "quoteGo s = CHR 0x22 # s @ [CHR 0x22]"

fun RawMode_String :: "RawMode \<Rightarrow> string" where
  "RawMode_String NOT_RAW = ''NOT_RAW''"
| "RawMode_String MESSAGEPACK = ''MESSAGEPACK''"
| "RawMode_String JSON = ''JSON''"
| "RawMode_String (RawMode_Other n) = showNat n"

fun CollectionKind_String :: "CollectionKind \<Rightarrow> string" where
  "CollectionKind_String AUTO = ''AUTO''"
| "CollectionKind_String TUPLE = ''TUPLE''"
| "CollectionKind_String LIST = ''LIST''"
| "CollectionKind_String SET = ''SET''"
| "CollectionKind_String (CollectionKind_Other n) = showNat n"

subsection \<open>Schema errors\<close>

record schemaError =
  Decl :: string
  Err :: string

definition schemaErrorf :: "string \<Rightarrow> string \<Rightarrow> schemaError" where
  "schemaErrorf decl msg = \<lparr>Decl = decl, Err = msg\<rparr>"

text \<open>
  \<open>protoreflect.FullName.IsValid\<close>: a non-empty sequence of identifiers separated by
  single dots, each identifier a letter or underscore followed by letters, digits and
  underscores.
\<close>

definition isLetter :: "char \<Rightarrow> bool" where
  "isLetter c = (let n = (of_char c :: nat) in n = 95 \<or> (97 \<le> n \<and> n \<le> 122) \<or> (65 \<le> n \<and> n \<le> 90))"

definition isLetterDigit :: "char \<Rightarrow> bool" where
  "isLetterDigit c = (isLetter c \<or> (48 \<le> (of_char c :: nat) \<and> (of_char c :: nat) \<le> 57))"

fun consumeIdent :: "string \<Rightarrow> string option" where
  "consumeIdent [] = None"
| "consumeIdent (c # cs) = (if isLetter c then Some (dropWhile isLetterDigit cs) else None)"

function FullName_IsValid :: "string \<Rightarrow> bool" where
  "FullName_IsValid s =
     (case consumeIdent s of
        None \<Rightarrow> False
      | Some [] \<Rightarrow> True
      | Some (c # rest) \<Rightarrow> c = CHR ''.'' \<and> FullName_IsValid rest)"
  by pat_completeness auto

lemma consumeIdent_shorter: "consumeIdent s = Some r \<Longrightarrow> length r < length s"
  by (cases s) (auto split: if_splits intro: le_imp_less_Suc length_dropWhile_le)

termination FullName_IsValid
  by (relation "measure length") (auto dest: consumeIdent_shorter)

declare FullName_IsValid.simps [simp del]

text \<open>
  \<open>schemaError.Error\<close>. The condition is kept as the source has it: the branch taken
  for a non-empty, valid declaration name is the one that leaves the name out.
\<close>

definition schemaError_Error :: "schemaError \<Rightarrow> string" where
  "schemaError_Error err =
     (if Decl err \<noteq> [] \<and> FullName_IsValid (Decl err)
      then ''unsupported protobuf schema: '' @ Err err
      else ''unsupported protobuf schema in '' @ Decl err @ '': '' @ Err err)"

subsection \<open>Diagnostics\<close>

text \<open>
  The diagnostic carrier of the host library, without its expression and evaluation
  context handles.
\<close>

datatype Severity = DiagInvalid | DiagError | DiagWarning

record Pos =
  Line :: int
  Column :: int
  Byte :: int

record Range =
  Filename :: string
  Start :: Pos
  End :: Pos

record Diagnostic =
  Severity :: Severity
  Summary :: string
  Detail :: string
  Subject :: "Range option"
  Context :: "Range option"

type_synonym Diagnostics = "Diagnostic list"

definition HasErrors :: "Diagnostics \<Rightarrow> bool" where
  "HasErrors diags = list_ex (\<lambda>d. Severity d = DiagError) diags"

definition Range_String :: "Range \<Rightarrow> string" where
  "Range_String r =
     (if Line (Start r) = Line (End r)
      then Filename r @ '':'' @ showInt (Line (Start r)) @ '','' @ showInt (Column (Start r))
             @ ''-'' @ showInt (Column (End r))
      else Filename r @ '':'' @ showInt (Line (Start r)) @ '','' @ showInt (Column (Start r))
             @ ''-'' @ showInt (Line (End r)) @ '','' @ showInt (Column (End r)))"

definition newline :: char where
  "newline = CHR 0x0A"

definition squote :: "string \<Rightarrow> string" where
  "squote s = CHR 0x27 # s @ [CHR 0x27]"

definition schemaError_Diagnostic :: "schemaError \<Rightarrow> Diagnostic" where
  "schemaError_Diagnostic err =
     \<lparr>Severity = DiagError,
      Summary = ''Invalid configuration schema'',
      Detail = ''Invalid HCL annotations in protobuf schema for '' @ Decl err @ '': '' @ Err err
        @ ''.'' @ [newline, newline]
        @ ''This is a bug in the component that defined this schema, and not an error in the given configuration.'',
      Subject = None, Context = None\<rparr>"

definition schemaErrorDiagnostic :: "schemaError \<Rightarrow> Diagnostic" where
  "schemaErrorDiagnostic err = schemaError_Diagnostic err"

subsection \<open>Attribute value errors\<close>

record PathError =
  Path :: "string list"
  pathError_Error :: string

record attrValueError =
  av_Err :: PathError

text \<open>
  \<open>attrValueError.Error\<close> calls itself and nothing else; \<open>None\<close> is the call that does
  not return.
\<close>

partial_function (option) attrValueError_Error :: "attrValueError \<Rightarrow> string option" where
  "attrValueError_Error err = attrValueError_Error err"

subsection \<open>Annotation resolver\<close>

record FieldAttribute =
  Name :: string
  Required :: bool
  TypeExprString :: string
  RawMode :: RawMode
  TargetField :: FieldDescriptor

record FieldNestedBlockType =
  TypeName :: string
  Nested :: MessageDescriptor
  Repeated :: bool
  CollectionKind :: CollectionKind

datatype FieldElem =
    ElemAttribute FieldAttribute
  | ElemNestedBlockType FieldNestedBlockType
  | ElemFlattened MessageDescriptor
  | ElemBlockLabel string

type_synonym ElemResult = "(schemaError + FieldElem option) option"

definition attrNamed :: "Attribute option \<Rightarrow> bool" where
  "attrNamed a = (case a of None \<Rightarrow> False | Some x \<Rightarrow> attr_Name x \<noteq> [])"

definition blockNamed :: "NestedBlock option \<Rightarrow> bool" where
  "blockNamed b = (case b of None \<Rightarrow> False | Some x \<Rightarrow> block_TypeName x \<noteq> [])"

definition labelNamed :: "BlockLabel option \<Rightarrow> bool" where
  "labelNamed l = (case l of None \<Rightarrow> False | Some x \<Rightarrow> label_Name x \<noteq> [])"

definition labelOptsName :: "BlockLabel option \<Rightarrow> string" where
  "labelOptsName l = (case l of None \<Rightarrow> [] | Some x \<Rightarrow> label_Name x)"

definition blockOptsTypeName :: "NestedBlock option \<Rightarrow> string" where
  "blockOptsTypeName b = (case b of None \<Rightarrow> [] | Some x \<Rightarrow> block_TypeName x)"

definition schemaFail :: "FieldDescriptor \<Rightarrow> string \<Rightarrow> ElemResult" where
  "schemaFail field msg = Some (Inl (schemaErrorf (FullName field) msg))"

text \<open>The first case of the switch in \<open>GetFieldElem\<close>: the attribute payload is present.\<close>

definition GetFieldElem_attr ::
  "FieldDescriptor \<Rightarrow> Attribute \<Rightarrow> NestedBlock option \<Rightarrow> bool \<Rightarrow> BlockLabel option \<Rightarrow> ElemResult" where
  "GetFieldElem_attr field attrOpts blockOpts flatten labelOpts =
     (if blockNamed blockOpts then
        schemaFail field (''cannot be both attribute '' @ quoteGo (attr_Name attrOpts)
          @ '' and nested block type '' @ quoteGo (blockOptsTypeName blockOpts))
      else if flatten then
        schemaFail field (''cannot be attribute '' @ quoteGo (attr_Name attrOpts)
          @ '' and also flatten into the current body'')
      else if labelNamed labelOpts then
        schemaFail field (''cannot be both attribute '' @ quoteGo (attr_Name attrOpts)
          @ '' and block label '' @ quoteGo (labelOptsName labelOpts))
      else if (case MapKV field of Some (k, v) \<Rightarrow> Kind k \<noteq> StringKind | None \<Rightarrow> False) then
        schemaFail field ''HCL only supports maps with string keys''
      else if attr_Raw attrOpts \<noteq> NOT_RAW \<and> IsList field then
        schemaFail field (''cannot use raw mode with '' @ squote ''repeated'' @ '' field'')
      else if attr_Raw attrOpts \<noteq> NOT_RAW \<and> IsMap field then
        schemaFail field ''cannot use raw mode with map field''
      else if attr_Raw attrOpts \<noteq> NOT_RAW \<and> Kind field \<noteq> BytesKind then
        schemaFail field (''raw mode is allowed only for '' @ squote ''bytes'' @ '' fields'')
      else if attr_Raw attrOpts \<noteq> NOT_RAW \<and> attr_Type attrOpts = [] then
        schemaFail field ''must specify (hcl.attr).type for this raw-mode field''
      else if attr_Raw attrOpts = NOT_RAW \<and> Kind field = BytesKind then
        schemaFail field (squote ''bytes'' @ '' fields must have raw mode enabled'')
      else
        Some (Inr (Some (ElemAttribute
          \<lparr>Name = attr_Name attrOpts, Required = attr_Required attrOpts,
           TypeExprString = attr_Type attrOpts, RawMode = attr_Raw attrOpts,
           TargetField = field\<rparr>))))"

text \<open>
  The second case: the nested-block payload is present. Its first two error messages
  read \<open>attrOpts.Name\<close>, a field of a pointer that is nil when the field has no
  attribute payload at all.
\<close>

definition GetFieldElem_block ::
  "FieldDescriptor \<Rightarrow> Attribute option \<Rightarrow> NestedBlock \<Rightarrow> bool \<Rightarrow> BlockLabel option \<Rightarrow> ElemResult" where
  "GetFieldElem_block field attrOpts blockOpts flatten labelOpts =
     (if flatten then
        (case attrOpts of
           None \<Rightarrow> None
         | Some a \<Rightarrow> schemaFail field (''cannot be nested block type '' @ quoteGo (attr_Name a)
             @ '' and also flatten into the current body''))
      else if labelNamed labelOpts then
        (case attrOpts of
           None \<Rightarrow> None
         | Some a \<Rightarrow> schemaFail field (''cannot be both nested block type '' @ quoteGo (attr_Name a)
             @ '' and block label '' @ quoteGo (labelOptsName labelOpts)))
      else
        (case Kind field of
           MessageKind nested \<Rightarrow>
             if IsMap field then
               schemaFail field ''field representing nested block must not be a map''
             else if IsList field then
               (let collectionKind = (if block_Kind blockOpts = AUTO then TUPLE else block_Kind blockOpts) in
                if collectionKind \<noteq> TUPLE \<and> collectionKind \<noteq> LIST \<and> collectionKind \<noteq> SET then
                  schemaFail field (''unsupported collection kind '' @ CollectionKind_String collectionKind)
                else
                  Some (Inr (Some (ElemNestedBlockType
                    \<lparr>TypeName = block_TypeName blockOpts, Nested = nested,
                     Repeated = True, CollectionKind = collectionKind\<rparr>))))
             else if block_Kind blockOpts \<noteq> AUTO then
               schemaFail field (''only repeated fields can have explicit block collection mode ''
                 @ CollectionKind_String (block_Kind blockOpts))
             else
               Some (Inr (Some (ElemNestedBlockType
                 \<lparr>TypeName = block_TypeName blockOpts, Nested = nested,
                  Repeated = False, CollectionKind = AUTO\<rparr>)))
         | k \<Rightarrow> schemaFail field (''field representing nested block must have message type, not ''
                 @ Kind_String k)))"

text \<open>The third case: the flatten flag is set.\<close>

definition GetFieldElem_flatten :: "FieldDescriptor \<Rightarrow> BlockLabel option \<Rightarrow> ElemResult" where
  "GetFieldElem_flatten field labelOpts =
     (if labelNamed labelOpts then
        schemaFail field (''cannot be block label '' @ quoteGo (labelOptsName labelOpts)
          @ '' and also flatten into the current body'')
      else
        (case Kind field of
           MessageKind nested \<Rightarrow>
             if Cardinality field = Card_Repeated then
               schemaFail field (''field to be flattened must not be '' @ squote ''repeated'')
             else Some (Inr (Some (ElemFlattened nested)))
         | k \<Rightarrow> schemaFail field (''field to be flattened must have message type, not '' @ Kind_String k)))"

text \<open>
  \<open>GetFieldElem\<close>: no options at all means no element; otherwise the first payload
  present, in the order attribute, nested block, flatten, label, decides.
\<close>

definition GetFieldElem :: "FieldDescriptor \<Rightarrow> ElemResult" where
  "GetFieldElem field =
     (case Options field of
        None \<Rightarrow> Some (Inr None)
      | Some opts \<Rightarrow>
          (let attrOpts = E_Attr opts; blockOpts = E_Block opts;
               flatten = E_Flatten opts; labelOpts = E_Label opts
           in case (if attrNamed attrOpts then attrOpts else None) of
                Some a \<Rightarrow> GetFieldElem_attr field a blockOpts flatten labelOpts
              | None \<Rightarrow>
                 (case (if blockNamed blockOpts then blockOpts else None) of
                    Some b \<Rightarrow> GetFieldElem_block field attrOpts b flatten labelOpts
                  | None \<Rightarrow>
                      if flatten then GetFieldElem_flatten field labelOpts
                      else if labelNamed labelOpts then
                        Some (Inr (Some (ElemBlockLabel (labelOptsName labelOpts))))
                      else Some (Inr None))))"

section \<open>The value library\<close>

text \<open>
  Types and values of the dynamic value library, as far as the bridge builds and
  inspects them. A number is a finite rational or one of the two infinities. A list,
  set or map value carries its element type; an object value keeps its attributes
  sorted by name, so that equal objects are equal terms. Accessors that panic in the
  library on a value of the wrong shape return \<open>None\<close>.
\<close>

datatype cty_type =
    cty_NilType | cty_Bool | cty_Number | cty_String | cty_DynamicPseudoType
  | cty_List cty_type | cty_Set cty_type | cty_Map cty_type
  | cty_Tuple "cty_type list" | cty_Object "(string \<times> cty_type) list"

datatype Number = Finite rat | PositiveInfinity | NegativeInfinity

datatype cty_value =
    NilVal
  | V_Null cty_type
  | V_Unknown cty_type
  | V_Bool bool
  | V_Number Number
  | V_String string
  | V_List cty_type "cty_value list"
  | V_Set cty_type "cty_value list"
  | V_Map cty_type "(string \<times> cty_value) list"
  | V_Tuple "cty_value list"
  | V_Object "(string \<times> cty_value) list"

primrec HasDynamicTypes :: "cty_type \<Rightarrow> bool" where
  "HasDynamicTypes cty_NilType = False"
| "HasDynamicTypes cty_Bool = False"
| "HasDynamicTypes cty_Number = False"
| "HasDynamicTypes cty_String = False"
| "HasDynamicTypes cty_DynamicPseudoType = True"
| "HasDynamicTypes (cty_List t) = HasDynamicTypes t"
| "HasDynamicTypes (cty_Set t) = HasDynamicTypes t"
| "HasDynamicTypes (cty_Map t) = HasDynamicTypes t"
| "HasDynamicTypes (cty_Tuple ts) = list_ex id (map HasDynamicTypes ts)"
| "HasDynamicTypes (cty_Object atys) = list_ex snd (map (map_prod id HasDynamicTypes) atys)"

primrec Type :: "cty_value \<Rightarrow> cty_type" where
  "Type NilVal = cty_NilType"
| "Type (V_Null t) = t"
| "Type (V_Unknown t) = t"
| "Type (V_Bool b) = cty_Bool"
| "Type (V_Number n) = cty_Number"
| "Type (V_String s) = cty_String"
| "Type (V_List t vs) = cty_List t"
| "Type (V_Set t vs) = cty_Set t"
| "Type (V_Map t kvs) = cty_Map t"
| "Type (V_Tuple vs) = cty_Tuple (map Type vs)"
| "Type (V_Object kvs) = cty_Object (map (map_prod id Type) kvs)"

fun IsNull :: "cty_value \<Rightarrow> bool" where
  "IsNull (V_Null t) = True"
| "IsNull v = False"

fun IsKnown :: "cty_value \<Rightarrow> bool" where
  "IsKnown (V_Unknown t) = False"
| "IsKnown v = True"

fun IsListType :: "cty_type \<Rightarrow> bool" where
  "IsListType (cty_List t) = True"
| "IsListType t = False"

fun IsSetType :: "cty_type \<Rightarrow> bool" where
  "IsSetType (cty_Set t) = True"
| "IsSetType t = False"

fun IsMapType :: "cty_type \<Rightarrow> bool" where
  "IsMapType (cty_Map t) = True"
| "IsMapType t = False"

fun IsTupleType :: "cty_type \<Rightarrow> bool" where
  "IsTupleType (cty_Tuple ts) = True"
| "IsTupleType t = False"

fun IsObjectType :: "cty_type \<Rightarrow> bool" where
  "IsObjectType (cty_Object atys) = True"
| "IsObjectType t = False"

fun True_of :: "cty_value \<Rightarrow> bool option" where
  "True_of (V_Bool b) = Some b"
| "True_of v = None"

fun AsString :: "cty_value \<Rightarrow> string option" where
  "AsString (V_String s) = Some s"
| "AsString v = None"

fun AsBigFloat :: "cty_value \<Rightarrow> Number option" where
  "AsBigFloat (V_Number n) = Some n"
| "AsBigFloat v = None"

fun AsValueSlice :: "cty_value \<Rightarrow> cty_value list option" where
  "AsValueSlice (V_List t vs) = Some vs"
| "AsValueSlice (V_Set t vs) = Some vs"
| "AsValueSlice (V_Tuple vs) = Some vs"
| "AsValueSlice v = None"

fun AsValueMap :: "cty_value \<Rightarrow> (string \<times> cty_value) list option" where
  "AsValueMap (V_Map t kvs) = Some kvs"
| "AsValueMap (V_Object kvs) = Some kvs"
| "AsValueMap v = None"

text \<open>
  The constructors of collection values. \<open>cty.ListVal\<close> and \<open>cty.SetVal\<close> panic on an
  empty slice and on elements of different types; the element type is that of the
  first element whose type is not the dynamic pseudo-type.
\<close>

fun unifyElementType :: "cty_type \<Rightarrow> cty_value list \<Rightarrow> cty_type option" where
  "unifyElementType ety [] = Some ety"
| "unifyElementType ety (v # vs) =
     (if ety = cty_DynamicPseudoType then unifyElementType (Type v) vs
      else if Type v \<noteq> cty_DynamicPseudoType \<and> ety \<noteq> Type v then None
      else unifyElementType ety vs)"

definition cty_ListVal :: "cty_value list \<Rightarrow> cty_value option" where
  "cty_ListVal vals =
     (if vals = [] then None
      else case unifyElementType cty_DynamicPseudoType vals of
             None \<Rightarrow> None
           | Some ety \<Rightarrow> Some (V_List ety vals))"

definition cty_ListValEmpty :: "cty_type \<Rightarrow> cty_value" where
  "cty_ListValEmpty ety = V_List ety []"

definition cty_SetVal :: "cty_value list \<Rightarrow> cty_value option" where
  "cty_SetVal vals =
     (if vals = [] then None
      else case unifyElementType cty_DynamicPseudoType vals of
             None \<Rightarrow> None
           | Some ety \<Rightarrow> Some (V_Set ety (remdups vals)))"

definition cty_SetValEmpty :: "cty_type \<Rightarrow> cty_value" where
  "cty_SetValEmpty ety = V_Set ety []"

definition cty_TupleVal :: "cty_value list \<Rightarrow> cty_value" where
  "cty_TupleVal elems = V_Tuple elems"

definition cty_ObjectVal :: "(string \<times> cty_value) list \<Rightarrow> cty_value" where
  "cty_ObjectVal attrs = V_Object (sort_key fst attrs)"

definition cty_Object_of :: "(string \<times> cty_type) list \<Rightarrow> cty_type" where
  "cty_Object_of atys = cty_Object (sort_key fst atys)"

section \<open>Message values\<close>

text \<open>
  A message value is the list of its field slots, in descriptor order: \<open>None\<close> for a
  cleared field, \<open>Some v\<close> for a populated one. Its descriptor is that of the field
  that holds it, as the reflection library guarantees. Floating-point payloads are
  kept as the number they denote.
\<close>

type_synonym byte = "8 word"

datatype pval =
    P_Bool bool
  | P_Int32 "32 word"
  | P_Int64 "64 word"
  | P_Uint32 "32 word"
  | P_Uint64 "64 word"
  | P_Float32 Number
  | P_Float64 Number
  | P_String string
  | P_Bytes "byte list"
  | P_Enum int
  | P_Message "pval option list"
  | P_List "pval list"
  | P_Map "(pval \<times> pval) list"
  | P_Invalid

type_synonym Message = "pval option list"

definition newMessageMaybeDynamic :: "MessageDescriptor \<Rightarrow> Message" where
  "newMessageMaybeDynamic desc = replicate (length (Fields desc)) None"

definition msg_Clear :: "Message \<Rightarrow> nat \<Rightarrow> Message" where
  "msg_Clear msg i = msg[i := None]"

definition msg_Set :: "Message \<Rightarrow> nat \<Rightarrow> pval \<Rightarrow> Message" where
  "msg_Set msg i v = msg[i := Some v]"

definition msg_Has :: "Message \<Rightarrow> nat \<Rightarrow> bool" where
  "msg_Has msg i = (i < length msg \<and> msg ! i \<noteq> None)"

text \<open>
  \<open>msg.NewField(field)\<close> and the value \<open>msg.Get(field)\<close> reads from a cleared field:
  an empty list or map, an empty message, or the zero of the scalar kind.
\<close>

fun zeroOfKind :: "Kind \<Rightarrow> pval" where
  "zeroOfKind BoolKind = P_Bool False"
| "zeroOfKind EnumKind = P_Enum 0"
| "zeroOfKind Int32Kind = P_Int32 0"
| "zeroOfKind Sint32Kind = P_Int32 0"
| "zeroOfKind Sfixed32Kind = P_Int32 0"
| "zeroOfKind Int64Kind = P_Int64 0"
| "zeroOfKind Sint64Kind = P_Int64 0"
| "zeroOfKind Sfixed64Kind = P_Int64 0"
| "zeroOfKind Uint32Kind = P_Uint32 0"
| "zeroOfKind Fixed32Kind = P_Uint32 0"
| "zeroOfKind Uint64Kind = P_Uint64 0"
| "zeroOfKind Fixed64Kind = P_Uint64 0"
| "zeroOfKind FloatKind = P_Float32 (Finite 0)"
| "zeroOfKind DoubleKind = P_Float64 (Finite 0)"
| "zeroOfKind StringKind = P_String []"
| "zeroOfKind BytesKind = P_Bytes []"
| "zeroOfKind (MessageKind d) = P_Message (replicate (length (Fields d)) None)"
| "zeroOfKind (GroupKind d) = P_Message (replicate (length (Fields d)) None)"

definition NewField :: "FieldDescriptor \<Rightarrow> pval" where
  "NewField field =
     (if IsMap field then P_Map []
      else if IsList field then P_List []
      else zeroOfKind (Kind field))"

definition msg_Get :: "Message \<Rightarrow> nat \<Rightarrow> FieldDescriptor \<Rightarrow> pval" where
  "msg_Get msg i field =
     (case (if i < length msg then msg ! i else None) of
        None \<Rightarrow> NewField field
      | Some v \<Rightarrow> v)"

section \<open>External collaborators\<close>

text \<open>
  The parser of type expressions, the conversion of a value to a type constraint, the
  two raw-mode codecs and the helpers of the host library are outside the bridge.
  They are parameters of the model; every theorem holds for each choice of them that
  meets its stated hypotheses.
\<close>

type_synonym ParsedExpr = string

record ext =
  ParseExpression :: "string \<Rightarrow> ParsedExpr \<times> Diagnostics"
  typeexpr_TypeConstraint :: "ParsedExpr \<Rightarrow> cty_type \<times> Diagnostics"
  convert_Convert :: "cty_value \<Rightarrow> cty_type \<Rightarrow> string + cty_value"
  ctyjson_Marshal :: "cty_value \<Rightarrow> cty_type \<Rightarrow> string + byte list"
  ctymsgpack_Marshal :: "cty_value \<Rightarrow> cty_type \<Rightarrow> string + byte list"
  ctyjson_Unmarshal :: "byte list \<Rightarrow> cty_type \<Rightarrow> string + cty_value"
  ctymsgpack_Unmarshal :: "byte list \<Rightarrow> cty_type \<Rightarrow> string + cty_value"
  FriendlyName :: "cty_type \<Rightarrow> string"
  RangeBetween :: "Range \<Rightarrow> Range \<Rightarrow> Range"

section \<open>Type reconciler\<close>

fun autoTypeConstraintForFieldElement :: "FieldDescriptor \<Rightarrow> cty_type" where
  "autoTypeConstraintForFieldElement field =
     (case Kind field of
        BoolKind \<Rightarrow> cty_Bool
      | EnumKind \<Rightarrow> cty_String
      | Int32Kind \<Rightarrow> cty_Number | Sint32Kind \<Rightarrow> cty_Number | Uint32Kind \<Rightarrow> cty_Number
      | Int64Kind \<Rightarrow> cty_Number | Sint64Kind \<Rightarrow> cty_Number | Uint64Kind \<Rightarrow> cty_Number
      | Sfixed32Kind \<Rightarrow> cty_Number | Fixed32Kind \<Rightarrow> cty_Number
      | Sfixed64Kind \<Rightarrow> cty_Number | Fixed64Kind \<Rightarrow> cty_Number
      | FloatKind \<Rightarrow> cty_Number | DoubleKind \<Rightarrow> cty_Number
      | StringKind \<Rightarrow> cty_String
      | MessageKind d \<Rightarrow> cty_NilType
      | BytesKind \<Rightarrow> cty_NilType
      | GroupKind d \<Rightarrow> cty_NilType)"

definition autoTypeConstraintForField :: "FieldDescriptor \<Rightarrow> cty_type" where
  "autoTypeConstraintForField field =
     (let elemField = (case MapKV field of Some (k, v) \<Rightarrow> v | None \<Rightarrow> field);
          ety = autoTypeConstraintForFieldElement elemField
      in if ety = cty_NilType then ety
         else if IsList field then
           (if HasDynamicTypes ety then cty_DynamicPseudoType else cty_List ety)
         else if IsMap field then
           (if HasDynamicTypes ety then cty_DynamicPseudoType else cty_Map ety)
         else ety)"

definition autoTypeConstraint :: "FieldAttribute \<Rightarrow> schemaError + cty_type" where
  "autoTypeConstraint fa =
     (if RawMode fa \<noteq> NOT_RAW then
        Inl (schemaErrorf (FullName (TargetField fa))
               ''must set explicit HCL type constraint for this raw-mode attribute'')
      else
        (let ty = autoTypeConstraintForField (TargetField fa)
         in if ty = cty_NilType then
              Inl (schemaErrorf (FullName (TargetField fa))
                ''can't infer HCL type constraint for this field; must specify (hcl.attr).type option explicitly'')
            else Inr ty))"

definition TypeConstraint :: "ext \<Rightarrow> FieldAttribute \<Rightarrow> cty_type \<times> Diagnostics" where
  "TypeConstraint x fa =
     (if TypeExprString fa = [] then
        (case autoTypeConstraint fa of
           Inl err \<Rightarrow> (cty_DynamicPseudoType, [schemaErrorDiagnostic err])
         | Inr ty \<Rightarrow> (ty, []))
      else
        (case ParseExpression x (TypeExprString fa) of
           (expr, diags) \<Rightarrow>
             if HasErrors diags then (cty_DynamicPseudoType, diags)
             else (case typeexpr_TypeConstraint x expr of
                     (ty, moreDiags) \<Rightarrow> (ty, diags @ moreDiags))))"

fun physicalConstraintForFieldKindSingle :: "FieldDescriptor \<Rightarrow> cty_type \<times> schemaError option" where
  "physicalConstraintForFieldKindSingle field =
     (case Kind field of
        BoolKind \<Rightarrow> (cty_Bool, None)
      | EnumKind \<Rightarrow> (cty_String, None)
      | Int32Kind \<Rightarrow> (cty_Number, None) | Sint32Kind \<Rightarrow> (cty_Number, None)
      | Uint32Kind \<Rightarrow> (cty_Number, None) | Int64Kind \<Rightarrow> (cty_Number, None)
      | Sint64Kind \<Rightarrow> (cty_Number, None) | Uint64Kind \<Rightarrow> (cty_Number, None)
      | Sfixed32Kind \<Rightarrow> (cty_Number, None) | Fixed32Kind \<Rightarrow> (cty_Number, None)
      | Sfixed64Kind \<Rightarrow> (cty_Number, None) | Fixed64Kind \<Rightarrow> (cty_Number, None)
      | FloatKind \<Rightarrow> (cty_Number, None) | DoubleKind \<Rightarrow> (cty_Number, None)
      | StringKind \<Rightarrow> (cty_String, None)
      | MessageKind d \<Rightarrow>
          (cty_DynamicPseudoType,
           Some (schemaErrorf (FullName field) ''cannot decode a HCL value into a message-typed field''))
      | BytesKind \<Rightarrow> (cty_DynamicPseudoType, None)
      | GroupKind d \<Rightarrow>
          (cty_DynamicPseudoType,
           Some (schemaErrorf (FullName field)
                   (''cannot decode a HCL value into a '' @ Kind_String (Kind field) @ '' field''))))"

definition valuePhysicalConstraintForFieldKind ::
  "ext \<Rightarrow> cty_type \<Rightarrow> FieldDescriptor \<Rightarrow> cty_type \<times> schemaError option" where
  "valuePhysicalConstraintForFieldKind x ty field =
     (if IsList field then
        (case physicalConstraintForFieldKindSingle field of
           (ety, Some err) \<Rightarrow> (cty_DynamicPseudoType, Some err)
         | (ety, None) \<Rightarrow>
             (case ty of
                cty_Tuple etys \<Rightarrow> (cty_Tuple (map (\<lambda>t. ety) etys), None)
              | cty_List t \<Rightarrow> (cty_List ety, None)
              | cty_Set t \<Rightarrow> (cty_List ety, None)
              | t \<Rightarrow> (cty_DynamicPseudoType,
                     Some (schemaErrorf (FullName field)
                             (''can't populate list field from HCL '' @ FriendlyName x ty)))))
      else case MapKV field of
        Some (k, mapValue) \<Rightarrow>
          (case physicalConstraintForFieldKindSingle mapValue of
             (ety, Some err) \<Rightarrow> (cty_DynamicPseudoType, Some err)
           | (ety, None) \<Rightarrow>
               (case ty of
                  cty_Object atys \<Rightarrow> (cty_Object (map (\<lambda>p. (fst p, ety)) atys), None)
                | cty_Map t \<Rightarrow> (cty_Map ety, None)
                | t \<Rightarrow> (cty_DynamicPseudoType,
                       Some (schemaErrorf (FullName field)
                               (''can't populate map field from HCL '' @ FriendlyName x ty)))))
      | None \<Rightarrow> physicalConstraintForFieldKindSingle field)"

section \<open>Value conversion\<close>

definition unsuitableValueSummary :: string where
  "unsuitableValueSummary = ''Unsuitable attribute value''"

text \<open>
  \<open>big.Float.Int\<close> truncates towards zero and returns nil for an infinity;
  \<open>big.Float.IsInt\<close> is false for an infinity.
\<close>

fun bigFloat_Int :: "Number \<Rightarrow> int option" where
  "bigFloat_Int (Finite r) = Some (if 0 \<le> r then \<lfloor>r\<rfloor> else \<lceil>r\<rceil>)"
| "bigFloat_Int PositiveInfinity = None"
| "bigFloat_Int NegativeInfinity = None"

fun bigFloat_IsInt :: "Number \<Rightarrow> bool" where
  "bigFloat_IsInt (Finite r) = (of_int \<lfloor>r\<rfloor> = r)"
| "bigFloat_IsInt PositiveInfinity = False"
| "bigFloat_IsInt NegativeInfinity = False"

definition valueDiag :: "string \<Rightarrow> Range \<Rightarrow> Diagnostic" where
  "valueDiag detail rng =
     \<lparr>Severity = DiagError, Summary = unsuitableValueSummary, Detail = detail,
      Subject = Some rng, Context = None\<rparr>"

definition contextDiag :: "string \<Rightarrow> Range \<Rightarrow> Diagnostic" where
  "contextDiag detail rng =
     \<lparr>Severity = DiagError, Summary = unsuitableValueSummary, Detail = detail,
      Subject = None, Context = Some rng\<rparr>"

text \<open>
  \<open>intValueForFixedIntegerField\<close>: the integer part of the value with the diagnostics
  of the integrality and range checks, in the order the source makes them. The
  integer part is \<open>None\<close> where the source holds a nil pointer.
\<close>

definition intValueForFixedIntegerField ::
  "cty_value \<Rightarrow> Range \<Rightarrow> int \<Rightarrow> int \<Rightarrow> (int option \<times> Diagnostics) option" where
  "intValueForFixedIntegerField val rng minv maxv =
     (case AsBigFloat val of
        None \<Rightarrow> None
      | Some bf \<Rightarrow>
          (let bi = bigFloat_Int bf in
           if \<not> bigFloat_IsInt bf then
             Some (bi, [valueDiag ''The value must be a whole number.'' rng])
           else case bi of
             None \<Rightarrow> None
           | Some i \<Rightarrow>
               if i < minv then
                 Some (bi, [valueDiag (''The value must be greater than or equal to '' @ showInt minv @ ''.'') rng])
               else if maxv < i then
                 Some (bi, [valueDiag (''The value must be less than or equal to '' @ showInt maxv @ ''.'') rng])
               else Some (bi, [])))"

definition MinInt32 :: int where "MinInt32 = - (2 ^ 31)"
definition MaxInt32 :: int where "MaxInt32 = 2 ^ 31 - 1"
definition MinInt64 :: int where "MinInt64 = - (2 ^ 63)"
definition MaxInt64 :: int where "MaxInt64 = 2 ^ 63 - 1"
definition MaxUint32 :: int where "MaxUint32 = 2 ^ 32 - 1"
definition MaxUint64 :: int where "MaxUint64 = 2 ^ 64 - 1"

text \<open>
  The integer cases of \<open>protoValueForSingletonFieldKind\<close> read the integer through
  \<open>bi.Int64()\<close> or \<open>bi.Uint64()\<close>, which dereference it: a nil integer is a panic.
\<close>

definition fixedIntegerResult ::
  "(int \<Rightarrow> pval) \<Rightarrow> (int option \<times> Diagnostics) option \<Rightarrow> (pval \<times> Diagnostics) option" where
  "fixedIntegerResult mk r =
     (case r of
        None \<Rightarrow> None
      | Some (None, moreDiags) \<Rightarrow> None
      | Some (Some i, moreDiags) \<Rightarrow> Some (mk i, moreDiags))"

definition protoValueForSingletonFieldKind ::
  "cty_value \<Rightarrow> Range \<Rightarrow> FieldDescriptor \<Rightarrow> (pval \<times> Diagnostics) option" where
  "protoValueForSingletonFieldKind val rng field =
     (case Kind field of
        BoolKind \<Rightarrow> (case True_of val of None \<Rightarrow> None | Some b \<Rightarrow> Some (P_Bool b, []))
      | EnumKind \<Rightarrow>
          Some (NewField field, [contextDiag ''Decoding enum-typed fields isn't supported yet.'' rng])
      | Int32Kind \<Rightarrow> fixedIntegerResult (\<lambda>i. P_Int32 (word_of_int i))
                       (intValueForFixedIntegerField val rng MinInt32 MaxInt32)
      | Sint32Kind \<Rightarrow> fixedIntegerResult (\<lambda>i. P_Int32 (word_of_int i))
                       (intValueForFixedIntegerField val rng MinInt32 MaxInt32)
      | Sfixed32Kind \<Rightarrow> fixedIntegerResult (\<lambda>i. P_Int32 (word_of_int i))
                       (intValueForFixedIntegerField val rng MinInt32 MaxInt32)
      | Int64Kind \<Rightarrow> fixedIntegerResult (\<lambda>i. P_Int64 (word_of_int i))
                       (intValueForFixedIntegerField val rng MinInt64 MaxInt64)
      | Sint64Kind \<Rightarrow> fixedIntegerResult (\<lambda>i. P_Int64 (word_of_int i))
                       (intValueForFixedIntegerField val rng MinInt64 MaxInt64)
      | Sfixed64Kind \<Rightarrow> fixedIntegerResult (\<lambda>i. P_Int64 (word_of_int i))
                       (intValueForFixedIntegerField val rng MinInt64 MaxInt64)
      | Uint32Kind \<Rightarrow> fixedIntegerResult (\<lambda>i. P_Uint32 (word_of_int \<bar>i\<bar>))
                       (intValueForFixedIntegerField val rng 0 MaxUint32)
      | Fixed32Kind \<Rightarrow> fixedIntegerResult (\<lambda>i. P_Uint32 (word_of_int \<bar>i\<bar>))
                       (intValueForFixedIntegerField val rng 0 MaxUint32)
      | Uint64Kind \<Rightarrow> fixedIntegerResult (\<lambda>i. P_Uint64 (word_of_int \<bar>i\<bar>))
                       (intValueForFixedIntegerField val rng 0 MaxUint64)
      | Fixed64Kind \<Rightarrow> fixedIntegerResult (\<lambda>i. P_Uint64 (word_of_int \<bar>i\<bar>))
                       (intValueForFixedIntegerField val rng 0 MaxUint64)
      | StringKind \<Rightarrow> (case AsString val of None \<Rightarrow> None | Some s \<Rightarrow> Some (P_String s, []))
      | MessageKind d \<Rightarrow>
          Some (NewField field, [contextDiag ''Decoding message-typed fields isn't supported yet.'' rng])
      | FloatKind \<Rightarrow> None
      | DoubleKind \<Rightarrow> None
      | BytesKind \<Rightarrow> None
      | GroupKind d \<Rightarrow> None)"

definition internalErrorDiag :: "string \<Rightarrow> string \<Rightarrow> Diagnostic" where
  "internalErrorDiag codec err =
     \<lparr>Severity = DiagError,
      Summary = ''Internal error while decoding configuration'',
      Detail = ''This attribute value is not compatible with the '' @ codec
        @ '' field where it'll be stored internally: '' @ err @ ''.'' @ [newline, newline]
        @ ''This is a bug in the configuration schema.'',
      Subject = None, Context = None\<rparr>"

text \<open>
  \<open>protoValueForSingletonRawField\<close>. The source tests the still-empty \<open>diags\<close> after
  \<open>attr.TypeConstraint()\<close>, so the diagnostics of the type expression are never
  looked at here.
\<close>

definition protoValueForSingletonRawField ::
  "ext \<Rightarrow> cty_value \<Rightarrow> Range \<Rightarrow> FieldAttribute \<Rightarrow> (pval \<times> Diagnostics) option" where
  "protoValueForSingletonRawField x val rng attr =
     (case TypeConstraint x attr of
        (ty, moreDiags) \<Rightarrow>
          (case RawMode attr of
             MESSAGEPACK \<Rightarrow>
               (case ctymsgpack_Marshal x val ty of
                  Inl err \<Rightarrow> Some (P_Bytes [], [internalErrorDiag ''MessagePack'' err])
                | Inr rawVal \<Rightarrow> Some (P_Bytes rawVal, []))
           | JSON \<Rightarrow>
               (case ctyjson_Marshal x val ty of
                  Inl err \<Rightarrow> Some (P_Bytes [], [internalErrorDiag ''JSON'' err])
                | Inr rawVal \<Rightarrow> Some (P_Bytes rawVal, []))
           | NOT_RAW \<Rightarrow> None
           | RawMode_Other n \<Rightarrow>
               Some (P_Bytes [],
                     [schemaErrorDiagnostic (schemaErrorf (FullName (TargetField attr))
                        (''invalid raw mode '' @ RawMode_String (RawMode attr)))])))"

definition protoValueForSingletonField ::
  "ext \<Rightarrow> cty_value \<Rightarrow> Range \<Rightarrow> FieldDescriptor \<Rightarrow> (pval \<times> Diagnostics) option" where
  "protoValueForSingletonField x val rng field =
     (case GetFieldElem field of
        None \<Rightarrow> None
      | Some (Inl err) \<Rightarrow> Some (P_Invalid, [schemaErrorDiagnostic err])
      | Some (Inr (Some (ElemAttribute attr))) \<Rightarrow>
          if RawMode attr \<noteq> NOT_RAW then
            (if Kind field \<noteq> BytesKind then None
             else protoValueForSingletonRawField x val rng attr)
          else if Kind field = BytesKind then None
          else if \<not> IsKnown val then
            Some (NewField field, [contextDiag ''Unknown values are not allowed here.'' rng])
          else protoValueForSingletonFieldKind val rng field
      | Some (Inr other) \<Rightarrow> None)"

fun protoValueForListField_loop ::
  "ext \<Rightarrow> cty_value list \<Rightarrow> Range \<Rightarrow> FieldDescriptor \<Rightarrow> pval list \<Rightarrow> Diagnostics
     \<Rightarrow> (pval \<times> Diagnostics) option" where
  "protoValueForListField_loop x [] rng field list diags = Some (P_List list, diags)"
| "protoValueForListField_loop x (v # vals) rng field list diags =
     (case protoValueForSingletonField x v rng field of
        None \<Rightarrow> None
      | Some (protoVal, moreDiags) \<Rightarrow>
          if HasErrors moreDiags then
            protoValueForListField_loop x vals rng field list (diags @ moreDiags)
          else
            protoValueForListField_loop x vals rng field (list @ [protoVal]) (diags @ moreDiags))"

definition protoValueForListField ::
  "ext \<Rightarrow> cty_value list \<Rightarrow> Range \<Rightarrow> FieldDescriptor \<Rightarrow> (pval \<times> Diagnostics) option" where
  "protoValueForListField x vals rng field = protoValueForListField_loop x vals rng field [] []"

text \<open>
  \<open>protoValueForMapField\<close> visits the entries of a Go map, whose order the language
  leaves open; the model visits them in the order of the association list.
\<close>

fun protoValueForMapField_loop ::
  "(string \<times> cty_value) list \<Rightarrow> Range \<Rightarrow> FieldDescriptor \<Rightarrow> FieldDescriptor
     \<Rightarrow> (pval \<times> pval) list \<Rightarrow> Diagnostics \<Rightarrow> (pval \<times> Diagnostics) option" where
  "protoValueForMapField_loop [] rng field mapValField protoMap diags = Some (P_Map protoMap, diags)"
| "protoValueForMapField_loop ((k, v) # vals) rng field mapValField protoMap diags =
     (if \<not> IsKnown v then
        Some (NewField field, diags @ [contextDiag ''Unknown values are not allowed here.'' rng])
      else case protoValueForSingletonFieldKind v rng mapValField of
        None \<Rightarrow> None
      | Some (protoVal, moreDiags) \<Rightarrow>
          if HasErrors moreDiags then
            protoValueForMapField_loop vals rng field mapValField protoMap (diags @ moreDiags)
          else
            protoValueForMapField_loop vals rng field mapValField
              (AList.update (P_String k) protoVal protoMap) (diags @ moreDiags))"

definition protoValueForMapField ::
  "(string \<times> cty_value) list \<Rightarrow> Range \<Rightarrow> FieldDescriptor \<Rightarrow> (pval \<times> Diagnostics) option" where
  "protoValueForMapField vals rng field =
     (case MapKV field of
        None \<Rightarrow> None
      | Some (k, mapValField) \<Rightarrow> protoValueForMapField_loop vals rng field mapValField [] [])"

definition protoValueForField ::
  "ext \<Rightarrow> cty_value \<Rightarrow> Range \<Rightarrow> FieldDescriptor \<Rightarrow> (pval \<times> Diagnostics) option" where
  "protoValueForField x val rng field =
     (let ty = Type val in
      if IsList field then
        (if IsListType ty \<or> IsSetType ty \<or> IsTupleType ty then
           (case AsValueSlice val of
              None \<Rightarrow> None
            | Some vals \<Rightarrow> protoValueForListField x vals rng field)
         else Some (NewField field, [valueDiag ''This argument requires a sequence of values.'' rng]))
      else if IsMap field then
        (if IsMapType ty \<or> IsObjectType ty then
           (case AsValueMap val of
              None \<Rightarrow> None
            | Some vals \<Rightarrow> protoValueForMapField vals rng field)
         else Some (NewField field,
                    [valueDiag ''This argument requires a mapping from strings to values.'' rng]))
      else protoValueForSingletonField x val rng field)"

section \<open>Schema compiler\<close>

record AttributeSchema =
  as_Name :: string
  as_Required :: bool

record BlockHeaderSchema =
  bh_Type :: string
  LabelNames :: "string list"

record BodySchema =
  schema_Attributes :: "AttributeSchema list"
  schema_Blocks :: "BlockHeaderSchema list"

definition attributeSchema :: "FieldAttribute \<Rightarrow> AttributeSchema" where
  "attributeSchema elem = \<lparr>as_Name = Name elem, as_Required = Required elem\<rparr>"

text \<open>
  \<open>blockTypeSchema\<close> collects the label names of the nested message, in field order;
  a field whose annotations do not resolve is passed over.
\<close>

fun blockTypeSchema_labels :: "FieldDescriptor list \<Rightarrow> string list option" where
  "blockTypeSchema_labels [] = Some []"
| "blockTypeSchema_labels (field # fs) =
     (case GetFieldElem field of
        None \<Rightarrow> None
      | Some (Inr (Some (ElemBlockLabel n))) \<Rightarrow>
          (case blockTypeSchema_labels fs of None \<Rightarrow> None | Some ns \<Rightarrow> Some (n # ns))
      | Some other \<Rightarrow> blockTypeSchema_labels fs)"

definition blockTypeSchema :: "FieldNestedBlockType \<Rightarrow> BlockHeaderSchema option" where
  "blockTypeSchema elem =
     (case blockTypeSchema_labels (Fields (Nested elem)) of
        None \<Rightarrow> None
      | Some labelNames \<Rightarrow> Some \<lparr>bh_Type = TypeName elem, LabelNames = labelNames\<rparr>)"

text \<open>
  The state of the loop in \<open>bodySchema\<close>: the schema built so far and the three
  registries of names already used, each mapping a name to the declaration that
  introduced it.
\<close>

record schemaState =
  ret :: BodySchema
  attrs :: "string \<Rightarrow> string option"
  blockTypes :: "string \<Rightarrow> string option"
  blockLabels :: "string \<Rightarrow> string option"

definition initialSchemaState :: schemaState where
  "initialSchemaState =
     \<lparr>ret = \<lparr>schema_Attributes = [], schema_Blocks = []\<rparr>,
      attrs = Map.empty, blockTypes = Map.empty, blockLabels = Map.empty\<rparr>"

definition addAttribute :: "string \<Rightarrow> AttributeSchema \<Rightarrow> schemaState \<Rightarrow> schemaState" where
  "addAttribute decl attrS st =
     st\<lparr>ret := (ret st)\<lparr>schema_Attributes := schema_Attributes (ret st) @ [attrS]\<rparr>,
        attrs := (attrs st)(as_Name attrS \<mapsto> decl)\<rparr>"

definition addBlock :: "string \<Rightarrow> BlockHeaderSchema \<Rightarrow> schemaState \<Rightarrow> schemaState" where
  "addBlock decl blockS st =
     st\<lparr>ret := (ret st)\<lparr>schema_Blocks := schema_Blocks (ret st) @ [blockS]\<rparr>,
        blockTypes := (blockTypes st)(bh_Type blockS \<mapsto> decl)\<rparr>"

text \<open>
  The three conflict checks that precede every registration. The prefix of the
  message says what is being declared; the first registry that knows the name
  decides the rest of the message.
\<close>

definition conflictOf ::
  "string \<Rightarrow> string \<Rightarrow> string \<Rightarrow> string \<Rightarrow> string \<Rightarrow> string \<Rightarrow> schemaState \<Rightarrow> schemaError option" where
  "conflictOf decl what name inAttrs inBlockTypes inBlockLabels st =
     (case attrs st name of
        Some existingName \<Rightarrow>
          Some (schemaErrorf decl (what @ quoteGo name @ inAttrs @ existingName))
      | None \<Rightarrow>
          (case blockTypes st name of
             Some existingName \<Rightarrow>
               Some (schemaErrorf decl (what @ quoteGo name @ inBlockTypes @ existingName))
           | None \<Rightarrow>
               (case blockLabels st name of
                  Some existingName \<Rightarrow>
                    Some (schemaErrorf decl (what @ quoteGo name @ inBlockLabels @ existingName))
                | None \<Rightarrow> None)))"

definition declareAttribute :: "FieldDescriptor \<Rightarrow> AttributeSchema \<Rightarrow> schemaState \<Rightarrow> schemaError + schemaState" where
  "declareAttribute field attrS st =
     (case conflictOf (FullName field) ''declaration of attribute '' (as_Name attrS)
             '' conflicts with '' '' conflicts with block type declared by ''
             '' conflicts with block label name declared by '' st of
        Some err \<Rightarrow> Inl err
      | None \<Rightarrow> Inr (addAttribute (FullName field) attrS st))"

definition declareBlock :: "FieldDescriptor \<Rightarrow> BlockHeaderSchema \<Rightarrow> schemaState \<Rightarrow> schemaError + schemaState" where
  "declareBlock field blockS st =
     (case conflictOf (FullName field) ''declaration of block type '' (bh_Type blockS)
             '' conflicts with attribute declared by '' '' conflicts with ''
             '' conflicts with block label name declared by '' st of
        Some err \<Rightarrow> Inl err
      | None \<Rightarrow> Inr (addBlock (FullName field) blockS st))"

fun flattenAttributes :: "FieldDescriptor \<Rightarrow> AttributeSchema list \<Rightarrow> schemaState \<Rightarrow> schemaError + schemaState" where
  "flattenAttributes field [] st = Inr st"
| "flattenAttributes field (attrS # rest) st =
     (case conflictOf (FullName field) ''flattened-in attribute '' (as_Name attrS)
             '' conflicts with '' '' conflicts with block type declared by ''
             '' conflicts with block label name declared by '' st of
        Some err \<Rightarrow> Inl err
      | None \<Rightarrow> flattenAttributes field rest (addAttribute (FullName field) attrS st))"

fun flattenBlocks :: "FieldDescriptor \<Rightarrow> BlockHeaderSchema list \<Rightarrow> schemaState \<Rightarrow> schemaError + schemaState" where
  "flattenBlocks field [] st = Inr st"
| "flattenBlocks field (blockS # rest) st =
     (case conflictOf (FullName field) ''flattened-in block type '' (bh_Type blockS)
             '' conflicts with attribute declared by '' '' conflicts with ''
             '' conflicts with block label name declared by '' st of
        Some err \<Rightarrow> Inl err
      | None \<Rightarrow> flattenBlocks field rest (addBlock (FullName field) blockS st))"

definition declareLabel :: "FieldDescriptor \<Rightarrow> string \<Rightarrow> schemaState \<Rightarrow> schemaError + schemaState" where
  "declareLabel field name st =
     (case conflictOf (FullName field) ''block label name '' name
             '' conflicts with attribute declared by '' '' conflicts with '' '' conflicts '' st of
        Some err \<Rightarrow> Inl err
      | None \<Rightarrow> Inr (st\<lparr>blockLabels := (blockLabels st)(name \<mapsto> FullName field)\<rparr>))"

lemma size_MapKV_Kind [termination_simp]:
  "Kind field = MessageKind nested \<Longrightarrow> size nested < size field"
  by (cases field) simp

lemma GetFieldElem_Flattened_size:
  "GetFieldElem field = Some (Inr (Some (ElemFlattened nested))) \<Longrightarrow> size nested < size field"
  by (auto simp: GetFieldElem_def GetFieldElem_attr_def GetFieldElem_block_def
      GetFieldElem_flatten_def schemaFail_def Let_def
      split: option.splits if_splits Kind.splits dest: size_MapKV_Kind)

lemma GetFieldElem_Nested_size:
  "GetFieldElem field = Some (Inr (Some (ElemNestedBlockType elem))) \<Longrightarrow> size (Nested elem) < size field"
  by (auto simp: GetFieldElem_def GetFieldElem_attr_def GetFieldElem_block_def
      GetFieldElem_flatten_def schemaFail_def Let_def
      split: option.splits if_splits Kind.splits dest: size_MapKV_Kind)

lemma size_Fields: "size_list size (Fields desc) < size desc"
  by (cases desc) simp

text \<open>
  \<open>bodySchema\<close>: first the scan for a tagged-union group that is not synthetic, then
  the walk over the fields. A flattened child is compiled by the recursive call and
  its attributes and blocks are merged entry by entry.
\<close>

function bodySchema :: "MessageDescriptor \<Rightarrow> (schemaError + BodySchema) option"
  and bodySchema_fields ::
    "MessageDescriptor \<Rightarrow> FieldDescriptor list \<Rightarrow> schemaState \<Rightarrow> (schemaError + BodySchema) option" where
  "bodySchema desc =
     (case find (\<lambda>oneOf. \<not> IsSynthetic oneOf) (Oneofs desc) of
        Some oneOf \<Rightarrow>
          Some (Inl (schemaErrorf (oneof_FullName oneOf)
            ''oneof declarations are not yet supported in messages used for HCL decoding''))
      | None \<Rightarrow> bodySchema_fields desc (Fields desc) initialSchemaState)"
| "bodySchema_fields desc [] st = Some (Inr (ret st))"
| "bodySchema_fields desc (field # fs) st =
     (case GetFieldElem field of
        None \<Rightarrow> None
      | Some (Inl err) \<Rightarrow> Some (Inl err)
      | Some (Inr None) \<Rightarrow> bodySchema_fields desc fs st
      | Some (Inr (Some (ElemAttribute elem))) \<Rightarrow>
          (case declareAttribute field (attributeSchema elem) st of
             Inl err \<Rightarrow> Some (Inl err)
           | Inr st' \<Rightarrow> bodySchema_fields desc fs st')
      | Some (Inr (Some (ElemNestedBlockType elem))) \<Rightarrow>
          (case blockTypeSchema elem of
             None \<Rightarrow> None
           | Some blockS \<Rightarrow>
               (case declareBlock field blockS st of
                  Inl err \<Rightarrow> Some (Inl err)
                | Inr st' \<Rightarrow> bodySchema_fields desc fs st'))
      | Some (Inr (Some (ElemFlattened nested))) \<Rightarrow>
          (case bodySchema nested of
             None \<Rightarrow> None
           | Some (Inl err) \<Rightarrow>
               Some (Inl (schemaErrorf (MessageFullName desc)
                 (''invalid message to flatten: '' @ schemaError_Error err)))
           | Some (Inr nestSchema) \<Rightarrow>
               (case flattenAttributes field (schema_Attributes nestSchema) st of
                  Inl err \<Rightarrow> Some (Inl err)
                | Inr st' \<Rightarrow>
                    (case flattenBlocks field (schema_Blocks nestSchema) st' of
                       Inl err \<Rightarrow> Some (Inl err)
                     | Inr st'' \<Rightarrow> bodySchema_fields desc fs st'')))
      | Some (Inr (Some (ElemBlockLabel name))) \<Rightarrow>
          (case declareLabel field name st of
             Inl err \<Rightarrow> Some (Inl err)
           | Inr st' \<Rightarrow> bodySchema_fields desc fs st'))"
  by pat_completeness auto

termination
  by (relation "measure (\<lambda>a. case a of
        Inl desc \<Rightarrow> 2 * size desc + 1
      | Inr (desc, fs, st) \<Rightarrow> 2 * size_list size fs)")
     (auto dest!: GetFieldElem_Flattened_size intro: le_less_trans [OF _ size_Fields]
        simp: less_Suc_eq_le size_Fields [THEN less_imp_le])

declare bodySchema.simps [simp del]

section \<open>Body-to-message decoder\<close>

text \<open>
  The host library's body is an external collaborator: a body is what its \<open>Content\<close>
  method returns for a schema (none when schema compilation failed) together with its
  missing-item range. An expression is represented by the result of evaluating it in
  the evaluation context of the call, and by its source range.
\<close>

record Expression =
  expr_Value :: "cty_value \<times> Diagnostics"
  expr_Range :: Range

record hclAttribute =
  ha_Name :: string
  Expr :: Expression
  NameRange :: Range

datatype Body =
  Body (Content: "BodySchema option \<Rightarrow> BodyContent \<times> Diagnostics") (MissingItemRange: Range)
and BodyContent =
  BodyContent (Attributes: "string \<Rightarrow> hclAttribute option") (Blocks: "Block list")
and Block =
  Block (block_Type: string) (Labels: "string list") (block_Body: Body)
    (DefRange: Range) (TypeRange: Range)

definition missingArgumentDiag :: "FieldAttribute \<Rightarrow> Range \<Rightarrow> Diagnostic" where
  "missingArgumentDiag elem missingRange =
     \<lparr>Severity = DiagError, Summary = ''Missing required argument'',
      Detail = ''The argument '' @ quoteGo (Name elem) @ '' is required, but no definition was found.'',
      Subject = Some missingRange, Context = None\<rparr>"

definition attributeDiag :: "ext \<Rightarrow> string \<Rightarrow> hclAttribute \<Rightarrow> Diagnostic" where
  "attributeDiag x detail attr =
     \<lparr>Severity = DiagError, Summary = unsuitableValueSummary, Detail = detail,
      Subject = Some (expr_Range (Expr attr)),
      Context = Some (RangeBetween x (NameRange attr) (expr_Range (Expr attr)))\<rparr>"

definition inappropriateValueDiag :: "ext \<Rightarrow> FieldAttribute \<Rightarrow> string \<Rightarrow> hclAttribute \<Rightarrow> Diagnostic" where
  "inappropriateValueDiag x elem err attr =
     attributeDiag x (''Inappropriate value for attribute '' @ quoteGo (Name elem) @ '': '' @ err @ ''.'') attr"

definition requiredNullDiag :: "ext \<Rightarrow> FieldAttribute \<Rightarrow> hclAttribute \<Rightarrow> Diagnostic" where
  "requiredNullDiag x elem attr =
     attributeDiag x (''Attribute '' @ quoteGo (Name elem) @ '' is required, so must not be null.'') attr"

definition duplicateBlockDiag :: "FieldNestedBlockType \<Rightarrow> Block \<Rightarrow> Block \<Rightarrow> Diagnostic" where
  "duplicateBlockDiag elem found block =
     \<lparr>Severity = DiagError,
      Summary = ''Duplicate '' @ TypeName elem @ '' block'',
      Detail = ''There may be no more than one '' @ TypeName elem
        @ '' block. Previous block declared at '' @ Range_String (DefRange found) @ ''.'',
      Subject = Some (TypeRange block), Context = Some (DefRange block)\<rparr>"

text \<open>
  The attribute case of the loop body of \<open>fillMessageFromContent\<close>, in two parts.
  \<open>attributeValue\<close> is the part from the lookup of the attribute to the second
  conversion: \<open>Inl diags\<close> where the source leaves the case with \<open>continue\<close> (the field
  stays cleared), \<open>Inr (attr, val, diags)\<close> where it goes on to \<open>protoValueForField\<close>
  with the value \<open>val\<close>. \<open>fillAttribute\<close> clears the field at position \<open>i\<close>, and
  stores the converted value only when the conversion reports no error.
\<close>

definition attributeValue ::
  "ext \<Rightarrow> BodyContent \<Rightarrow> Range \<Rightarrow> FieldDescriptor \<Rightarrow> FieldAttribute
     \<Rightarrow> Diagnostics + (hclAttribute \<times> cty_value \<times> Diagnostics)" where
  "attributeValue x content missingRange field elem =
     (case Attributes content (Name elem) of
        None \<Rightarrow> Inl (if Required elem then [missingArgumentDiag elem missingRange] else [])
      | Some attr \<Rightarrow>
          (case expr_Value (Expr attr) of
             (val, valDiags) \<Rightarrow>
               if HasErrors valDiags then Inl valDiags
               else
                 (case TypeConstraint x elem of
                    (wantTy, tyDiags) \<Rightarrow>
                      if HasErrors tyDiags then Inl (valDiags @ tyDiags)
                      else
                        (case convert_Convert x val wantTy of
                           Inl err \<Rightarrow>
                             Inl (valDiags @ tyDiags @ [inappropriateValueDiag x elem err attr])
                         | Inr val1 \<Rightarrow>
                             if IsNull val1 then
                               Inl (valDiags @ tyDiags
                                      @ (if Required elem then [requiredNullDiag x elem attr] else []))
                             else
                               (case valuePhysicalConstraintForFieldKind x (Type val1) field of
                                  (needTy, physErr) \<Rightarrow>
                                    (let physDiags =
                                           (case physErr of None \<Rightarrow> []
                                            | Some err \<Rightarrow> [schemaErrorDiagnostic err])
                                     in case convert_Convert x val1 needTy of
                                          Inl err \<Rightarrow>
                                            Inl (valDiags @ tyDiags @ physDiags
                                                   @ [inappropriateValueDiag x elem err attr])
                                        | Inr val2 \<Rightarrow>
                                            Inr (attr, val2, valDiags @ tyDiags @ physDiags)))))))"

definition fillAttribute ::
  "ext \<Rightarrow> BodyContent \<Rightarrow> Range \<Rightarrow> FieldDescriptor \<Rightarrow> nat \<Rightarrow> FieldAttribute \<Rightarrow> Message
     \<Rightarrow> (Message \<times> Diagnostics) option" where
  "fillAttribute x content missingRange field i elem msg0 =
     (let msg = msg_Clear msg0 i in
      case attributeValue x content missingRange field elem of
        Inl diags \<Rightarrow> Some (msg, diags)
      | Inr (attr, val, diags) \<Rightarrow>
          (case protoValueForField x val (expr_Range (Expr attr)) field of
             None \<Rightarrow> None
           | Some (protoVal, moreDiags) \<Rightarrow>
               if HasErrors moreDiags then Some (msg, diags @ moreDiags)
               else Some (msg_Set msg i protoVal, diags @ moreDiags)))"

text \<open>
  The second loop of \<open>newMessageForBlock\<close>: the labels of the block are written, in
  order, into the label fields of the nested message. Reading a label that the block
  does not have is an index out of range.
\<close>

fun bindLabels :: "FieldDescriptor list \<Rightarrow> nat \<Rightarrow> string list \<Rightarrow> nat \<Rightarrow> Message \<Rightarrow> Message option" where
  "bindLabels [] i labels nextLabel msg = Some msg"
| "bindLabels (nestedField # fs) i labels nextLabel msg =
     (case GetFieldElem nestedField of
        None \<Rightarrow> None
      | Some (Inr (Some (ElemBlockLabel n))) \<Rightarrow>
          if nextLabel < length labels then
            bindLabels fs (Suc i) labels (Suc nextLabel) (msg_Set msg i (P_String (labels ! nextLabel)))
          else None
      | Some other \<Rightarrow> bindLabels fs (Suc i) labels nextLabel msg)"

text \<open>
  \<open>DecodeBody\<close>, \<open>fillMessageFromContent\<close> and \<open>newMessageForBlock\<close>, with the loops of
  \<open>fillMessageFromContent\<close> as functions of their own: \<open>fillFields\<close> is the loop over
  the fields from position \<open>i\<close> on, \<open>fillField\<close> its body, \<open>fillRepeatedBlocks\<close> and
  \<open>fillSingletonBlock\<close> the two loops over the blocks of the content. The list that
  \<open>fillRepeatedBlocks\<close> builds is the one the source obtains from \<open>msg.NewField\<close>;
  the source never stores it in the message.
\<close>

function DecodeBody :: "ext \<Rightarrow> Body \<Rightarrow> MessageDescriptor \<Rightarrow> (Message \<times> Diagnostics) option"
  and fillMessageFromContent ::
    "ext \<Rightarrow> BodyContent \<Rightarrow> Range \<Rightarrow> MessageDescriptor \<Rightarrow> Message \<Rightarrow> bool
       \<Rightarrow> (Message \<times> Diagnostics) option"
  and fillFields ::
    "ext \<Rightarrow> BodyContent \<Rightarrow> Range \<Rightarrow> FieldDescriptor list \<Rightarrow> nat \<Rightarrow> Message \<Rightarrow> bool
       \<Rightarrow> (Message \<times> Diagnostics) option"
  and fillField ::
    "ext \<Rightarrow> BodyContent \<Rightarrow> Range \<Rightarrow> FieldDescriptor \<Rightarrow> nat \<Rightarrow> Message \<Rightarrow> bool
       \<Rightarrow> (Message \<times> Diagnostics) option"
  and fillRepeatedBlocks ::
    "ext \<Rightarrow> Block list \<Rightarrow> FieldNestedBlockType \<Rightarrow> (pval list \<times> Diagnostics) option"
  and fillSingletonBlock ::
    "ext \<Rightarrow> Block list \<Rightarrow> FieldNestedBlockType \<Rightarrow> Block option \<Rightarrow> nat \<Rightarrow> Message
       \<Rightarrow> (Message \<times> Diagnostics) option"
  and newMessageForBlock ::
    "ext \<Rightarrow> Block \<Rightarrow> FieldNestedBlockType \<Rightarrow> (Message \<times> Diagnostics) option" where
  "DecodeBody x body desc =
     (case bodySchema desc of
        None \<Rightarrow> None
      | Some r \<Rightarrow>
          (let schema = (case r of Inl err \<Rightarrow> None | Inr s \<Rightarrow> Some s);
               diags0 = (case r of Inl err \<Rightarrow> [schemaErrorDiagnostic err] | Inr s \<Rightarrow> [])
           in case Content body schema of
                (content, moreDiags) \<Rightarrow>
                  (case fillMessageFromContent x content (MissingItemRange body) desc
                          (newMessageMaybeDynamic desc) (HasErrors (diags0 @ moreDiags)) of
                     None \<Rightarrow> None
                   | Some (msg, fillDiags) \<Rightarrow> Some (msg, diags0 @ moreDiags @ fillDiags))))"
| "fillMessageFromContent x content missingRange desc msg recovering =
     fillFields x content missingRange (Fields desc) 0 msg recovering"
| "fillFields x content missingRange [] i msg recovering = Some (msg, [])"
| "fillFields x content missingRange (field # fs) i msg recovering =
     (case fillField x content missingRange field i msg recovering of
        None \<Rightarrow> None
      | Some (msg', diags) \<Rightarrow>
          (case fillFields x content missingRange fs (Suc i) msg' recovering of
             None \<Rightarrow> None
           | Some (msg'', moreDiags) \<Rightarrow> Some (msg'', diags @ moreDiags)))"
| "fillField x content missingRange field i msg recovering =
     (case GetFieldElem field of
        None \<Rightarrow> None
      | Some (Inl err) \<Rightarrow> Some (msg, [schemaErrorDiagnostic err])
      | Some (Inr None) \<Rightarrow> Some (msg, [])
      | Some (Inr (Some (ElemAttribute elem))) \<Rightarrow>
          fillAttribute x content missingRange field i elem msg
      | Some (Inr (Some (ElemNestedBlockType elem))) \<Rightarrow>
          if Repeated elem then
            (case fillRepeatedBlocks x (Blocks content) elem of
               None \<Rightarrow> None
             | Some (list, diags) \<Rightarrow> Some (msg_Clear msg i, diags))
          else fillSingletonBlock x (Blocks content) elem None i (msg_Clear msg i)
      | Some (Inr (Some (ElemFlattened nested))) \<Rightarrow>
          (case fillMessageFromContent x content missingRange nested
                  (newMessageMaybeDynamic nested) recovering of
             None \<Rightarrow> None
           | Some (nestedMsg, diags) \<Rightarrow>
               Some (msg_Set (msg_Clear msg i) i (P_Message nestedMsg), diags))
      | Some (Inr (Some (ElemBlockLabel n))) \<Rightarrow> Some (msg, []))"
| "fillRepeatedBlocks x [] elem = Some ([], [])"
| "fillRepeatedBlocks x (block # blocks) elem =
     (if block_Type block \<noteq> TypeName elem then fillRepeatedBlocks x blocks elem
      else case newMessageForBlock x block elem of
             None \<Rightarrow> None
           | Some (nestedMsg, moreDiags) \<Rightarrow>
               (case fillRepeatedBlocks x blocks elem of
                  None \<Rightarrow> None
                | Some (list, diags) \<Rightarrow> Some (P_Message nestedMsg # list, moreDiags @ diags)))"
| "fillSingletonBlock x [] elem found i msg = Some (msg, [])"
| "fillSingletonBlock x (block # blocks) elem found i msg =
     (if block_Type block \<noteq> TypeName elem then fillSingletonBlock x blocks elem found i msg
      else case found of
             Some previous \<Rightarrow> Some (msg, [duplicateBlockDiag elem previous block])
           | None \<Rightarrow>
               (case newMessageForBlock x block elem of
                  None \<Rightarrow> None
                | Some (nestedMsg, moreDiags) \<Rightarrow>
                    (case fillSingletonBlock x blocks elem (Some block) i
                            (msg_Set msg i (P_Message nestedMsg)) of
                       None \<Rightarrow> None
                     | Some (msg', diags) \<Rightarrow> Some (msg', moreDiags @ diags))))"
| "newMessageForBlock x block elem =
     (case DecodeBody x (block_Body block) (Nested elem) of
        None \<Rightarrow> None
      | Some (nestedMsg, diags) \<Rightarrow>
          (case bindLabels (Fields (Nested elem)) 0 (Labels block) 0 nestedMsg of
             None \<Rightarrow> None
           | Some nestedMsgR \<Rightarrow> Some (nestedMsgR, diags)))"
  by pat_completeness auto

termination
  by (relation "measures
       [\<lambda>a. case a of
          Inl (Inl (x, body, desc)) \<Rightarrow> 2 * size desc
        | Inl (Inr (Inl (x, content, missingRange, desc, msg, recovering))) \<Rightarrow> 2 * size desc
        | Inl (Inr (Inr (x, content, missingRange, fs, i, msg, recovering))) \<Rightarrow> 2 * size_list size fs
        | Inr (Inl (Inl (x, content, missingRange, field, i, msg, recovering))) \<Rightarrow> 2 * size field + 1
        | Inr (Inl (Inr (x, blocks, elem))) \<Rightarrow> 2 * size (Nested elem) + 1
        | Inr (Inr (Inl (x, blocks, elem, found, i, msg))) \<Rightarrow> 2 * size (Nested elem) + 1
        | Inr (Inr (Inr (x, block, elem))) \<Rightarrow> 2 * size (Nested elem) + 1,
        \<lambda>a. case a of
          Inl (Inl (x, body, desc)) \<Rightarrow> 1
        | Inl (Inr (Inl (x, content, missingRange, desc, msg, recovering))) \<Rightarrow> 0
        | Inl (Inr (Inr (x, content, missingRange, fs, i, msg, recovering))) \<Rightarrow> 0
        | Inr (Inl (Inl (x, content, missingRange, field, i, msg, recovering))) \<Rightarrow> 0
        | Inr (Inl (Inr (x, blocks, elem))) \<Rightarrow> 1 + length blocks
        | Inr (Inr (Inl (x, blocks, elem, found, i, msg))) \<Rightarrow> 1 + length blocks
        | Inr (Inr (Inr (x, block, elem))) \<Rightarrow> 0]")
     (auto dest!: GetFieldElem_Flattened_size GetFieldElem_Nested_size
        intro: le_less_trans [OF _ size_Fields])

declare DecodeBody.simps [simp del] newMessageForBlock.simps [simp del]

section \<open>Object type constraint of a message\<close>

text \<open>
  \<open>ObjectTypeConstraintForMessageDesc\<close> and the loop of
  \<open>buildObjectTypeAtysForMessageDesc\<close> over the fields of a descriptor. The attribute
  types are collected in an association list that stands for the Go map.
\<close>

lemma size_Fields_nested:
  "size nested < size field \<Longrightarrow> 2 * size_list size (Fields nested) \<le> Suc (2 * size field + n)"
  using size_Fields [of nested] by linarith

function ObjectTypeConstraintForMessageDesc ::
    "ext \<Rightarrow> MessageDescriptor \<Rightarrow> (schemaError + cty_type) option"
  and buildObjectTypeAtys_fields ::
    "ext \<Rightarrow> FieldDescriptor list \<Rightarrow> (string \<times> cty_type) list
       \<Rightarrow> (schemaError + (string \<times> cty_type) list) option" where
  "ObjectTypeConstraintForMessageDesc x desc =
     (case buildObjectTypeAtys_fields x (Fields desc) [] of
        None \<Rightarrow> None
      | Some (Inl err) \<Rightarrow> Some (Inl err)
      | Some (Inr atys) \<Rightarrow> Some (Inr (cty_Object_of atys)))"
| "buildObjectTypeAtys_fields x [] atys = Some (Inr atys)"
| "buildObjectTypeAtys_fields x (field # fs) atys =
     (case GetFieldElem field of
        None \<Rightarrow> None
      | Some (Inl err) \<Rightarrow> Some (Inl err)
      | Some (Inr None) \<Rightarrow> buildObjectTypeAtys_fields x fs atys
      | Some (Inr (Some (ElemAttribute elem))) \<Rightarrow>
          (case TypeConstraint x elem of
             (aty, diags) \<Rightarrow>
               if HasErrors diags then
                 Some (Inl (schemaErrorf (FullName field) ''invalid type constraint expression''))
               else buildObjectTypeAtys_fields x fs (AList.update (Name elem) aty atys))
      | Some (Inr (Some (ElemNestedBlockType elem))) \<Rightarrow>
          (case ObjectTypeConstraintForMessageDesc x (Nested elem) of
             None \<Rightarrow> None
           | Some (Inl err) \<Rightarrow> Some (Inl err)
           | Some (Inr nestedTy) \<Rightarrow>
               (case CollectionKind elem of
                  AUTO \<Rightarrow> buildObjectTypeAtys_fields x fs (AList.update (TypeName elem) nestedTy atys)
                | TUPLE \<Rightarrow>
                    buildObjectTypeAtys_fields x fs
                      (AList.update (TypeName elem) cty_DynamicPseudoType atys)
                | LIST \<Rightarrow>
                    if HasDynamicTypes nestedTy then
                      Some (Inl (schemaErrorf (FullName field)
                        (''can't use (hcl.block).kind = LIST with a block type containing an attribute with an ''
                           @ squote ''any'' @ '' constraint'')))
                    else buildObjectTypeAtys_fields x fs
                           (AList.update (TypeName elem) (cty_List nestedTy) atys)
                | SET \<Rightarrow>
                    if HasDynamicTypes nestedTy then
                      Some (Inl (schemaErrorf (FullName field)
                        (''can't use (hcl.block).kind = SET with a block type containing an attribute with an ''
                           @ squote ''any'' @ '' constraint'')))
                    else buildObjectTypeAtys_fields x fs
                           (AList.update (TypeName elem) (cty_Set nestedTy) atys)
                | CollectionKind_Other n \<Rightarrow>
                    Some (Inl (schemaErrorf (FullName field)
                      (''unsupported block collection kind '' @ CollectionKind_String (CollectionKind elem))))))
      | Some (Inr (Some (ElemFlattened nestedDesc))) \<Rightarrow>
          (case buildObjectTypeAtys_fields x (Fields nestedDesc) atys of
             None \<Rightarrow> None
           | Some (Inl err) \<Rightarrow> Some (Inl err)
           | Some (Inr atys') \<Rightarrow> buildObjectTypeAtys_fields x fs atys')
      | Some (Inr (Some (ElemBlockLabel name))) \<Rightarrow>
          if Kind field \<noteq> StringKind \<or> IsList field \<or> IsMap field then
            Some (Inl (schemaErrorf (FullName field) ''only string fields can be used for block labels''))
          else buildObjectTypeAtys_fields x fs (AList.update name cty_String atys))"
  by pat_completeness auto

termination
  by (relation "measure (\<lambda>a. case a of
        Inl (x, desc) \<Rightarrow> 2 * size desc + 1
      | Inr (x, fs, atys) \<Rightarrow> 2 * size_list size fs)")
     (auto dest!: GetFieldElem_Flattened_size GetFieldElem_Nested_size
        intro: le_less_trans [OF _ size_Fields] size_Fields_nested
        simp: less_Suc_eq_le size_Fields [THEN less_imp_le])

declare ObjectTypeConstraintForMessageDesc.simps [simp del]

definition buildObjectTypeAtysForMessageDesc ::
  "ext \<Rightarrow> MessageDescriptor \<Rightarrow> (string \<times> cty_type) list
     \<Rightarrow> (schemaError + (string \<times> cty_type) list) option" where
  "buildObjectTypeAtysForMessageDesc x desc atys = buildObjectTypeAtys_fields x (Fields desc) atys"

section \<open>Message-to-value reflector\<close>

datatype PathStep = GetAttrStep string | IndexStep cty_value

type_synonym cty_Path = "PathStep list"

datatype reflectError = SchemaError schemaError | ValueError cty_Path string

type_synonym 'a reflected = "(reflectError + 'a) option"

fun pval_Message :: "pval \<Rightarrow> Message option" where
  "pval_Message (P_Message m) = Some m"
| "pval_Message v = None"

fun pval_List :: "pval \<Rightarrow> pval list option" where
  "pval_List (P_List vs) = Some vs"
| "pval_List v = None"

definition rawDecode :: "ext \<Rightarrow> RawMode \<Rightarrow> (byte list \<Rightarrow> cty_type \<Rightarrow> string + cty_value) option" where
  "rawDecode x mode =
     (case mode of
        JSON \<Rightarrow> Some (ctyjson_Unmarshal x)
      | MESSAGEPACK \<Rightarrow> Some (ctymsgpack_Unmarshal x)
      | NOT_RAW \<Rightarrow> None
      | RawMode_Other n \<Rightarrow> None)"

text \<open>The bytes case of \<open>hclValueForProtoFieldValue\<close>.\<close>

definition hclValueForBytes ::
  "ext \<Rightarrow> byte list \<Rightarrow> cty_Path \<Rightarrow> FieldAttribute \<Rightarrow> bool \<Rightarrow> cty_value reflected" where
  "hclValueForBytes x raw path attr subElem =
     (if subElem then
        Some (Inl (SchemaError (schemaErrorf (FullName (TargetField attr))
          ''can only use bytes directly as a raw field, not as element of collection in another field'')))
      else if length raw = 0 then Some (Inr (V_Null cty_DynamicPseudoType))
      else
        (case TypeConstraint x attr of
           (ty, diags) \<Rightarrow>
             if HasErrors diags then
               Some (Inl (SchemaError (schemaErrorf (FullName (TargetField attr))
                 ''invalid type constraint expression'')))
             else
               (case rawDecode x (RawMode attr) of
                  None \<Rightarrow>
                    Some (Inl (SchemaError (schemaErrorf (FullName (TargetField attr))
                      (''unsupported raw mode '' @ RawMode_String (RawMode attr)))))
                | Some decode \<Rightarrow>
                    (case decode raw ty of
                       Inl err \<Rightarrow>
                         Some (Inl (ValueError path
                           (''invalid encoding of '' @ FriendlyName x ty @ '' value as bytes: '' @ err)))
                     | Inr v \<Rightarrow> Some (Inr v)))))"

definition messageOfAttribute :: "FieldAttribute \<Rightarrow> MessageDescriptor option" where
  "messageOfAttribute attr =
     (case Kind (elementField (TargetField attr)) of
        MessageKind d \<Rightarrow> Some d
      | GroupKind d \<Rightarrow> Some d
      | k \<Rightarrow> None)"

lemma messageOfAttribute_size:
  "messageOfAttribute attr = Some d \<Longrightarrow> size d < size (TargetField attr)"
  by (cases "TargetField attr"; cases "MapKV (TargetField attr)")
     (auto simp: messageOfAttribute_def elementField_def split: Kind.splits dest!: size_MapKV_Kind,
      (rename_tac v, case_tac v, auto)+)

text \<open>
  The collection that \<open>buildObjectValueAttrsForMessage\<close> assembles from the reflected
  elements of a repeated nested block, by collection kind. The empty list and the
  empty set take their element type from the object constraint of the child.
\<close>

definition collectionOfBlocks ::
  "ext \<Rightarrow> FieldDescriptor \<Rightarrow> FieldNestedBlockType \<Rightarrow> cty_value list \<Rightarrow> cty_value reflected" where
  "collectionOfBlocks x field elem elems =
     (case CollectionKind elem of
        TUPLE \<Rightarrow> Some (Inr (cty_TupleVal elems))
      | LIST \<Rightarrow>
          if length elems = 0 then
            (case ObjectTypeConstraintForMessageDesc x (Nested elem) of
               None \<Rightarrow> None
             | Some (Inl err) \<Rightarrow> Some (Inl (SchemaError err))
             | Some (Inr nestedTy) \<Rightarrow> Some (Inr (cty_ListValEmpty nestedTy)))
          else (case cty_ListVal elems of None \<Rightarrow> None | Some v \<Rightarrow> Some (Inr v))
      | SET \<Rightarrow>
          if length elems = 0 then
            (case ObjectTypeConstraintForMessageDesc x (Nested elem) of
               None \<Rightarrow> None
             | Some (Inl err) \<Rightarrow> Some (Inl (SchemaError err))
             | Some (Inr nestedTy) \<Rightarrow> Some (Inr (cty_SetValEmpty nestedTy)))
          else (case cty_SetVal elems of None \<Rightarrow> None | Some v \<Rightarrow> Some (Inr v))
      | other \<Rightarrow>
          Some (Inl (SchemaError (schemaErrorf (FullName field)
            (''unsupported collection kind '' @ CollectionKind_String (CollectionKind elem))))))"

text \<open>
  \<open>objectValueForMessage\<close>, the loop of \<open>buildObjectValueAttrsForMessage\<close> over the
  fields from position \<open>i\<close> on, the loop over the elements of a repeated nested
  block, and \<open>hclValueForProtoFieldValue\<close> with its loops over the elements of a list
  and the entries of a map (visited in the order of the association list).
\<close>

lemma GetFieldElem_TargetField:
  "GetFieldElem field = Some (Inr (Some (ElemAttribute elem))) \<Longrightarrow> TargetField elem = field"
  by (auto simp: GetFieldElem_def GetFieldElem_attr_def GetFieldElem_block_def
      GetFieldElem_flatten_def schemaFail_def Let_def
      split: option.splits if_splits Kind.splits)

function objectValueForMessage ::
    "ext \<Rightarrow> MessageDescriptor \<Rightarrow> Message \<Rightarrow> cty_Path \<Rightarrow> cty_value reflected"
  and buildObjectValueAttrs_fields ::
    "ext \<Rightarrow> FieldDescriptor list \<Rightarrow> nat \<Rightarrow> Message \<Rightarrow> cty_Path \<Rightarrow> (string \<times> cty_value) list
       \<Rightarrow> ((string \<times> cty_value) list) reflected"
  and reflectBlockList ::
    "ext \<Rightarrow> MessageDescriptor \<Rightarrow> pval list \<Rightarrow> cty_Path \<Rightarrow> (cty_value list) reflected"
  and hclValueForProtoFieldValue ::
    "ext \<Rightarrow> pval \<Rightarrow> cty_Path \<Rightarrow> FieldAttribute \<Rightarrow> bool \<Rightarrow> cty_value reflected"
  and hclValueList ::
    "ext \<Rightarrow> pval list \<Rightarrow> nat \<Rightarrow> cty_Path \<Rightarrow> FieldAttribute \<Rightarrow> (cty_value list) reflected"
  and hclValueMap ::
    "ext \<Rightarrow> (pval \<times> pval) list \<Rightarrow> cty_Path \<Rightarrow> FieldAttribute \<Rightarrow> (string \<times> cty_value) list
       \<Rightarrow> ((string \<times> cty_value) list) reflected" where
  "objectValueForMessage x desc msg path =
     (case buildObjectValueAttrs_fields x (Fields desc) 0 msg path [] of
        None \<Rightarrow> None
      | Some (Inl err) \<Rightarrow> Some (Inl err)
      | Some (Inr attrVals) \<Rightarrow> Some (Inr (cty_ObjectVal attrVals)))"
| "buildObjectValueAttrs_fields x [] i msg path attrVals = Some (Inr attrVals)"
| "buildObjectValueAttrs_fields x (field # fs) i msg path attrVals =
     (case GetFieldElem field of
        None \<Rightarrow> None
      | Some (Inl err) \<Rightarrow> Some (Inl (SchemaError err))
      | Some (Inr None) \<Rightarrow> buildObjectValueAttrs_fields x fs (Suc i) msg path attrVals
      | Some (Inr (Some (ElemAttribute elem))) \<Rightarrow>
          (case hclValueForProtoFieldValue x (msg_Get msg i field)
                  (path @ [GetAttrStep (Name elem)]) elem False of
             None \<Rightarrow> None
           | Some (Inl err) \<Rightarrow> Some (Inl err)
           | Some (Inr v) \<Rightarrow>
               (case TypeConstraint x elem of
                  (ty, diags) \<Rightarrow>
                    if HasErrors diags then
                      Some (Inl (SchemaError (schemaErrorf (FullName field)
                        ''invalid type constraint expression'')))
                    else
                      (case convert_Convert x v ty of
                         Inl err \<Rightarrow>
                           Some (Inl (ValueError (path @ [GetAttrStep (Name elem)])
                             (''invalid encoding of '' @ FriendlyName x ty @ '' value as ''
                                @ Kind_String (Kind field) @ '': '' @ err)))
                       | Inr v' \<Rightarrow>
                           buildObjectValueAttrs_fields x fs (Suc i) msg path
                             (AList.update (Name elem) v' attrVals))))
      | Some (Inr (Some (ElemNestedBlockType elem))) \<Rightarrow>
          if CollectionKind elem = AUTO then
            (case pval_Message (msg_Get msg i field) of
               None \<Rightarrow> None
             | Some nestedMsg \<Rightarrow>
                 (case objectValueForMessage x (Nested elem) nestedMsg
                         (path @ [GetAttrStep (TypeName elem)]) of
                    None \<Rightarrow> None
                  | Some (Inl err) \<Rightarrow> Some (Inl err)
                  | Some (Inr nestedObj) \<Rightarrow>
                      buildObjectValueAttrs_fields x fs (Suc i) msg path
                        (AList.update (TypeName elem) nestedObj attrVals)))
          else
            (case pval_List (msg_Get msg i field) of
               None \<Rightarrow> None
             | Some msgList \<Rightarrow>
                 (case reflectBlockList x (Nested elem) msgList
                         (path @ [GetAttrStep (TypeName elem)]) of
                    None \<Rightarrow> None
                  | Some (Inl err) \<Rightarrow> Some (Inl err)
                  | Some (Inr elems) \<Rightarrow>
                      (case collectionOfBlocks x field elem elems of
                         None \<Rightarrow> None
                       | Some (Inl err) \<Rightarrow> Some (Inl err)
                       | Some (Inr v) \<Rightarrow>
                           buildObjectValueAttrs_fields x fs (Suc i) msg path
                             (AList.update (TypeName elem) v attrVals))))
      | Some (Inr (Some (ElemFlattened nested))) \<Rightarrow>
          (case pval_Message (msg_Get msg i field) of
             None \<Rightarrow> None
           | Some nestedMsg \<Rightarrow>
               (case buildObjectValueAttrs_fields x (Fields nested) 0 nestedMsg path attrVals of
                  None \<Rightarrow> None
                | Some (Inl err) \<Rightarrow> Some (Inl err)
                | Some (Inr attrVals2) \<Rightarrow> buildObjectValueAttrs_fields x fs (Suc i) msg path attrVals2))
      | Some (Inr (Some (ElemBlockLabel name))) \<Rightarrow>
          (case msg_Get msg i field of
             P_String labelVal \<Rightarrow>
               buildObjectValueAttrs_fields x fs (Suc i) msg path
                 (AList.update name (V_String labelVal) attrVals)
           | other \<Rightarrow>
               Some (Inl (SchemaError (schemaErrorf (FullName field)
                 ''only string fields can be used for block labels'')))))"
| "reflectBlockList x nested [] path = Some (Inr [])"
| "reflectBlockList x nested (v # vs) path =
     (case pval_Message v of
        None \<Rightarrow> None
      | Some nestedMsg \<Rightarrow>
          (case objectValueForMessage x nested nestedMsg path of
             None \<Rightarrow> None
           | Some (Inl err) \<Rightarrow> Some (Inl err)
           | Some (Inr nestedObj) \<Rightarrow>
               (case reflectBlockList x nested vs path of
                  None \<Rightarrow> None
                | Some (Inl err) \<Rightarrow> Some (Inl err)
                | Some (Inr elems) \<Rightarrow> Some (Inr (nestedObj # elems)))))"
| "hclValueForProtoFieldValue x val path attr subElem =
     (case val of
        P_Bool raw \<Rightarrow> Some (Inr (V_Bool raw))
      | P_Int32 raw \<Rightarrow> Some (Inr (V_Number (Finite (of_int (sint raw)))))
      | P_Int64 raw \<Rightarrow> Some (Inr (V_Number (Finite (of_int (sint raw)))))
      | P_Uint32 raw \<Rightarrow> Some (Inr (V_Number (Finite (of_int (uint raw)))))
      | P_Uint64 raw \<Rightarrow> Some (Inr (V_Number (Finite (of_int (uint raw)))))
      | P_Float32 raw \<Rightarrow> Some (Inr (V_Number raw))
      | P_Float64 raw \<Rightarrow> Some (Inr (V_Number raw))
      | P_String raw \<Rightarrow> Some (Inr (V_String raw))
      | P_Bytes raw \<Rightarrow> hclValueForBytes x raw path attr subElem
      | P_Enum raw \<Rightarrow>
          Some (Inl (SchemaError (schemaErrorf (FullName (TargetField attr))
            ''can't convert enum value to HCL value yet'')))
      | P_Message raw \<Rightarrow>
          (case messageOfAttribute attr of
             None \<Rightarrow> None
           | Some desc \<Rightarrow> objectValueForMessage x desc raw path)
      | P_List raw \<Rightarrow>
          if length raw = 0 then Some (Inr (V_Tuple []))
          else
            (case hclValueList x raw 0 path attr of
               None \<Rightarrow> None
             | Some (Inl err) \<Rightarrow> Some (Inl err)
             | Some (Inr elems) \<Rightarrow> Some (Inr (cty_TupleVal elems)))
      | P_Map raw \<Rightarrow>
          if length raw = 0 then Some (Inr (V_Object []))
          else
            (case hclValueMap x raw path attr [] of
               None \<Rightarrow> None
             | Some (Inl err) \<Rightarrow> Some (Inl err)
             | Some (Inr attrVals) \<Rightarrow> Some (Inr (cty_ObjectVal attrVals)))
      | P_Invalid \<Rightarrow>
          Some (Inl (SchemaError (schemaErrorf (FullName (TargetField attr))
            ''can't convert <nil> to HCL value''))))"
| "hclValueList x [] i path attr = Some (Inr [])"
| "hclValueList x (v # vs) i path attr =
     (case hclValueForProtoFieldValue x v (path @ [IndexStep (V_Number (Finite (of_nat i)))]) attr True of
        None \<Rightarrow> None
      | Some (Inl err) \<Rightarrow> Some (Inl err)
      | Some (Inr elemVal) \<Rightarrow>
          (case hclValueList x vs (Suc i) path attr of
             None \<Rightarrow> None
           | Some (Inl err) \<Rightarrow> Some (Inl err)
           | Some (Inr elems) \<Rightarrow> Some (Inr (elemVal # elems))))"
| "hclValueMap x [] path attr attrVals = Some (Inr attrVals)"
| "hclValueMap x ((protoK, protoV) # kvs) path attr attrVals =
     (case protoK of
        P_String k \<Rightarrow>
          (case hclValueForProtoFieldValue x protoV (path @ [IndexStep (V_String k)]) attr True of
             None \<Rightarrow> None
           | Some (Inl err) \<Rightarrow> Some (Inl err)
           | Some (Inr v) \<Rightarrow> hclValueMap x kvs path attr (AList.update k v attrVals))
      | other \<Rightarrow>
          Some (Inl (SchemaError (schemaErrorf (FullName (TargetField attr))
            ''HCL doesn't support non-string map keys''))))"
  by pat_completeness auto

termination
  by (relation "measures
       [\<lambda>a. case a of
          Inl (Inl (x, desc, msg, path)) \<Rightarrow> 2 * size desc
        | Inl (Inr (Inl (x, fs, i, msg, path, attrVals))) \<Rightarrow> 2 * size_list size fs
        | Inl (Inr (Inr (x, nested, vs, path))) \<Rightarrow> 2 * size nested + 1
        | Inr (Inl (x, val, path, attr, subElem)) \<Rightarrow> 2 * size (TargetField attr) + 1
        | Inr (Inr (Inl (x, vs, i, path, attr))) \<Rightarrow> 2 * size (TargetField attr) + 1
        | Inr (Inr (Inr (x, kvs, path, attr, attrVals))) \<Rightarrow> 2 * size (TargetField attr) + 1,
        \<lambda>a. case a of
          Inl (Inl (x, desc, msg, path)) \<Rightarrow> 0
        | Inl (Inr (Inl (x, fs, i, msg, path, attrVals))) \<Rightarrow> 0
        | Inl (Inr (Inr (x, nested, vs, path))) \<Rightarrow> 1 + length vs
        | Inr (Inl (x, val, path, attr, subElem)) \<Rightarrow> 2 * size val + 1
        | Inr (Inr (Inl (x, vs, i, path, attr))) \<Rightarrow> 2 * size_list size vs
        | Inr (Inr (Inr (x, kvs, path, attr, attrVals))) \<Rightarrow> 2 * size_list (size_prod size size) kvs]")
     (auto dest!: GetFieldElem_Flattened_size GetFieldElem_Nested_size messageOfAttribute_size
        dest: GetFieldElem_TargetField
        intro: le_less_trans [OF _ size_Fields] size_Fields_nested
        simp: less_Suc_eq_le size_Fields [THEN less_imp_le])

declare objectValueForMessage.simps [simp del] hclValueForProtoFieldValue.simps [simp del]

definition ObjectValueForMessage :: "ext \<Rightarrow> MessageDescriptor \<Rightarrow> Message \<Rightarrow> cty_value reflected" where
  "ObjectValueForMessage x desc msg = objectValueForMessage x desc msg []"

section \<open>The words of the specification\<close>

text \<open>
  The primitive type that the specification assigns to a field kind: bool for bool,
  number for every integer and floating kind, string for string and enum.
\<close>

fun spec_primitiveForKind :: "Kind \<Rightarrow> cty_type option" where
  "spec_primitiveForKind BoolKind = Some cty_Bool"
| "spec_primitiveForKind StringKind = Some cty_String"
| "spec_primitiveForKind EnumKind = Some cty_String"
| "spec_primitiveForKind (MessageKind d) = None"
| "spec_primitiveForKind (GroupKind d) = None"
| "spec_primitiveForKind BytesKind = None"
| "spec_primitiveForKind k = Some cty_Number"

text \<open>
  The inclusive range that the specification gives each 32- or 64-bit signed or
  unsigned integer kind, and the diagnostics it asks for a finite number: not a whole
  number, below the minimum, above the maximum, in that order.
\<close>

fun spec_intBounds :: "Kind \<Rightarrow> (int \<times> int) option" where
  "spec_intBounds Int32Kind = Some (- 2147483648, 2147483647)"
| "spec_intBounds Sint32Kind = Some (- 2147483648, 2147483647)"
| "spec_intBounds Sfixed32Kind = Some (- 2147483648, 2147483647)"
| "spec_intBounds Int64Kind = Some (- 9223372036854775808, 9223372036854775807)"
| "spec_intBounds Sint64Kind = Some (- 9223372036854775808, 9223372036854775807)"
| "spec_intBounds Sfixed64Kind = Some (- 9223372036854775808, 9223372036854775807)"
| "spec_intBounds Uint32Kind = Some (0, 4294967295)"
| "spec_intBounds Fixed32Kind = Some (0, 4294967295)"
| "spec_intBounds Uint64Kind = Some (0, 18446744073709551615)"
| "spec_intBounds Fixed64Kind = Some (0, 18446744073709551615)"
| "spec_intBounds k = None"

definition spec_intDiags :: "rat \<Rightarrow> int \<Rightarrow> int \<Rightarrow> Range \<Rightarrow> Diagnostics" where
  "spec_intDiags r lo hi rng =
     (if r \<notin> \<int> then [valueDiag ''The value must be a whole number.'' rng]
      else if r < of_int lo then
        [valueDiag (''The value must be greater than or equal to '' @ showInt lo @ ''.'') rng]
      else if of_int hi < r then
        [valueDiag (''The value must be less than or equal to '' @ showInt hi @ ''.'') rng]
      else [])"

text \<open>
  What the specification calls a still-valid empty message, for the fields of a
  descriptor: no attribute, nested-block or label field is populated, and a flattened
  field holds such a message of its child. \<open>spec_fieldsResolve\<close> says that the
  annotations of all these fields, through flattened children, resolve without a
  panic (to an element, to none, or to a schema error).
\<close>

function spec_fieldsResolve :: "FieldDescriptor list \<Rightarrow> bool" where
  "spec_fieldsResolve [] = True"
| "spec_fieldsResolve (field # fs) =
     (case GetFieldElem field of
        None \<Rightarrow> False
      | Some (Inr (Some (ElemFlattened nested))) \<Rightarrow>
          spec_fieldsResolve (Fields nested) \<and> spec_fieldsResolve fs
      | Some other \<Rightarrow> spec_fieldsResolve fs)"
  by pat_completeness auto
termination
  by (relation "measure (\<lambda>fs. 2 * size_list size fs)")
     (auto dest!: GetFieldElem_Flattened_size intro: size_Fields_nested simp: less_Suc_eq_le)

function spec_emptyMessage :: "FieldDescriptor list \<Rightarrow> Message" where
  "spec_emptyMessage [] = []"
| "spec_emptyMessage (field # fs) =
     (case GetFieldElem field of
        Some (Inr (Some (ElemFlattened nested))) \<Rightarrow>
          Some (P_Message (spec_emptyMessage (Fields nested))) # spec_emptyMessage fs
      | other \<Rightarrow> None # spec_emptyMessage fs)"
  by pat_completeness auto
termination
  by (relation "measure (\<lambda>fs. 2 * size_list size fs)")
     (auto dest!: GetFieldElem_Flattened_size intro: size_Fields_nested simp: less_Suc_eq_le)

text \<open>
  The surface schema in the words of the specification, for the fields of a
  descriptor in descriptor order: an attribute field contributes its attribute schema,
  a nested-block field its block header, and a flattened field the attributes and the
  blocks of its child. \<open>spec_labels\<close> are the names of the label fields of the
  descriptor itself, and \<open>spec_declared\<close> lists every name in the order of declaration.
\<close>

function spec_attributes :: "FieldDescriptor list \<Rightarrow> AttributeSchema list" where
  "spec_attributes [] = []"
| "spec_attributes (field # fs) =
     (case GetFieldElem field of
        Some (Inr (Some (ElemAttribute elem))) \<Rightarrow> attributeSchema elem # spec_attributes fs
      | Some (Inr (Some (ElemFlattened nested))) \<Rightarrow>
          spec_attributes (Fields nested) @ spec_attributes fs
      | other \<Rightarrow> spec_attributes fs)"
  by pat_completeness auto
termination
  by (relation "measure (\<lambda>fs. 2 * size_list size fs)")
     (auto dest!: GetFieldElem_Flattened_size intro: size_Fields_nested simp: less_Suc_eq_le)

function spec_blocks :: "FieldDescriptor list \<Rightarrow> BlockHeaderSchema list" where
  "spec_blocks [] = []"
| "spec_blocks (field # fs) =
     (case GetFieldElem field of
        Some (Inr (Some (ElemNestedBlockType elem))) \<Rightarrow>
          (case blockTypeSchema elem of
             None \<Rightarrow> spec_blocks fs
           | Some blockS \<Rightarrow> blockS # spec_blocks fs)
      | Some (Inr (Some (ElemFlattened nested))) \<Rightarrow>
          spec_blocks (Fields nested) @ spec_blocks fs
      | other \<Rightarrow> spec_blocks fs)"
  by pat_completeness auto
termination
  by (relation "measure (\<lambda>fs. 2 * size_list size fs)")
     (auto dest!: GetFieldElem_Flattened_size intro: size_Fields_nested simp: less_Suc_eq_le)

fun spec_labels :: "FieldDescriptor list \<Rightarrow> string list" where
  "spec_labels [] = []"
| "spec_labels (field # fs) =
     (case GetFieldElem field of
        Some (Inr (Some (ElemBlockLabel name))) \<Rightarrow> name # spec_labels fs
      | other \<Rightarrow> spec_labels fs)"

fun spec_declared :: "FieldDescriptor list \<Rightarrow> string list" where
  "spec_declared [] = []"
| "spec_declared (field # fs) =
     (case GetFieldElem field of
        Some (Inr (Some (ElemAttribute elem))) \<Rightarrow> Name elem # spec_declared fs
      | Some (Inr (Some (ElemNestedBlockType elem))) \<Rightarrow> TypeName elem # spec_declared fs
      | Some (Inr (Some (ElemBlockLabel name))) \<Rightarrow> name # spec_declared fs
      | Some (Inr (Some (ElemFlattened nested))) \<Rightarrow>
          map as_Name (spec_attributes (Fields nested))
            @ map bh_Type (spec_blocks (Fields nested)) @ spec_declared fs
      | other \<Rightarrow> spec_declared fs)"

text \<open>
  A descriptor without annotation conflicts: the annotations of every field resolve
  without error, the label scan of the child of every nested block returns, no name is
  declared twice, and the child of every flattened field is itself without conflicts.
\<close>

function spec_fieldsConsistent :: "FieldDescriptor list \<Rightarrow> bool" where
  "spec_fieldsConsistent [] = True"
| "spec_fieldsConsistent (field # fs) =
     (case GetFieldElem field of
        None \<Rightarrow> False
      | Some (Inl err) \<Rightarrow> False
      | Some (Inr (Some (ElemNestedBlockType elem))) \<Rightarrow>
          blockTypeSchema elem \<noteq> None \<and> spec_fieldsConsistent fs
      | Some (Inr (Some (ElemFlattened nested))) \<Rightarrow>
          spec_fieldsConsistent (Fields nested) \<and> distinct (spec_declared (Fields nested))
            \<and> spec_fieldsConsistent fs
      | Some (Inr other) \<Rightarrow> spec_fieldsConsistent fs)"
  by pat_completeness auto
termination
  by (relation "measure (\<lambda>fs. 2 * size_list size fs)")
     (auto dest!: GetFieldElem_Flattened_size intro: size_Fields_nested simp: less_Suc_eq_le)

definition spec_noAnnotationConflicts :: "MessageDescriptor \<Rightarrow> bool" where
  "spec_noAnnotationConflicts desc =
     (spec_fieldsConsistent (Fields desc) \<and> distinct (spec_declared (Fields desc)))"

text \<open>
  No tagged-union group other than the synthetic ones, in the descriptor and in the
  children that it flattens.
\<close>

function spec_fieldsWithoutOneofs :: "FieldDescriptor list \<Rightarrow> bool" where
  "spec_fieldsWithoutOneofs [] = True"
| "spec_fieldsWithoutOneofs (field # fs) =
     (case GetFieldElem field of
        Some (Inr (Some (ElemFlattened nested))) \<Rightarrow>
          list_all IsSynthetic (Oneofs nested) \<and> spec_fieldsWithoutOneofs (Fields nested)
            \<and> spec_fieldsWithoutOneofs fs
      | other \<Rightarrow> spec_fieldsWithoutOneofs fs)"
  by pat_completeness auto
termination
  by (relation "measure (\<lambda>fs. 2 * size_list size fs)")
     (auto dest!: GetFieldElem_Flattened_size intro: size_Fields_nested simp: less_Suc_eq_le)

definition spec_noOneofs :: "MessageDescriptor \<Rightarrow> bool" where
  "spec_noOneofs desc =
     (list_all IsSynthetic (Oneofs desc) \<and> spec_fieldsWithoutOneofs (Fields desc))"

text \<open>The names that the three registries of the schema compiler hold.\<close>

definition usedNames :: "schemaState \<Rightarrow> string set" where
  "usedNames st = dom (attrs st) \<union> dom (blockTypes st) \<union> dom (blockLabels st)"

section \<open>Example inputs\<close>

definition mkAttr :: "string \<Rightarrow> bool \<Rightarrow> string \<Rightarrow> RawMode \<Rightarrow> FieldOptions option" where
  "mkAttr n r t raw =
     Some \<lparr>E_Attr = Some \<lparr>attr_Name = n, attr_Required = r, attr_Type = t, attr_Raw = raw\<rparr>,
           E_Block = None, E_Flatten = False, E_Label = None\<rparr>"

definition field_rawRepeated :: FieldDescriptor where
  "field_rawRepeated =
     FieldDescriptor ''pkg.Msg.tags'' StringKind Card_Repeated None (mkAttr ''tags'' False ''any'' JSON)"

definition field_int32List :: FieldDescriptor where
  "field_int32List =
     FieldDescriptor ''pkg.Msg.nums'' Int32Kind Card_Repeated None (mkAttr ''nums'' False [] NOT_RAW)"

definition attr_int32List :: FieldAttribute where
  "attr_int32List =
     \<lparr>Name = ''nums'', Required = False, TypeExprString = [], RawMode = NOT_RAW,
      TargetField = field_int32List\<rparr>"

text \<open>
  One choice of the external collaborators, used where a theorem is applied to a
  concrete input: type expressions \<open>any\<close>, \<open>string\<close>, \<open>number\<close> and \<open>bool\<close>, a
  conversion that keeps a value whose type already is the wanted one (or when any
  type is wanted) and turns a null into the null of the wanted type, and codecs that
  write one byte per value.
\<close>

definition example_typeOfExpr :: "ParsedExpr \<Rightarrow> cty_type \<times> Diagnostics" where
  "example_typeOfExpr e =
     (if e = ''string'' then (cty_String, [])
      else if e = ''number'' then (cty_Number, [])
      else if e = ''bool'' then (cty_Bool, [])
      else (cty_DynamicPseudoType, []))"

definition example_convert :: "cty_value \<Rightarrow> cty_type \<Rightarrow> string + cty_value" where
  "example_convert v t =
     (if t = cty_DynamicPseudoType \<or> Type v = t then Inr v
      else if IsNull v then Inr (V_Null t)
      else Inl ''incompatible type'')"

definition example_ext :: ext where
  "example_ext =
     \<lparr>ParseExpression = (\<lambda>s. (s, [])),
      typeexpr_TypeConstraint = example_typeOfExpr,
      convert_Convert = example_convert,
      ctyjson_Marshal = (\<lambda>v t. Inr [1]),
      ctymsgpack_Marshal = (\<lambda>v t. Inr [2]),
      ctyjson_Unmarshal = (\<lambda>bs t. Inl ''unsupported''),
      ctymsgpack_Unmarshal = (\<lambda>bs t. Inl ''unsupported''),
      FriendlyName = (\<lambda>t. ''value''),
      RangeBetween = (\<lambda>a b. \<lparr>Filename = Filename a, Start = Start a, End = End b\<rparr>)\<rparr>"

definition range_name :: Range where
  "range_name = \<lparr>Filename = ''test.hcl'', Start = \<lparr>Line = 1, Column = 1, Byte = 0\<rparr>,
                  End = \<lparr>Line = 1, Column = 4, Byte = 3\<rparr>\<rparr>"

definition range_val :: Range where
  "range_val = \<lparr>Filename = ''test.hcl'', Start = \<lparr>Line = 1, Column = 7, Byte = 6\<rparr>,
                 End = \<lparr>Line = 1, Column = 17, Byte = 16\<rparr>\<rparr>"

definition range_missing :: Range where
  "range_missing = \<lparr>Filename = ''test.hcl'', Start = \<lparr>Line = 1, Column = 1, Byte = 0\<rparr>,
                     End = \<lparr>Line = 1, Column = 1, Byte = 0\<rparr>\<rparr>"

definition field_num :: FieldDescriptor where
  "field_num = FieldDescriptor ''pkg.Msg.num'' Int32Kind Card_Optional None (mkAttr ''num'' False [] NOT_RAW)"

definition elem_num :: FieldAttribute where
  "elem_num = \<lparr>Name = ''num'', Required = False, TypeExprString = [], RawMode = NOT_RAW,
               TargetField = field_num\<rparr>"

definition desc_num :: MessageDescriptor where
  "desc_num = MessageDescriptor ''pkg.Msg'' [] [field_num]"

definition attr_num :: "cty_value \<Rightarrow> hclAttribute" where
  "attr_num v = \<lparr>ha_Name = ''num'', Expr = \<lparr>expr_Value = (v, []), expr_Range = range_val\<rparr>,
                 NameRange = range_name\<rparr>"

definition content_num :: "cty_value \<Rightarrow> BodyContent" where
  "content_num v = BodyContent (Map.empty(''num'' \<mapsto> attr_num v)) []"

definition field_raw :: FieldDescriptor where
  "field_raw = FieldDescriptor ''pkg.Raw.raw'' BytesKind Card_Optional None (mkAttr ''raw'' False ''any'' JSON)"

definition elem_raw :: FieldAttribute where
  "elem_raw = \<lparr>Name = ''raw'', Required = False, TypeExprString = ''any'', RawMode = JSON,
               TargetField = field_raw\<rparr>"

definition desc_raw :: MessageDescriptor where
  "desc_raw = MessageDescriptor ''pkg.Raw'' [] [field_raw]"

definition attr_raw_null :: hclAttribute where
  "attr_raw_null = \<lparr>ha_Name = ''raw'',
      Expr = \<lparr>expr_Value = (V_Null cty_DynamicPseudoType, []), expr_Range = range_val\<rparr>,
      NameRange = range_name\<rparr>"

definition content_raw_null :: BodyContent where
  "content_raw_null = BodyContent (Map.empty(''raw'' \<mapsto> attr_raw_null)) []"

definition field_name :: FieldDescriptor where
  "field_name = FieldDescriptor ''pkg.WithStringAttr.name'' StringKind Card_Optional None
     (mkAttr ''name'' False [] NOT_RAW)"

definition elem_name :: FieldAttribute where
  "elem_name = \<lparr>Name = ''name'', Required = False, TypeExprString = [], RawMode = NOT_RAW,
               TargetField = field_name\<rparr>"

definition desc_name :: MessageDescriptor where
  "desc_name = MessageDescriptor ''pkg.WithStringAttr'' [] [field_name]"

definition field_doodad :: FieldDescriptor where
  "field_doodad = FieldDescriptor ''pkg.Singleton.doodad'' (MessageKind desc_name) Card_Optional None
     (Some \<lparr>E_Attr = None, E_Block = Some \<lparr>block_TypeName = ''doodad'', block_Kind = AUTO\<rparr>,
            E_Flatten = False, E_Label = None\<rparr>)"

definition elem_doodad :: FieldNestedBlockType where
  "elem_doodad = \<lparr>TypeName = ''doodad'', Nested = desc_name, Repeated = False, CollectionKind = AUTO\<rparr>"

definition desc_doodad :: MessageDescriptor where
  "desc_doodad = MessageDescriptor ''pkg.Singleton'' [] [field_doodad]"

definition attr_name :: "string \<Rightarrow> hclAttribute" where
  "attr_name s = \<lparr>ha_Name = ''name'', Expr = \<lparr>expr_Value = (V_String s, []), expr_Range = range_val\<rparr>,
                  NameRange = range_name\<rparr>"

definition content_name :: "string \<Rightarrow> BodyContent" where
  "content_name s = BodyContent (Map.empty(''name'' \<mapsto> attr_name s)) []"

definition body_name :: "string \<Rightarrow> Body" where
  "body_name s = Body (\<lambda>schema. (content_name s, [])) range_missing"

definition range_block :: "int \<Rightarrow> Range" where
  "range_block l = \<lparr>Filename = ''test.tf'', Start = \<lparr>Line = l, Column = 4, Byte = 0\<rparr>,
                     End = \<lparr>Line = l, Column = 10, Byte = 6\<rparr>\<rparr>"

definition block_doodad :: "string \<Rightarrow> int \<Rightarrow> Block" where
  "block_doodad s l = Block ''doodad'' [] (body_name s) (range_block l) (range_block l)"

definition content_two_doodads :: BodyContent where
  "content_two_doodads =
     BodyContent Map.empty [block_doodad ''Jackson'' 2, block_doodad ''Snakob'' 5]"

definition desc_oneof :: MessageDescriptor where
  "desc_oneof = MessageDescriptor ''pkg.WithOneof''
     [\<lparr>oneof_FullName = ''pkg.WithOneof.choice'', IsSynthetic = False\<rparr>] [field_name]"

definition err_oneof :: schemaError where
  "err_oneof = schemaErrorf ''pkg.WithOneof.choice''
     ''oneof declarations are not yet supported in messages used for HCL decoding''"

definition field_blockFlatten :: FieldDescriptor where
  "field_blockFlatten = FieldDescriptor ''pkg.Broken.child'' (MessageKind desc_name) Card_Optional None
     (Some \<lparr>E_Attr = None, E_Block = Some \<lparr>block_TypeName = ''child'', block_Kind = AUTO\<rparr>,
            E_Flatten = True, E_Label = None\<rparr>)"

definition desc_broken :: MessageDescriptor where
  "desc_broken = MessageDescriptor ''pkg.Broken''
     [\<lparr>oneof_FullName = ''pkg.Broken.choice'', IsSynthetic = False\<rparr>] [field_blockFlatten]"

definition body_empty :: Body where
  "body_empty = Body (\<lambda>schema. (BodyContent Map.empty [], [])) range_missing"

definition err_broken :: schemaError where
  "err_broken = schemaErrorf ''pkg.Broken.choice''
     ''oneof declarations are not yet supported in messages used for HCL decoding''"

text \<open>
  A root message with a repeated block \<open>group\<close> of collection kind LIST; each group
  has a repeated block \<open>item\<close> of collection kind TUPLE whose message has no fields.
  \<open>msg_group n\<close> is a group with \<open>n\<close> items, \<open>obj_group n\<close> the object it reflects to,
  and \<open>msg_root ns\<close> a root with one group for every number in \<open>ns\<close>.
\<close>

definition desc_leaf :: MessageDescriptor where
  "desc_leaf = MessageDescriptor ''pkg.Leaf'' [] []"

definition mkBlock :: "string \<Rightarrow> CollectionKind \<Rightarrow> FieldOptions option" where
  "mkBlock n k = Some \<lparr>E_Attr = None, E_Block = Some \<lparr>block_TypeName = n, block_Kind = k\<rparr>,
                        E_Flatten = False, E_Label = None\<rparr>"

definition field_item :: FieldDescriptor where
  "field_item = FieldDescriptor ''pkg.Group.item'' (MessageKind desc_leaf) Card_Repeated None
     (mkBlock ''item'' TUPLE)"

definition elem_item :: FieldNestedBlockType where
  "elem_item = \<lparr>TypeName = ''item'', Nested = desc_leaf, Repeated = True, CollectionKind = TUPLE\<rparr>"

definition desc_group :: MessageDescriptor where
  "desc_group = MessageDescriptor ''pkg.Group'' [] [field_item]"

definition field_group :: FieldDescriptor where
  "field_group = FieldDescriptor ''pkg.Root.group'' (MessageKind desc_group) Card_Repeated None
     (mkBlock ''group'' LIST)"

definition elem_group :: FieldNestedBlockType where
  "elem_group = \<lparr>TypeName = ''group'', Nested = desc_group, Repeated = True, CollectionKind = LIST\<rparr>"

definition desc_root :: MessageDescriptor where
  "desc_root = MessageDescriptor ''pkg.Root'' [] [field_group]"

definition msg_group :: "nat \<Rightarrow> Message" where
  "msg_group n = [Some (P_List (replicate n (P_Message [])))]"

definition obj_group :: "nat \<Rightarrow> cty_value" where
  "obj_group n = V_Object [(''item'', V_Tuple (replicate n (V_Object [])))]"

definition msg_root :: "nat list \<Rightarrow> Message" where
  "msg_root ns = [Some (P_List (map (\<lambda>n. P_Message (msg_group n)) ns))]"

text \<open>
  A descriptor with a required attribute \<open>species\<close>, a flattened child that declares
  the attribute \<open>name\<close>, and the block type \<open>doodad\<close>.
\<close>

definition field_species :: FieldDescriptor where
  "field_species = FieldDescriptor ''pkg.Pet.species'' StringKind Card_Optional None
     (mkAttr ''species'' True [] NOT_RAW)"

definition elem_species :: FieldAttribute where
  "elem_species = \<lparr>Name = ''species'', Required = True, TypeExprString = [], RawMode = NOT_RAW,
                  TargetField = field_species\<rparr>"

definition field_base :: FieldDescriptor where
  "field_base = FieldDescriptor ''pkg.Pet.base'' (MessageKind desc_name) Card_Optional None
     (Some \<lparr>E_Attr = None, E_Block = None, E_Flatten = True, E_Label = None\<rparr>)"

definition desc_pet :: MessageDescriptor where
  "desc_pet = MessageDescriptor ''pkg.Pet'' [] [field_species, field_base, field_doodad]"

section \<open>Verified properties\<close>

subsection \<open>Rendering an attribute value error\<close>

lemma attrValueError_Error_no_result: "attrValueError_Error err = Some s \<Longrightarrow> False"
  by (rule attrValueError_Error.raw_induct [where P = "\<lambda>_ _. False"]) blast+

text \<open>
  Claim C10. \<open>attrValueError.Error\<close> never returns, whatever the error value: the
  method calls itself unconditionally, so no string is ever produced.
\<close>

theorem attrValueError_Error_never_returns: "attrValueError_Error err = None"
  using attrValueError_Error_no_result [of err] by (cases "attrValueError_Error err") auto

subsection \<open>The message of a schema error\<close>

lemma FullName_IsValid_tags: "FullName_IsValid ''pkg.Msg.tags''"
  by (simp add: FullName_IsValid.simps isLetter_def isLetterDigit_def)

text \<open>
  Claim C8 asks that the message of a schema error with a valid fully-qualified
  declaration name contains that name. The annotation resolver rejects a raw-mode
  attribute on a repeated field with a schema error whose declaration name
  \<open>pkg.Msg.tags\<close> is valid; \<open>Error\<close> renders it without the name.
\<close>

theorem schemaError_Error_omits_valid_name:
  "GetFieldElem field_rawRepeated =
     Some (Inl \<lparr>Decl = ''pkg.Msg.tags'',
                Err = ''cannot use raw mode with '' @ squote ''repeated'' @ '' field''\<rparr>)
   \<and> FullName_IsValid ''pkg.Msg.tags''
   \<and> schemaError_Error \<lparr>Decl = ''pkg.Msg.tags'',
                Err = ''cannot use raw mode with '' @ squote ''repeated'' @ '' field''\<rparr>
       = ''unsupported protobuf schema: cannot use raw mode with '' @ squote ''repeated'' @ '' field''
   \<and> \<not> sublist ''pkg.Msg.tags''
         (schemaError_Error \<lparr>Decl = ''pkg.Msg.tags'',
                Err = ''cannot use raw mode with '' @ squote ''repeated'' @ '' field''\<rparr>)"
  by (simp add: field_rawRepeated_def mkAttr_def GetFieldElem_def GetFieldElem_attr_def attrNamed_def
      blockNamed_def labelNamed_def schemaFail_def schemaErrorf_def IsList_def IsMap_def
      squote_def schemaError_Error_def FullName_IsValid_tags sublist_code prefix_code)

subsection \<open>Inferred type constraints\<close>

lemma spec_primitive_auto:
  "spec_primitiveForKind (Kind f) = Some ety \<Longrightarrow> autoTypeConstraintForFieldElement f = ety"
  by (cases "Kind f") auto

lemma spec_primitive_not_nil: "spec_primitiveForKind k = Some ety \<Longrightarrow> ety \<noteq> cty_NilType"
  by (cases k) auto

text \<open>
  Claim C7. For a non-raw attribute whose type-expression string is empty and whose
  element kind (the kind of the map value for a map field, of the field itself
  otherwise) has the primitive type \<open>ety\<close>, the inferred constraint comes without
  diagnostics and is \<open>ety\<close> for a singular field, and for a repeated field
  \<open>list(ety)\<close>, for a map field \<open>map(ety)\<close>, each replaced by the dynamic
  pseudo-type when \<open>ety\<close> has dynamic parts.
\<close>

theorem TypeConstraint_inferred:
  assumes "RawMode fa = NOT_RAW"
    and "TypeExprString fa = []"
    and "spec_primitiveForKind (Kind (elementField (TargetField fa))) = Some ety"
  shows "TypeConstraint x fa =
           (if IsList (TargetField fa) then
              (if HasDynamicTypes ety then cty_DynamicPseudoType else cty_List ety)
            else if IsMap (TargetField fa) then
              (if HasDynamicTypes ety then cty_DynamicPseudoType else cty_Map ety)
            else ety, [])"
proof -
  have e: "autoTypeConstraintForFieldElement (elementField (TargetField fa)) = ety"
    using assms(3) by (rule spec_primitive_auto)
  have n: "ety \<noteq> cty_NilType"
    using assms(3) by (rule spec_primitive_not_nil)
  show ?thesis
    using assms(1,2) e n
    by (auto simp: TypeConstraint_def autoTypeConstraint_def autoTypeConstraintForField_def
        elementField_def Let_def)
qed

theorem TypeConstraint_inferred_witness:
  "RawMode attr_int32List = NOT_RAW \<and> TypeExprString attr_int32List = []
   \<and> spec_primitiveForKind (Kind (elementField (TargetField attr_int32List))) = Some cty_Number
   \<and> TypeConstraint example_ext attr_int32List = (cty_List cty_Number, [])"
proof -
  have a: "RawMode attr_int32List = NOT_RAW" by (simp add: attr_int32List_def)
  have b: "TypeExprString attr_int32List = []" by (simp add: attr_int32List_def)
  have c: "spec_primitiveForKind (Kind (elementField (TargetField attr_int32List))) = Some cty_Number"
    by (simp add: attr_int32List_def field_int32List_def elementField_def)
  show ?thesis
    using a b c TypeConstraint_inferred [OF a b c, of example_ext]
    by (simp add: attr_int32List_def field_int32List_def IsList_def IsMap_def)
qed

subsection \<open>The decoder touches one field slot at a time\<close>

lemma length_msg_Clear [simp]: "length (msg_Clear m i) = length m"
  by (simp add: msg_Clear_def)

lemma length_msg_Set [simp]: "length (msg_Set m i v) = length m"
  by (simp add: msg_Set_def)

lemma nth_msg_Clear_other [simp]: "j \<noteq> i \<Longrightarrow> msg_Clear m i ! j = m ! j"
  by (simp add: msg_Clear_def)

lemma nth_msg_Set_other [simp]: "j \<noteq> i \<Longrightarrow> msg_Set m i v ! j = m ! j"
  by (simp add: msg_Set_def)

lemma nth_msg_Clear_same [simp]: "i < length m \<Longrightarrow> msg_Clear m i ! i = None"
  by (simp add: msg_Clear_def)

lemma nth_msg_Set_same [simp]: "i < length m \<Longrightarrow> msg_Set m i v ! i = Some v"
  by (simp add: msg_Set_def)

lemma fillAttribute_frame:
  "fillAttribute x content mr field i elem m = Some (m', ds) \<Longrightarrow>
     length m' = length m \<and> (\<forall>j. j \<noteq> i \<longrightarrow> m' ! j = m ! j)"
  by (auto simp: fillAttribute_def Let_def split: sum.splits option.splits if_splits prod.splits)

lemma fillSingletonBlock_frame:
  "fillSingletonBlock x blocks elem found i m = Some (m', ds) \<Longrightarrow>
     length m' = length m \<and> (\<forall>j. j \<noteq> i \<longrightarrow> m' ! j = m ! j)"
proof (induction blocks arbitrary: found m m' ds)
  case Nil
  then show ?case by simp
next
  case (Cons block blocks)
  show ?case
  proof (cases "block_Type block \<noteq> TypeName elem")
    case True
    with Cons show ?thesis by simp
  next
    case False
    note same = this
    show ?thesis
    proof (cases found)
      case (Some previous)
      with Cons.prems same show ?thesis by simp
    next
      case None
      with Cons.prems same obtain nm md m2 d2 where
        n: "newMessageForBlock x block elem = Some (nm, md)" and
        r: "fillSingletonBlock x blocks elem (Some block) i (msg_Set m i (P_Message nm)) = Some (m2, d2)" and
        e: "m' = m2"
        by (auto split: option.splits prod.splits)
      from Cons.IH [OF r] e show ?thesis by simp
    qed
  qed
qed

lemma fillField_frame:
  "fillField x content mr field i m rec = Some (m', ds) \<Longrightarrow>
     length m' = length m \<and> (\<forall>j. j \<noteq> i \<longrightarrow> m' ! j = m ! j)"
  by (auto split: option.splits sum.splits FieldElem.splits if_splits prod.splits
      dest: fillAttribute_frame fillSingletonBlock_frame)

lemma fillFields_frame:
  "fillFields x content mr fs i m rec = Some (m', ds) \<Longrightarrow>
     length m' = length m \<and> (\<forall>j. j < i \<longrightarrow> m' ! j = m ! j)"
proof (induction fs arbitrary: i m m' ds)
  case Nil
  then show ?case by simp
next
  case (Cons field fs)
  from Cons.prems obtain m1 d1 m2 d2 where
    s: "fillField x content mr field i m rec = Some (m1, d1)" and
    r: "fillFields x content mr fs (Suc i) m1 rec = Some (m2, d2)" and
    e: "m' = m2"
    by (auto split: option.splits prod.splits)
  from fillField_frame [OF s] Cons.IH [OF r] e show ?case by auto
qed

lemma fillFields_slot:
  "fillFields x content mr fs i m rec = Some (m', ds) \<Longrightarrow> k < length fs \<Longrightarrow>
     \<exists>m0 m1 d1. fillField x content mr (fs ! k) (i + k) m0 rec = Some (m1, d1)
        \<and> length m0 = length m \<and> m' ! (i + k) = m1 ! (i + k) \<and> set d1 \<subseteq> set ds"
proof (induction fs arbitrary: i m m' ds k)
  case Nil
  then show ?case by simp
next
  case (Cons field fs)
  from Cons.prems(1) obtain m1 d1 m2 d2 where
    s: "fillField x content mr field i m rec = Some (m1, d1)" and
    r: "fillFields x content mr fs (Suc i) m1 rec = Some (m2, d2)" and
    e: "m' = m2" "ds = d1 @ d2"
    by (auto split: option.splits prod.splits)
  show ?case
  proof (cases k)
    case 0
    from fillFields_frame [OF r] have "m2 ! i = m1 ! i" by simp
    with s e 0 show ?thesis by fastforce
  next
    case (Suc k')
    with Cons.prems(2) have "k' < length fs" by simp
    from Cons.IH [OF r this] obtain m0 m1' d1' where
      a: "fillField x content mr (fs ! k') (Suc i + k') m0 rec = Some (m1', d1')" and
      b: "length m0 = length m1" "m2 ! (Suc i + k') = m1' ! (Suc i + k')" "set d1' \<subseteq> set d2"
      by blast
    from fillField_frame [OF s] have "length m1 = length m" by simp
    with a b e Suc show ?thesis by (intro exI [of _ m0] exI [of _ m1'] exI [of _ d1']) auto
  qed
qed

subsection \<open>Integer attributes\<close>

lemma isInt_iff: "(of_int \<lfloor>r\<rfloor> = (r::rat)) = (r \<in> \<int>)"
  by (metis Ints_of_int floor_of_int Ints_cases)

lemma intValue_finite:
  "intValueForFixedIntegerField (V_Number (Finite r)) rng lo hi =
     Some (Some (if 0 \<le> r then \<lfloor>r\<rfloor> else \<lceil>r\<rceil>), spec_intDiags r lo hi rng)"
proof (cases "r \<in> \<int>")
  case False
  then have "\<And>n. r \<noteq> of_int n" by auto
  with False show ?thesis
    by (simp add: intValueForFixedIntegerField_def spec_intDiags_def Let_def)
next
  case True
  then obtain n where n: "r = of_int n" by (auto elim: Ints_cases)
  show ?thesis
    by (simp add: intValueForFixedIntegerField_def spec_intDiags_def n Let_def)
qed

lemma fieldKind_int:
  "spec_intBounds (Kind field) = Some (lo, hi) \<Longrightarrow>
     \<exists>pv. protoValueForSingletonFieldKind (V_Number (Finite r)) rng field
            = Some (pv, spec_intDiags r lo hi rng)"
  by (cases "Kind field")
     (auto simp: protoValueForSingletonFieldKind_def intValue_finite fixedIntegerResult_def
        MinInt32_def MaxInt32_def MinInt64_def MaxInt64_def MaxUint32_def MaxUint64_def)

lemma GetFieldElem_attr_raw:
  "GetFieldElem field = Some (Inr (Some (ElemAttribute elem))) \<Longrightarrow>
     TargetField elem = field \<and> (RawMode elem \<noteq> NOT_RAW \<longrightarrow> Kind field = BytesKind)
     \<and> (RawMode elem = NOT_RAW \<longrightarrow> Kind field \<noteq> BytesKind)"
  by (auto simp: GetFieldElem_def GetFieldElem_attr_def GetFieldElem_block_def
      GetFieldElem_flatten_def schemaFail_def Let_def
      split: option.splits if_splits Kind.splits)

lemma fillAttribute_int:
  assumes elem: "GetFieldElem field = Some (Inr (Some (ElemAttribute elem)))"
    and sing: "\<not> IsList field" "\<not> IsMap field"
    and bounds: "spec_intBounds (Kind field) = Some (lo, hi)"
    and av: "attributeValue x content mr field elem = Inr (attr, V_Number (Finite r), ds0)"
  shows "\<exists>pv. fillAttribute x content mr field i elem m =
           Some (if spec_intDiags r lo hi (expr_Range (Expr attr)) = [] then msg_Set (msg_Clear m i) i pv
                 else msg_Clear m i,
                 ds0 @ spec_intDiags r lo hi (expr_Range (Expr attr)))"
proof -
  from bounds have nb: "Kind field \<noteq> BytesKind" by auto
  with GetFieldElem_attr_raw [OF elem] have raw: "RawMode elem = NOT_RAW" by auto
  from fieldKind_int [OF bounds, of r "expr_Range (Expr attr)"] obtain pv where
    pv: "protoValueForSingletonFieldKind (V_Number (Finite r)) (expr_Range (Expr attr)) field
           = Some (pv, spec_intDiags r lo hi (expr_Range (Expr attr)))" by blast
  have pf: "protoValueForField x (V_Number (Finite r)) (expr_Range (Expr attr)) field
           = Some (pv, spec_intDiags r lo hi (expr_Range (Expr attr)))"
    using sing elem raw nb pv
    by (simp add: protoValueForField_def protoValueForSingletonField_def)
  have he: "HasErrors (spec_intDiags r lo hi rng) = (spec_intDiags r lo hi rng \<noteq> [])" for rng
    by (simp add: spec_intDiags_def HasErrors_def valueDiag_def)
  show ?thesis
    using av pf he by (intro exI [of _ pv]) (simp add: fillAttribute_def Let_def)
qed


lemma showInt_MaxInt32: "showInt 2147483647 = ''2147483647''"
  by (simp add: showInt_def showNat.simps digitChar_def)

lemma GetFieldElem_field_num: "GetFieldElem field_num = Some (Inr (Some (ElemAttribute elem_num)))"
  by (simp add: field_num_def elem_num_def mkAttr_def GetFieldElem_def GetFieldElem_attr_def
      attrNamed_def blockNamed_def labelNamed_def IsList_def IsMap_def)

lemma TypeConstraint_elem_num: "TypeConstraint example_ext elem_num = (cty_Number, [])"
  by (simp add: TypeConstraint_def autoTypeConstraint_def autoTypeConstraintForField_def
      elem_num_def field_num_def IsList_def IsMap_def)

lemma example_ext_sel:
  "convert_Convert example_ext = example_convert"
  "typeexpr_TypeConstraint example_ext = example_typeOfExpr"
  "ParseExpression example_ext = (\<lambda>s. (s, []))"
  "ctyjson_Marshal example_ext = (\<lambda>v t. Inr [1])"
  "ctymsgpack_Marshal example_ext = (\<lambda>v t. Inr [2])"
  by (simp_all add: example_ext_def)

lemma attributeValue_num:
  "attributeValue example_ext (content_num (V_Number n)) range_missing field_num elem_num
     = Inr (attr_num (V_Number n), V_Number n, [])"
proof -
  have a: "Attributes (content_num (V_Number n)) (Name elem_num) = Some (attr_num (V_Number n))"
    by (simp add: content_num_def elem_num_def)
  have b: "expr_Value (Expr (attr_num (V_Number n))) = (V_Number n, [])"
    by (simp add: attr_num_def)
  have c: "valuePhysicalConstraintForFieldKind example_ext cty_Number field_num = (cty_Number, None)"
    by (simp add: valuePhysicalConstraintForFieldKind_def field_num_def IsList_def IsMap_def)
  show ?thesis
    by (simp add: attributeValue_def a b c TypeConstraint_elem_num HasErrors_def
        example_ext_sel example_convert_def)
qed

lemma below_MinInt32_not_int: "- (4294967297 / 2) \<noteq> rat_of_int n"
proof
  assume "- (4294967297 / 2) = rat_of_int n"
  then have "rat_of_int (- 4294967297) = rat_of_int (2 * n)" by simp
  then have "- 4294967297 = 2 * n" by (simp only: of_int_eq_iff)
  then show False by presburger
qed


lemma fill_num_above_max:
  "fillMessageFromContent example_ext (content_num (V_Number (Finite 2147483648)))
        range_missing desc_num [None] False
      = Some ([None], [valueDiag ''The value must be less than or equal to 2147483647.'' range_val])"
  apply (simp add: desc_num_def GetFieldElem_field_num fillAttribute_def attributeValue_num
      protoValueForField_def protoValueForSingletonField_def)
  apply (simp add: elem_num_def field_num_def IsList_def IsMap_def attr_num_def
      protoValueForSingletonFieldKind_def intValueForFixedIntegerField_def fixedIntegerResult_def
      HasErrors_def valueDiag_def msg_Clear_def Let_def MinInt32_def MaxInt32_def showInt_MaxInt32)
  done


subsection \<open>Null and empty bytes of a raw-mode attribute\<close>

lemma GetFieldElem_raw_shape:
  "GetFieldElem field = Some (Inr (Some (ElemAttribute elem))) \<Longrightarrow> RawMode elem \<noteq> NOT_RAW \<Longrightarrow>
     Kind field = BytesKind \<and> \<not> IsList field \<and> \<not> IsMap field"
  by (auto simp: GetFieldElem_def GetFieldElem_attr_def GetFieldElem_block_def
      GetFieldElem_flatten_def schemaFail_def Let_def
      split: option.splits if_splits Kind.splits)

lemma attributeValue_null:
  assumes "Attributes content (Name elem) = Some attr"
    and "IsNull (fst (expr_Value (Expr attr)))"
    and "\<forall>t v. convert_Convert x (fst (expr_Value (Expr attr))) t = Inr v \<longrightarrow> IsNull v"
  shows "\<exists>ds. attributeValue x content mr field elem = Inl ds"
  using assms
  by (cases "expr_Value (Expr attr)")
     (auto simp: attributeValue_def Let_def split: prod.splits sum.splits)

lemma hclValue_empty_bytes:
  "hclValueForProtoFieldValue x (P_Bytes []) path attr False = Some (Inr (V_Null cty_DynamicPseudoType))"
  by (simp add: hclValueForProtoFieldValue.simps hclValueForBytes_def)

text \<open>
  Claim C5. For a raw-mode attribute field (which the annotation resolver only accepts
  on a singular bytes field) at position \<open>k\<close>: reflecting the empty byte-string
  gives the null value of the dynamic pseudo-type; and when the input value of the
  attribute is null (and the conversion library maps a null to a null), the decoder
  leaves the field clear, so that the bytes read back from the returned message are
  empty and reflect to that null again.
\<close>

theorem raw_null_round_trip:
  assumes fm: "fillMessageFromContent x content mr desc msg0 recovering = Some (msg, diags)"
    and len: "length msg0 = length (Fields desc)"
    and k: "k < length (Fields desc)"
    and elem: "GetFieldElem (Fields desc ! k) = Some (Inr (Some (ElemAttribute elem)))"
    and raw: "RawMode elem \<noteq> NOT_RAW"
    and attr: "Attributes content (Name elem) = Some attr"
    and null: "IsNull (fst (expr_Value (Expr attr)))"
    and conv: "\<forall>t v. convert_Convert x (fst (expr_Value (Expr attr))) t = Inr v \<longrightarrow> IsNull v"
  shows "hclValueForProtoFieldValue x (P_Bytes []) path elem False = Some (Inr (V_Null cty_DynamicPseudoType))
       \<and> \<not> msg_Has msg k
       \<and> msg_Get msg k (Fields desc ! k) = P_Bytes []
       \<and> hclValueForProtoFieldValue x (msg_Get msg k (Fields desc ! k)) path elem False
           = Some (Inr (V_Null cty_DynamicPseudoType))"
proof -
  from fm have ff: "fillFields x content mr (Fields desc) 0 msg0 recovering = Some (msg, diags)"
    by simp
  from fillFields_slot [OF ff k] obtain m0 m1 d1 where
    s: "fillField x content mr (Fields desc ! k) (0 + k) m0 recovering = Some (m1, d1)" and
    l: "length m0 = length msg0" and
    e: "msg ! (0 + k) = m1 ! (0 + k)" by blast
  from fillFields_frame [OF ff] have lm: "length msg = length msg0" by simp
  from attributeValue_null [OF attr null conv] obtain ds where
    av: "attributeValue x content mr (Fields desc ! k) elem = Inl ds" by blast
  from s elem av have "m1 = msg_Clear m0 k" by (simp add: fillAttribute_def)
  with e l len k have slot: "msg ! k = None" by simp
  from GetFieldElem_raw_shape [OF elem raw] have
    shape: "Kind (Fields desc ! k) = BytesKind" "\<not> IsList (Fields desc ! k)" "\<not> IsMap (Fields desc ! k)"
    by auto
  have g: "msg_Get msg k (Fields desc ! k) = P_Bytes []"
    using slot shape by (simp add: msg_Get_def NewField_def)
  show ?thesis
    using slot g by (simp add: hclValue_empty_bytes msg_Has_def)
qed

lemma GetFieldElem_field_raw: "GetFieldElem field_raw = Some (Inr (Some (ElemAttribute elem_raw)))"
  by (simp add: field_raw_def elem_raw_def mkAttr_def GetFieldElem_def GetFieldElem_attr_def
      attrNamed_def blockNamed_def labelNamed_def IsList_def IsMap_def)

lemma fill_raw_null:
  "fillMessageFromContent example_ext content_raw_null range_missing desc_raw [None] False
     = Some ([None], [])"
proof -
  have a: "Attributes content_raw_null (Name elem_raw) = Some attr_raw_null"
    by (simp add: content_raw_null_def elem_raw_def)
  have b: "expr_Value (Expr attr_raw_null) = (V_Null cty_DynamicPseudoType, [])"
    by (simp add: attr_raw_null_def)
  have t: "TypeConstraint example_ext elem_raw = (cty_DynamicPseudoType, [])"
    by (simp add: TypeConstraint_def elem_raw_def example_ext_sel example_typeOfExpr_def HasErrors_def)
  have av: "attributeValue example_ext content_raw_null range_missing field_raw elem_raw = Inl []"
    by (simp add: attributeValue_def a b t HasErrors_def example_ext_sel example_convert_def)
       (simp add: elem_raw_def)
  show ?thesis
    by (simp add: desc_raw_def GetFieldElem_field_raw fillAttribute_def av msg_Clear_def)
qed

theorem raw_null_round_trip_witness:
  "fillMessageFromContent example_ext content_raw_null range_missing desc_raw [None] False
     = Some ([None], [])
   \<and> GetFieldElem (Fields desc_raw ! 0) = Some (Inr (Some (ElemAttribute elem_raw)))
   \<and> RawMode elem_raw \<noteq> NOT_RAW
   \<and> Attributes content_raw_null (Name elem_raw) = Some attr_raw_null
   \<and> IsNull (fst (expr_Value (Expr attr_raw_null)))
   \<and> \<not> msg_Has [None] 0
   \<and> msg_Get [None] 0 (Fields desc_raw ! 0) = P_Bytes []
   \<and> hclValueForProtoFieldValue example_ext (P_Bytes []) [] elem_raw False
       = Some (Inr (V_Null cty_DynamicPseudoType))"
proof -
  have fm: "fillMessageFromContent example_ext content_raw_null range_missing desc_raw [None] False
     = Some ([None], [])" by (rule fill_raw_null)
  have len: "length [None :: pval option] = length (Fields desc_raw)" by (simp add: desc_raw_def)
  have k: "0 < length (Fields desc_raw)" by (simp add: desc_raw_def)
  have elem: "GetFieldElem (Fields desc_raw ! 0) = Some (Inr (Some (ElemAttribute elem_raw)))"
    by (simp add: desc_raw_def GetFieldElem_field_raw)
  have raw: "RawMode elem_raw \<noteq> NOT_RAW" by (simp add: elem_raw_def)
  have attr: "Attributes content_raw_null (Name elem_raw) = Some attr_raw_null"
    by (simp add: content_raw_null_def elem_raw_def)
  have null: "IsNull (fst (expr_Value (Expr attr_raw_null)))" by (simp add: attr_raw_null_def)
  have conv: "\<forall>t v. convert_Convert example_ext (fst (expr_Value (Expr attr_raw_null))) t = Inr v
                \<longrightarrow> IsNull v"
    by (auto simp: attr_raw_null_def example_ext_sel example_convert_def split: if_splits)
  show ?thesis
    using raw_null_round_trip [OF fm len k elem raw attr null conv, of "[]"] fm elem raw attr null
    by simp
qed

subsection \<open>Duplicate singleton blocks\<close>

lemma fillSingletonBlock_found:
  "filter (\<lambda>b. block_Type b = TypeName elem) blocks = b2 # rest \<Longrightarrow>
     fillSingletonBlock x blocks elem (Some b1) i m = Some (m, [duplicateBlockDiag elem b1 b2])"
proof (induction blocks)
  case Nil
  then show ?case by simp
next
  case (Cons b blocks)
  then show ?case by (cases "block_Type b = TypeName elem") auto
qed

lemma fillSingletonBlock_two:
  "filter (\<lambda>b. block_Type b = TypeName elem) blocks = b1 # b2 # rest \<Longrightarrow>
     fillSingletonBlock x blocks elem None i m =
       (case newMessageForBlock x b1 elem of
          None \<Rightarrow> None
        | Some (nested, nd) \<Rightarrow>
            Some (msg_Set m i (P_Message nested), nd @ [duplicateBlockDiag elem b1 b2]))"
proof (induction blocks)
  case Nil
  then show ?case by simp
next
  case (Cons b blocks)
  show ?case
  proof (cases "block_Type b = TypeName elem")
    case False
    with Cons show ?thesis by simp
  next
    case True
    with Cons.prems have b: "b = b1" and r: "filter (\<lambda>b. block_Type b = TypeName elem) blocks = b2 # rest"
      by auto
    show ?thesis
      using True b fillSingletonBlock_found [OF r, of x b1 i]
      by (auto split: option.splits prod.splits)
  qed
qed

text \<open>
  Claim C2. For a non-repeated nested-block field at position \<open>k\<close>, when the content
  holds at least two blocks of its type, \<open>b1\<close> the first and \<open>b2\<close> the second: the
  field of the returned message holds the message decoded from \<open>b1\<close>, and the
  diagnostics the field contributes are those of decoding \<open>b1\<close> followed by exactly
  one more, the "Duplicate T block" diagnostic, whose detail names the definition
  range of \<open>b1\<close> and whose subject is the type range of \<open>b2\<close>. Later blocks of the
  type are not looked at.
\<close>

theorem duplicate_singleton_block:
  assumes fm: "fillMessageFromContent x content mr desc msg0 recovering = Some (msg, diags)"
    and len: "length msg0 = length (Fields desc)"
    and k: "k < length (Fields desc)"
    and elem: "GetFieldElem (Fields desc ! k) = Some (Inr (Some (ElemNestedBlockType elem)))"
    and single: "\<not> Repeated elem"
    and blocks: "filter (\<lambda>b. block_Type b = TypeName elem) (Blocks content) = b1 # b2 # rest"
  shows "\<exists>nested nd.
           newMessageForBlock x b1 elem = Some (nested, nd)
         \<and> msg ! k = Some (P_Message nested)
         \<and> (\<forall>m. fillField x content mr (Fields desc ! k) k m recovering
                 = Some (msg_Set (msg_Clear m k) k (P_Message nested),
                         nd @ [duplicateBlockDiag elem b1 b2]))
         \<and> set (nd @ [duplicateBlockDiag elem b1 b2]) \<subseteq> set diags
         \<and> Summary (duplicateBlockDiag elem b1 b2) = ''Duplicate '' @ TypeName elem @ '' block''
         \<and> sublist (Range_String (DefRange b1)) (Detail (duplicateBlockDiag elem b1 b2))
         \<and> Subject (duplicateBlockDiag elem b1 b2) = Some (TypeRange b2)"
proof -
  from fm have ff: "fillFields x content mr (Fields desc) 0 msg0 recovering = Some (msg, diags)"
    by simp
  from fillFields_slot [OF ff k] obtain m0 m1 d1 where
    s: "fillField x content mr (Fields desc ! k) (0 + k) m0 recovering = Some (m1, d1)" and
    l: "length m0 = length msg0" and
    e: "msg ! (0 + k) = m1 ! (0 + k)" and
    d: "set d1 \<subseteq> set diags" by blast
  have step: "fillField x content mr (Fields desc ! k) k m recovering =
      (case newMessageForBlock x b1 elem of
          None \<Rightarrow> None
        | Some (nested, nd) \<Rightarrow>
            Some (msg_Set (msg_Clear m k) k (P_Message nested), nd @ [duplicateBlockDiag elem b1 b2]))" for m
    using elem single fillSingletonBlock_two [OF blocks, of x k "msg_Clear m k"] by simp
  from s step [of m0] obtain nested nd where
    n: "newMessageForBlock x b1 elem = Some (nested, nd)"
    by (auto split: option.splits)
  from s step [of m0] n have m1: "m1 = msg_Set (msg_Clear m0 k) k (P_Message nested)"
    and d1: "d1 = nd @ [duplicateBlockDiag elem b1 b2]" by simp_all
  have slot: "msg ! k = Some (P_Message nested)"
    using e m1 l len k by simp
  have "Detail (duplicateBlockDiag elem b1 b2) =
      (''There may be no more than one '' @ TypeName elem @ '' block. Previous block declared at '')
        @ Range_String (DefRange b1) @ ''.''"
    by (simp add: duplicateBlockDiag_def)
  then have sl: "sublist (Range_String (DefRange b1)) (Detail (duplicateBlockDiag elem b1 b2))"
    by (simp only: sublist_appendI)
  show ?thesis
    using n slot step d d1 sl
    by (intro exI [of _ nested] exI [of _ nd]) (simp add: duplicateBlockDiag_def)
qed

lemma GetFieldElem_field_name: "GetFieldElem field_name = Some (Inr (Some (ElemAttribute elem_name)))"
  by (simp add: field_name_def elem_name_def mkAttr_def GetFieldElem_def GetFieldElem_attr_def
      attrNamed_def blockNamed_def labelNamed_def IsList_def IsMap_def)

lemma GetFieldElem_field_doodad:
  "GetFieldElem field_doodad = Some (Inr (Some (ElemNestedBlockType elem_doodad)))"
  by (simp add: field_doodad_def elem_doodad_def GetFieldElem_def GetFieldElem_block_def
      attrNamed_def blockNamed_def labelNamed_def IsList_def IsMap_def)

lemma bodySchema_desc_name:
  "bodySchema desc_name = Some (Inr \<lparr>schema_Attributes = [\<lparr>as_Name = ''name'', as_Required = False\<rparr>],
                                   schema_Blocks = []\<rparr>)"
  by (simp add: bodySchema.simps desc_name_def GetFieldElem_field_name declareAttribute_def
      conflictOf_def initialSchemaState_def addAttribute_def attributeSchema_def elem_name_def)

lemma TypeConstraint_elem_name: "TypeConstraint example_ext elem_name = (cty_String, [])"
  by (simp add: TypeConstraint_def autoTypeConstraint_def autoTypeConstraintForField_def
      elem_name_def field_name_def IsList_def IsMap_def)

lemma field_name_shape:
  "\<not> IsList field_name" "\<not> IsMap field_name" "Kind field_name = StringKind"
  "MapKV field_name = None" "RawMode elem_name = NOT_RAW" "Name elem_name = ''name''"
  "Required elem_name = False"
  by (simp_all add: field_name_def elem_name_def IsList_def IsMap_def)

lemma fill_name:
  "fillMessageFromContent example_ext (content_name s) range_missing desc_name [None] r
     = Some ([Some (P_String s)], [])"
proof -
  have a: "Attributes (content_name s) (Name elem_name) = Some (attr_name s)"
    by (simp add: content_name_def field_name_shape)
  have b: "expr_Value (Expr (attr_name s)) = (V_String s, [])" "expr_Range (Expr (attr_name s)) = range_val"
    by (simp_all add: attr_name_def)
  have c: "valuePhysicalConstraintForFieldKind example_ext cty_String field_name = (cty_String, None)"
    by (simp add: valuePhysicalConstraintForFieldKind_def field_name_shape)
  have av: "attributeValue example_ext (content_name s) range_missing field_name elem_name
      = Inr (attr_name s, V_String s, [])"
    by (simp add: attributeValue_def a b c TypeConstraint_elem_name HasErrors_def
        example_ext_sel example_convert_def)
  have pv: "protoValueForField example_ext (V_String s) range_val field_name = Some (P_String s, [])"
    by (simp add: protoValueForField_def protoValueForSingletonField_def GetFieldElem_field_name
        protoValueForSingletonFieldKind_def field_name_shape)
  show ?thesis
    by (simp add: desc_name_def GetFieldElem_field_name fillAttribute_def av pv b HasErrors_def
        msg_Clear_def msg_Set_def)
qed

lemma newMessageForBlock_doodad:
  "newMessageForBlock example_ext (block_doodad s l) elem_doodad = Some ([Some (P_String s)], [])"
proof -
  have n: "newMessageMaybeDynamic desc_name = [None]"
    by (simp add: newMessageMaybeDynamic_def desc_name_def)
  have d: "DecodeBody example_ext (body_name s) desc_name = Some ([Some (P_String s)], [])"
    by (simp add: DecodeBody.simps bodySchema_desc_name body_name_def HasErrors_def n
        fill_name [unfolded fillMessageFromContent.simps])
  have f: "Fields desc_name = [field_name]" by (simp add: desc_name_def)
  have e: "Nested elem_doodad = desc_name" by (simp add: elem_doodad_def)
  have bb: "block_Body (block_doodad s l) = body_name s" by (simp add: block_doodad_def)
  show ?thesis
    by (simp add: newMessageForBlock.simps e bb d f GetFieldElem_field_name)
qed

lemma fill_two_doodads:
  "fillMessageFromContent example_ext content_two_doodads range_missing desc_doodad [None] False
     = Some ([Some (P_Message [Some (P_String ''Jackson'')])],
             [duplicateBlockDiag elem_doodad (block_doodad ''Jackson'' 2) (block_doodad ''Snakob'' 5)])"
proof -
  have t: "block_Type (block_doodad s l) = TypeName elem_doodad" for s l
    by (simp add: block_doodad_def elem_doodad_def)
  have r: "\<not> Repeated elem_doodad" by (simp add: elem_doodad_def)
  show ?thesis
    by (simp add: desc_doodad_def GetFieldElem_field_doodad content_two_doodads_def t r
        newMessageForBlock_doodad msg_Clear_def msg_Set_def)
qed

lemma Range_String_block_2: "Range_String (range_block 2) = ''test.tf:2,4-10''"
  by (simp add: Range_String_def range_block_def showInt_def showNat.simps digitChar_def)

theorem duplicate_singleton_block_witness:
  "fillMessageFromContent example_ext content_two_doodads range_missing desc_doodad [None] False
     = Some ([Some (P_Message [Some (P_String ''Jackson'')])],
             [duplicateBlockDiag elem_doodad (block_doodad ''Jackson'' 2) (block_doodad ''Snakob'' 5)])
   \<and> GetFieldElem (Fields desc_doodad ! 0) = Some (Inr (Some (ElemNestedBlockType elem_doodad)))
   \<and> \<not> Repeated elem_doodad
   \<and> filter (\<lambda>b. block_Type b = TypeName elem_doodad) (Blocks content_two_doodads)
       = [block_doodad ''Jackson'' 2, block_doodad ''Snakob'' 5]
   \<and> newMessageForBlock example_ext (block_doodad ''Jackson'' 2) elem_doodad
       = Some ([Some (P_String ''Jackson'')], [])
   \<and> Summary (duplicateBlockDiag elem_doodad (block_doodad ''Jackson'' 2) (block_doodad ''Snakob'' 5))
       = ''Duplicate doodad block''
   \<and> Detail (duplicateBlockDiag elem_doodad (block_doodad ''Jackson'' 2) (block_doodad ''Snakob'' 5))
       = ''There may be no more than one doodad block. Previous block declared at test.tf:2,4-10.''
   \<and> Subject (duplicateBlockDiag elem_doodad (block_doodad ''Jackson'' 2) (block_doodad ''Snakob'' 5))
       = Some (range_block 5)"
proof -
  let ?b1 = "block_doodad ''Jackson'' 2" and ?b2 = "block_doodad ''Snakob'' 5"
  have fm: "fillMessageFromContent example_ext content_two_doodads range_missing desc_doodad [None] False
     = Some ([Some (P_Message [Some (P_String ''Jackson'')])], [duplicateBlockDiag elem_doodad ?b1 ?b2])"
    by (rule fill_two_doodads)
  have len: "length [None :: pval option] = length (Fields desc_doodad)" by (simp add: desc_doodad_def)
  have k: "0 < length (Fields desc_doodad)" by (simp add: desc_doodad_def)
  have elem: "GetFieldElem (Fields desc_doodad ! 0) = Some (Inr (Some (ElemNestedBlockType elem_doodad)))"
    by (simp add: desc_doodad_def GetFieldElem_field_doodad)
  have single: "\<not> Repeated elem_doodad" by (simp add: elem_doodad_def)
  have blocks: "filter (\<lambda>b. block_Type b = TypeName elem_doodad) (Blocks content_two_doodads)
       = ?b1 # ?b2 # []"
    by (simp add: content_two_doodads_def block_doodad_def elem_doodad_def)
  have d: "Detail (duplicateBlockDiag elem_doodad ?b1 ?b2)
       = ''There may be no more than one doodad block. Previous block declared at test.tf:2,4-10.''"
    by (simp add: duplicateBlockDiag_def elem_doodad_def block_doodad_def Range_String_block_2)
  from duplicate_singleton_block [OF fm len k elem single blocks] obtain nested nd where
    "newMessageForBlock example_ext ?b1 elem_doodad = Some (nested, nd)"
    "Summary (duplicateBlockDiag elem_doodad ?b1 ?b2) = ''Duplicate '' @ TypeName elem_doodad @ '' block''"
    "Subject (duplicateBlockDiag elem_doodad ?b1 ?b2) = Some (TypeRange ?b2)"
    by blast
  then show ?thesis
    using fm elem single blocks d newMessageForBlock_doodad [of "''Jackson''" 2]
    by (simp add: elem_doodad_def block_doodad_def)
qed

subsection \<open>Decoding after a schema error\<close>

lemma msg_Clear_at_length [simp]: "msg_Clear (pre @ None # rest) (length pre) = pre @ None # rest"
  by (simp add: msg_Clear_def)

lemma msg_Set_at_length [simp]: "msg_Set (pre @ u # rest) (length pre) v = pre @ Some v # rest"
  by (simp add: msg_Set_def)

lemma length_spec_emptyMessage [simp]: "length (spec_emptyMessage fs) = length fs"
  by (induction fs rule: spec_emptyMessage.induct) (auto split: option.splits sum.splits FieldElem.splits)

lemma fillFields_empty_content:
  assumes a: "Attributes content = Map.empty" and b: "Blocks content = []"
  shows "spec_fieldsResolve fs \<Longrightarrow>
     \<exists>ds. fillFields x content mr fs (length pre) (pre @ replicate (length fs) None) recovering
            = Some (pre @ spec_emptyMessage fs, ds)"
proof (induction "size_list size fs" arbitrary: fs pre rule: less_induct)
  case less
  show ?case
  proof (cases fs)
    case Nil
    then show ?thesis by simp
  next
    case (Cons field fs')
    let ?rest = "replicate (length fs') (None :: pval option)"
    have small: "size_list size fs' < size_list size fs" using Cons by simp
    from less.prems Cons obtain r where g: "GetFieldElem field = Some r"
      by (cases "GetFieldElem field") auto
    have tail: "spec_fieldsResolve fs'"
      using less.prems Cons g by (auto split: sum.splits option.splits FieldElem.splits)
    have step: "\<exists>v d1. fillField x content mr field (length pre) (pre @ None # ?rest) recovering
                     = Some (pre @ v # ?rest, d1)
          \<and> spec_emptyMessage (field # fs') = v # spec_emptyMessage fs'"
    proof (cases r)
      case (Inl err)
      with g show ?thesis by simp
    next
      case (Inr eo)
      show ?thesis
      proof (cases eo)
        case None
        with g Inr show ?thesis by simp
      next
        case (Some e)
        show ?thesis
        proof (cases e)
          case (ElemAttribute elem)
          have "attributeValue x content mr field elem
                  = Inl (if Required elem then [missingArgumentDiag elem mr] else [])"
            by (simp add: attributeValue_def a)
          with g Inr Some ElemAttribute show ?thesis
            by (simp add: fillAttribute_def)
        next
          case (ElemNestedBlockType elem)
          with g Inr Some show ?thesis
            by (simp add: b)
        next
          case (ElemFlattened nested)
          from less.prems Cons g Inr Some ElemFlattened
          have rn: "spec_fieldsResolve (Fields nested)" by simp
          from g Inr Some ElemFlattened have "size nested < size field"
            by (auto dest: GetFieldElem_Flattened_size)
          with size_Fields [of nested] Cons
          have "size_list size (Fields nested) < size_list size fs" by simp
          from less.hyps [OF this rn, of "[]"] obtain d1 where
            "fillFields x content mr (Fields nested) 0 (replicate (length (Fields nested)) None) recovering
              = Some (spec_emptyMessage (Fields nested), d1)" by auto
          with g Inr Some ElemFlattened show ?thesis
            by (simp add: newMessageMaybeDynamic_def)
        next
          case (ElemBlockLabel n)
          with g Inr Some show ?thesis by simp
        qed
      qed
    qed
    then obtain v d1 where
      s1: "fillField x content mr field (length pre) (pre @ None # ?rest) recovering
             = Some (pre @ v # ?rest, d1)" and
      s2: "spec_emptyMessage (field # fs') = v # spec_emptyMessage fs'" by auto
    from less.hyps [OF small tail, of "pre @ [v]"] obtain d2 where
      "fillFields x content mr fs' (Suc (length pre)) (pre @ v # ?rest) recovering
         = Some (pre @ v # spec_emptyMessage fs', d2)" by auto
    with s1 s2 Cons show ?thesis by (simp del: spec_emptyMessage.simps)
  qed
qed

lemma HasErrors_schemaErrorDiagnostic [simp]: "HasErrors (schemaErrorDiagnostic err # ds)"
  by (simp add: HasErrors_def schemaErrorDiagnostic_def schemaError_Diagnostic_def)

lemma DecodeBody_schema_error:
  "bodySchema desc = Some (Inl err) \<Longrightarrow>
     DecodeBody x body desc =
       (case fillMessageFromContent x (fst (Content body None)) (MissingItemRange body) desc
               (newMessageMaybeDynamic desc) True of
          None \<Rightarrow> None
        | Some (msg, fillDiags) \<Rightarrow>
            Some (msg, schemaErrorDiagnostic err # snd (Content body None) @ fillDiags))"
  by (cases "Content body None") (auto simp: DecodeBody.simps split: option.splits)


lemma bodySchema_desc_oneof: "bodySchema desc_oneof = Some (Inl err_oneof)"
  by (simp add: bodySchema.simps desc_oneof_def err_oneof_def)

lemma fill_name_oneof:
  "fillMessageFromContent example_ext (content_name s) range_missing desc_oneof [None] r
     = Some ([Some (P_String s)], [])"
  using fill_name [of s r] by (simp add: desc_oneof_def desc_name_def)



subsection \<open>The state of the fields of a returned message\<close>

lemma fillFields_slot_before:
  "fillFields x content mr fs i m rec = Some (m', ds) \<Longrightarrow> k < length fs \<Longrightarrow>
     \<exists>m0 m1 d1. fillField x content mr (fs ! k) (i + k) m0 rec = Some (m1, d1)
        \<and> length m0 = length m \<and> m0 ! (i + k) = m ! (i + k) \<and> m' ! (i + k) = m1 ! (i + k)"
proof (induction fs arbitrary: i m m' ds k)
  case Nil
  then show ?case by simp
next
  case (Cons field fs)
  from Cons.prems(1) obtain m1 d1 m2 d2 where
    s: "fillField x content mr field i m rec = Some (m1, d1)" and
    r: "fillFields x content mr fs (Suc i) m1 rec = Some (m2, d2)" and
    e: "m' = m2"
    by (auto split: option.splits prod.splits)
  show ?case
  proof (cases k)
    case 0
    from fillFields_frame [OF r] have "m2 ! i = m1 ! i" by simp
    with s e 0 show ?thesis by fastforce
  next
    case (Suc k')
    with Cons.prems(2) have "k' < length fs" by simp
    from Cons.IH [OF r this] obtain m0 m1' d1' where
      a: "fillField x content mr (fs ! k') (Suc i + k') m0 rec = Some (m1', d1')" and
      b: "length m0 = length m1" "m0 ! (Suc i + k') = m1 ! (Suc i + k')"
         "m2 ! (Suc i + k') = m1' ! (Suc i + k')"
      by blast
    from fillField_frame [OF s] have "length m1 = length m" "m1 ! (Suc i + k') = m ! (Suc i + k')"
      by simp_all
    with a b e Suc show ?thesis by (intro exI [of _ m0] exI [of _ m1'] exI [of _ d1']) auto
  qed
qed

lemma fillSingletonBlock_after_found:
  "fillSingletonBlock x blocks elem (Some p) i m = Some (m', ds) \<Longrightarrow> m' = m"
proof (induction blocks)
  case Nil
  then show ?case by simp
next
  case (Cons b blocks)
  then show ?case by (cases "block_Type b = TypeName elem") auto
qed

lemma fillSingletonBlock_slot:
  "fillSingletonBlock x blocks elem None i m = Some (m', ds) \<Longrightarrow> i < length m \<Longrightarrow>
     m' ! i = m ! i
     \<or> (\<exists>b nested nd. b \<in> set blocks \<and> block_Type b = TypeName elem
            \<and> newMessageForBlock x b elem = Some (nested, nd) \<and> m' ! i = Some (P_Message nested))"
proof (induction blocks)
  case Nil
  then show ?case by simp
next
  case (Cons b blocks)
  show ?case
  proof (cases "block_Type b = TypeName elem")
    case False
    with Cons show ?thesis by auto
  next
    case True
    with Cons.prems(1) obtain nested nd m2 d2 where
      n: "newMessageForBlock x b elem = Some (nested, nd)" and
      r: "fillSingletonBlock x blocks elem (Some b) i (msg_Set m i (P_Message nested)) = Some (m2, d2)" and
      e: "m' = m2"
      by (auto split: option.splits prod.splits)
    from fillSingletonBlock_after_found [OF r] e Cons.prems(2)
    have "m' ! i = Some (P_Message nested)" by simp
    with n True show ?thesis by auto
  qed
qed

text \<open>
  Claim C9. In the message a decode run returns, every field is in one of these
  states, by the annotation of the field. An attribute field is clear, or holds the
  value that \<open>protoValueForField\<close> produced without any error diagnostic from the
  evaluated and normalised value of the attribute. A nested-block field is clear, or
  (when it is not repeated) holds the message decoded from a block of its type. A
  flattened field holds the message that the recursive walk over the same content
  returned. Any other field is as it was before the run. No field holds the result
  of a conversion that reported an error.
\<close>

theorem decoded_field_cleared_or_populated:
  assumes fm: "fillMessageFromContent x content mr desc msg0 recovering = Some (msg, diags)"
    and len: "length msg0 = length (Fields desc)"
    and k: "k < length (Fields desc)"
  shows "case GetFieldElem (Fields desc ! k) of
           Some (Inr (Some (ElemAttribute elem))) \<Rightarrow>
             msg ! k = None
             \<or> (\<exists>attr val ds pv pds.
                   attributeValue x content mr (Fields desc ! k) elem = Inr (attr, val, ds)
                 \<and> protoValueForField x val (expr_Range (Expr attr)) (Fields desc ! k) = Some (pv, pds)
                 \<and> \<not> HasErrors pds \<and> msg ! k = Some pv)
         | Some (Inr (Some (ElemNestedBlockType elem))) \<Rightarrow>
             msg ! k = None
             \<or> (\<not> Repeated elem
                 \<and> (\<exists>b nested nd. b \<in> set (Blocks content) \<and> block_Type b = TypeName elem
                       \<and> newMessageForBlock x b elem = Some (nested, nd)
                       \<and> msg ! k = Some (P_Message nested)))
         | Some (Inr (Some (ElemFlattened nested))) \<Rightarrow>
             (\<exists>m nd. fillMessageFromContent x content mr nested (newMessageMaybeDynamic nested) recovering
                        = Some (m, nd)
                    \<and> msg ! k = Some (P_Message m))
         | other \<Rightarrow> msg ! k = msg0 ! k"
proof -
  let ?f = "Fields desc ! k"
  from fm have ff: "fillFields x content mr (Fields desc) 0 msg0 recovering = Some (msg, diags)"
    by simp
  from fillFields_slot_before [OF ff k] obtain m0 m1 d1 where
    s: "fillField x content mr ?f k m0 recovering = Some (m1, d1)" and
    l: "length m0 = length msg0" and
    b: "m0 ! k = msg0 ! k" and
    e: "msg ! k = m1 ! k" by auto
  have kk: "k < length m0" using l len k by simp
  from s obtain r where g: "GetFieldElem ?f = Some r" by (cases "GetFieldElem ?f") auto
  show ?thesis
  proof (cases r)
    case (Inl err)
    with g s e b show ?thesis by simp
  next
    case (Inr eo)
    show ?thesis
    proof (cases eo)
      case None
      with g Inr s e b show ?thesis by simp
    next
      case (Some el)
      show ?thesis
      proof (cases el)
        case (ElemAttribute elem)
        with g Inr Some s have fa: "fillAttribute x content mr ?f k elem m0 = Some (m1, d1)" by simp
        have "m1 ! k = None
             \<or> (\<exists>attr val ds pv pds.
                   attributeValue x content mr ?f elem = Inr (attr, val, ds)
                 \<and> protoValueForField x val (expr_Range (Expr attr)) ?f = Some (pv, pds)
                 \<and> \<not> HasErrors pds \<and> m1 ! k = Some pv)"
          using fa kk
          by (auto simp: fillAttribute_def Let_def split: sum.splits option.splits prod.splits if_splits)
        with g Inr Some ElemAttribute e show ?thesis by simp
      next
        case (ElemNestedBlockType elem)
        show ?thesis
        proof (cases "Repeated elem")
          case True
          with g Inr Some ElemNestedBlockType s kk have "m1 ! k = None"
            by (auto split: option.splits prod.splits)
          with g Inr Some ElemNestedBlockType e show ?thesis by simp
        next
          case False
          with g Inr Some ElemNestedBlockType s
          have "fillSingletonBlock x (Blocks content) elem None k (msg_Clear m0 k) = Some (m1, d1)"
            by simp
          from fillSingletonBlock_slot [OF this] kk
          have "m1 ! k = None
             \<or> (\<exists>b nested nd. b \<in> set (Blocks content) \<and> block_Type b = TypeName elem
                   \<and> newMessageForBlock x b elem = Some (nested, nd) \<and> m1 ! k = Some (P_Message nested))"
            by simp
          with g Inr Some ElemNestedBlockType e False show ?thesis by simp
        qed
      next
        case (ElemFlattened nested)
        with g Inr Some s kk e show ?thesis
          by (auto split: option.splits prod.splits)
      next
        case (ElemBlockLabel n)
        with g Inr Some s e b show ?thesis by simp
      qed
    qed
  qed
qed

theorem decoded_field_cleared_or_populated_witness:
  "fillMessageFromContent example_ext (content_num (V_Number (Finite 2147483648)))
        range_missing desc_num [None] False
      = Some ([None], [valueDiag ''The value must be less than or equal to 2147483647.'' range_val])
   \<and> HasErrors [valueDiag ''The value must be less than or equal to 2147483647.'' range_val]
   \<and> GetFieldElem (Fields desc_num ! 0) = Some (Inr (Some (ElemAttribute elem_num)))
   \<and> [None :: pval option] ! 0 = None"
proof -
  have fm: "fillMessageFromContent example_ext (content_num (V_Number (Finite 2147483648)))
        range_missing desc_num [None] False
      = Some ([None], [valueDiag ''The value must be less than or equal to 2147483647.'' range_val])"
    by (rule fill_num_above_max)
  have len: "length [None :: pval option] = length (Fields desc_num)" by (simp add: desc_num_def)
  have k: "0 < length (Fields desc_num)" by (simp add: desc_num_def)
  have elem: "GetFieldElem (Fields desc_num ! 0) = Some (Inr (Some (ElemAttribute elem_num)))"
    by (simp add: desc_num_def GetFieldElem_field_num)
  have he: "HasErrors [valueDiag ''The value must be less than or equal to 2147483647.'' range_val]"
    by (simp add: HasErrors_def valueDiag_def)
  show ?thesis
    using decoded_field_cleared_or_populated [OF fm len k] fm elem he by simp
qed

subsection \<open>Reflection of a repeated block of kind LIST\<close>

lemma reflectBlockList_all:
  "length objs = length ms \<Longrightarrow>
   \<forall>j < length ms. objectValueForMessage x nested (ms ! j) path = Some (Inr (objs ! j)) \<Longrightarrow>
   reflectBlockList x nested (map P_Message ms) path = Some (Inr objs)"
proof (induction ms arbitrary: objs)
  case Nil
  then show ?case by simp
next
  case (Cons m ms)
  then obtain obj objs' where o: "objs = obj # objs'" by (cases objs) auto
  with Cons.prems have h: "objectValueForMessage x nested m path = Some (Inr obj)" by auto
  from Cons.prems o have "\<forall>j < length ms. objectValueForMessage x nested (ms ! j) path = Some (Inr (objs' ! j))"
    by auto
  with Cons.IH [of objs'] Cons.prems(1) o
  have "reflectBlockList x nested (map P_Message ms) path = Some (Inr objs')" by simp
  with h o show ?case by simp
qed


lemma GetFieldElem_field_item:
  "GetFieldElem field_item = Some (Inr (Some (ElemNestedBlockType elem_item)))"
  by (simp add: field_item_def elem_item_def mkBlock_def GetFieldElem_def GetFieldElem_block_def
      attrNamed_def blockNamed_def labelNamed_def IsList_def IsMap_def)

lemma GetFieldElem_field_group:
  "GetFieldElem field_group = Some (Inr (Some (ElemNestedBlockType elem_group)))"
  by (simp add: field_group_def elem_group_def mkBlock_def GetFieldElem_def GetFieldElem_block_def
      attrNamed_def blockNamed_def labelNamed_def IsList_def IsMap_def)

lemma reflect_leaf: "objectValueForMessage x desc_leaf [] path = Some (Inr (V_Object []))"
  by (simp add: objectValueForMessage.simps desc_leaf_def cty_ObjectVal_def)

lemma reflect_leaves:
  "reflectBlockList x desc_leaf (replicate n (P_Message [])) path = Some (Inr (replicate n (V_Object [])))"
  by (induction n) (simp_all add: reflect_leaf)

lemma reflect_group:
  "objectValueForMessage x desc_group (msg_group n) path = Some (Inr (obj_group n))"
proof -
  have g: "msg_Get (msg_group n) 0 field_item = P_List (replicate n (P_Message []))"
    by (simp add: msg_Get_def msg_group_def)
  have e: "CollectionKind elem_item = TUPLE" "Nested elem_item = desc_leaf" "TypeName elem_item = ''item''"
    by (simp_all add: elem_item_def)
  show ?thesis
    by (simp add: objectValueForMessage.simps desc_group_def GetFieldElem_field_item g e
        reflect_leaves collectionOfBlocks_def cty_TupleVal_def cty_ObjectVal_def obj_group_def)
qed

lemma msg_Get_root:
  "msg_Get (msg_root ns) 0 field_group = P_List (map P_Message (map msg_group ns))"
  by (simp add: msg_Get_def msg_root_def comp_def)



subsection \<open>Unique names and flattening in the compiled schema\<close>

lemma conflictOf_None:
  "conflictOf decl what name a b c st = None \<longleftrightarrow> name \<notin> usedNames st"
  by (auto simp: conflictOf_def usedNames_def split: option.splits)

lemma conflictOf_Some:
  "conflictOf decl what name a b c st = Some err \<Longrightarrow> name \<in> usedNames st"
  by (auto simp: conflictOf_def usedNames_def split: option.splits)

lemma usedNames_addAttribute [simp]:
  "usedNames (addAttribute decl a st) = insert (as_Name a) (usedNames st)"
  by (auto simp: usedNames_def addAttribute_def)

lemma usedNames_addBlock [simp]:
  "usedNames (addBlock decl b st) = insert (bh_Type b) (usedNames st)"
  by (auto simp: usedNames_def addBlock_def)

lemma ret_addAttribute [simp]:
  "schema_Attributes (ret (addAttribute decl a st)) = schema_Attributes (ret st) @ [a]"
  "schema_Blocks (ret (addAttribute decl a st)) = schema_Blocks (ret st)"
  by (simp_all add: addAttribute_def)

lemma ret_addBlock [simp]:
  "schema_Attributes (ret (addBlock decl b st)) = schema_Attributes (ret st)"
  "schema_Blocks (ret (addBlock decl b st)) = schema_Blocks (ret st) @ [b]"
  by (simp_all add: addBlock_def)

lemma declareAttribute_iff:
  "declareAttribute field a st = Inr st' \<longleftrightarrow>
     as_Name a \<notin> usedNames st \<and> st' = addAttribute (FullName field) a st"
  by (auto simp: declareAttribute_def conflictOf_None split: option.splits dest: conflictOf_Some)

lemma declareBlock_iff:
  "declareBlock field b st = Inr st' \<longleftrightarrow>
     bh_Type b \<notin> usedNames st \<and> st' = addBlock (FullName field) b st"
  by (auto simp: declareBlock_def conflictOf_None split: option.splits dest: conflictOf_Some)

lemma declareLabel_iff:
  "declareLabel field n st = Inr st' \<longleftrightarrow>
     n \<notin> usedNames st \<and> st' = st\<lparr>blockLabels := (blockLabels st)(n \<mapsto> FullName field)\<rparr>"
  by (auto simp: declareLabel_def conflictOf_None split: option.splits dest: conflictOf_Some)

lemma usedNames_label [simp]:
  "usedNames (st\<lparr>blockLabels := (blockLabels st)(n \<mapsto> d)\<rparr>) = insert n (usedNames st)"
  by (auto simp: usedNames_def)

lemma flattenAttributes_iff:
  "flattenAttributes field as st = Inr st' \<longleftrightarrow>
     distinct (map as_Name as) \<and> set (map as_Name as) \<inter> usedNames st = {}
     \<and> st' = foldl (\<lambda>s a. addAttribute (FullName field) a s) st as"
proof (induction as arbitrary: st)
  case Nil
  then show ?case by auto
next
  case (Cons a as)
  show ?case
  proof (cases "as_Name a \<in> usedNames st")
    case True
    then show ?thesis
      by (auto simp: conflictOf_None split: option.splits)
  next
    case False
    then have "conflictOf (FullName field) ''flattened-in attribute '' (as_Name a)
             '' conflicts with '' '' conflicts with block type declared by ''
             '' conflicts with block label name declared by '' st = None"
      by (simp add: conflictOf_None)
    then show ?thesis using False Cons.IH [of "addAttribute (FullName field) a st"]
      by auto
  qed
qed

lemma flattenBlocks_iff:
  "flattenBlocks field bs st = Inr st' \<longleftrightarrow>
     distinct (map bh_Type bs) \<and> set (map bh_Type bs) \<inter> usedNames st = {}
     \<and> st' = foldl (\<lambda>s b. addBlock (FullName field) b s) st bs"
proof (induction bs arbitrary: st)
  case Nil
  then show ?case by auto
next
  case (Cons b bs)
  show ?case
  proof (cases "bh_Type b \<in> usedNames st")
    case True
    then show ?thesis
      by (auto simp: conflictOf_None split: option.splits)
  next
    case False
    then have "conflictOf (FullName field) ''flattened-in block type '' (bh_Type b)
             '' conflicts with attribute declared by '' '' conflicts with ''
             '' conflicts with block label name declared by '' st = None"
      by (simp add: conflictOf_None)
    then show ?thesis using False Cons.IH [of "addBlock (FullName field) b st"]
      by auto
  qed
qed

lemma foldl_addAttribute [simp]:
  "usedNames (foldl (\<lambda>s a. addAttribute d a s) st as) = usedNames st \<union> set (map as_Name as)"
  "schema_Attributes (ret (foldl (\<lambda>s a. addAttribute d a s) st as)) = schema_Attributes (ret st) @ as"
  "schema_Blocks (ret (foldl (\<lambda>s a. addAttribute d a s) st as)) = schema_Blocks (ret st)"
  by (induction as arbitrary: st) auto

lemma foldl_addBlock [simp]:
  "usedNames (foldl (\<lambda>s b. addBlock d b s) st bs) = usedNames st \<union> set (map bh_Type bs)"
  "schema_Attributes (ret (foldl (\<lambda>s b. addBlock d b s) st bs)) = schema_Attributes (ret st)"
  "schema_Blocks (ret (foldl (\<lambda>s b. addBlock d b s) st bs)) = schema_Blocks (ret st) @ bs"
  by (induction bs arbitrary: st) auto

lemma usedNames_initial [simp]: "usedNames initialSchemaState = {}"
  by (simp add: usedNames_def initialSchemaState_def)

lemma ret_initial [simp]:
  "schema_Attributes (ret initialSchemaState) = []" "schema_Blocks (ret initialSchemaState) = []"
  by (simp_all add: initialSchemaState_def)

lemma ret_label [simp]:
  "ret (st\<lparr>blockLabels := l\<rparr>) = ret st"
  by simp

lemma BodySchema_eq_iff:
  "(s :: BodySchema) = \<lparr>schema_Attributes = as, schema_Blocks = bs\<rparr>
     \<longleftrightarrow> schema_Attributes s = as \<and> schema_Blocks s = bs"
  by (cases s) auto

lemma find_oneof_None:
  "find (\<lambda>oneOf. \<not> IsSynthetic oneOf) os = None \<longleftrightarrow> list_all IsSynthetic os"
  by (induction os) auto

text \<open>
  When the schema compiler succeeds, and with which schema: exactly for the descriptors
  without a tagged-union group and without annotation conflicts, and then with the
  schema that the specification describes.
\<close>

lemma bodySchema_iff_both:
  "(\<forall>s. bodySchema desc = Some (Inr s) \<longleftrightarrow>
      spec_noOneofs desc \<and> spec_noAnnotationConflicts desc
      \<and> s = \<lparr>schema_Attributes = spec_attributes (Fields desc),
              schema_Blocks = spec_blocks (Fields desc)\<rparr>)"
  "(\<forall>s. bodySchema_fields desc0 fs st = Some (Inr s) \<longleftrightarrow>
      spec_fieldsWithoutOneofs fs \<and> spec_fieldsConsistent fs
      \<and> distinct (spec_declared fs) \<and> set (spec_declared fs) \<inter> usedNames st = {}
      \<and> s = \<lparr>schema_Attributes = schema_Attributes (ret st) @ spec_attributes fs,
              schema_Blocks = schema_Blocks (ret st) @ spec_blocks fs\<rparr>)"
proof (induction desc and desc0 fs st rule: bodySchema_bodySchema_fields.induct)
  case (1 desc)
  show ?case
  proof (cases "find (\<lambda>oneOf. \<not> IsSynthetic oneOf) (Oneofs desc)")
    case None
    have e: "bodySchema desc = bodySchema_fields desc (Fields desc) initialSchemaState"
      using None by (simp add: bodySchema.simps)
    have o: "list_all IsSynthetic (Oneofs desc)"
      using None by (simp add: find_oneof_None)
    show ?thesis
      unfolding e using 1 [OF None] o
      by (auto simp: spec_noOneofs_def spec_noAnnotationConflicts_def)
  next
    case (Some a)
    then have "\<not> list_all IsSynthetic (Oneofs desc)"
      using find_oneof_None [of "Oneofs desc"] by simp
    with Some show ?thesis
      by (simp add: bodySchema.simps spec_noOneofs_def)
  qed
next
  case (2 desc st)
  show ?case by (auto simp: BodySchema_eq_iff)
next
  case (3 desc field fs st)
  show ?case
  proof (cases "GetFieldElem field")
    case None
    then show ?thesis by simp
  next
    case (Some r)
    show ?thesis
    proof (cases r)
      case (Inl err)
      with Some show ?thesis by simp
    next
      case (Inr eo)
      show ?thesis
      proof (cases eo)
        case None
        with Some Inr 3(1) show ?thesis by simp
      next
        case (Some e)
        note g = \<open>GetFieldElem field = Some r\<close> Inr Some
        show ?thesis
        proof (cases e)
          case (ElemAttribute elem)
          have g': "GetFieldElem field = Some (Inr (Some (ElemAttribute elem)))"
            using g ElemAttribute by simp
          show ?thesis
          proof (cases "declareAttribute field (attributeSchema elem) st")
            case (Inl err)
            then have "Name elem \<in> usedNames st"
              using declareAttribute_iff [of field "attributeSchema elem" st]
              by (auto simp: attributeSchema_def)
            with Inl g' show ?thesis by auto
          next
            case (Inr st')
            then have n: "Name elem \<notin> usedNames st"
              and st': "st' = addAttribute (FullName field) (attributeSchema elem) st"
              by (auto simp: declareAttribute_iff attributeSchema_def)
            from 3(2) [OF g(1) g(2) g(3) ElemAttribute Inr] Inr g' n
            show ?thesis
              by (auto simp: st' BodySchema_eq_iff attributeSchema_def)
          qed
        next
          case (ElemNestedBlockType elem)
          have g': "GetFieldElem field = Some (Inr (Some (ElemNestedBlockType elem)))"
            using g ElemNestedBlockType by simp
          show ?thesis
          proof (cases "blockTypeSchema elem")
            case None
            with g' show ?thesis by simp
          next
            case (Some blockS)
            then have t: "bh_Type blockS = TypeName elem"
              by (auto simp: blockTypeSchema_def split: option.splits)
            show ?thesis
            proof (cases "declareBlock field blockS st")
              case (Inl err)
              then have "TypeName elem \<in> usedNames st"
                using declareBlock_iff [of field blockS st] t by auto
              with Inl g' Some show ?thesis by auto
            next
              case (Inr st')
              then have n: "TypeName elem \<notin> usedNames st"
                and st': "st' = addBlock (FullName field) blockS st"
                using t by (auto simp: declareBlock_iff)
              from 3(3) [OF g(1) g(2) g(3) ElemNestedBlockType Some Inr] Inr g' n Some t
              show ?thesis
                by (auto simp: st' BodySchema_eq_iff)
            qed
          qed
        next
          case (ElemFlattened nested)
          have g': "GetFieldElem field = Some (Inr (Some (ElemFlattened nested)))"
            using g ElemFlattened by simp
          note ih1 = 3(4) [OF g(1) g(2) g(3) ElemFlattened]
          let ?as = "spec_attributes (Fields nested)"
          let ?bs = "spec_blocks (Fields nested)"
          let ?ns = "\<lparr>schema_Attributes = ?as, schema_Blocks = ?bs\<rparr>"
          show ?thesis
          proof (cases "bodySchema nested = Some (Inr ?ns)")
            case False
            then have a: "\<not> (spec_noOneofs nested \<and> spec_noAnnotationConflicts nested)"
              using ih1 by auto
            have b: "\<And>s. bodySchema nested \<noteq> Some (Inr s)"
              using ih1 False by auto
            have "bodySchema_fields desc (field # fs) st \<noteq> Some (Inr s)" for s
              using b g' by (auto split: option.splits sum.splits)
            with a g' show ?thesis
              by (auto simp: spec_noOneofs_def spec_noAnnotationConflicts_def)
          next
            case True
            then have ok: "spec_noOneofs nested" "spec_noAnnotationConflicts nested"
              using ih1 by auto
            show ?thesis
            proof (cases "flattenAttributes field ?as st")
              case (Inl err)
              then have "\<not> (distinct (map as_Name ?as) \<and> set (map as_Name ?as) \<inter> usedNames st = {})"
                using flattenAttributes_iff [of field ?as st] by auto
              with Inl g' True show ?thesis by auto
            next
              case (Inr st')
              then have a: "distinct (map as_Name ?as)" "set (map as_Name ?as) \<inter> usedNames st = {}"
                and st': "st' = foldl (\<lambda>s a. addAttribute (FullName field) a s) st ?as"
                by (auto simp: flattenAttributes_iff)
              show ?thesis
              proof (cases "flattenBlocks field ?bs st'")
                case (Inl err)
                then have "\<not> (distinct (map bh_Type ?bs) \<and> set (map bh_Type ?bs) \<inter> usedNames st' = {})"
                  using flattenBlocks_iff [of field ?bs st'] by auto
                with Inl Inr g' True show ?thesis by (auto simp: st')
              next
                case (Inr st'')
                then have b: "distinct (map bh_Type ?bs)" "set (map bh_Type ?bs) \<inter> usedNames st' = {}"
                  and st'': "st'' = foldl (\<lambda>s b. addBlock (FullName field) b s) st' ?bs"
                  by (auto simp: flattenBlocks_iff)
                have ih2: "\<forall>s. bodySchema_fields desc fs st'' = Some (Inr s) \<longleftrightarrow>
                    spec_fieldsWithoutOneofs fs \<and> spec_fieldsConsistent fs
                    \<and> distinct (spec_declared fs) \<and> set (spec_declared fs) \<inter> usedNames st'' = {}
                    \<and> s = \<lparr>schema_Attributes = schema_Attributes (ret st'') @ spec_attributes fs,
                            schema_Blocks = schema_Blocks (ret st'') @ spec_blocks fs\<rparr>"
                  using 3(5) [OF g(1) g(2) g(3) ElemFlattened True] \<open>flattenAttributes field ?as st = Inr st'\<close> Inr
                  by simp
                have e: "bodySchema_fields desc (field # fs) st = bodySchema_fields desc fs st''"
                  using g' True \<open>flattenAttributes field ?as st = Inr st'\<close> Inr by simp
                have u: "usedNames st'' = usedNames st \<union> set (map as_Name ?as) \<union> set (map bh_Type ?bs)"
                  by (simp add: st'' st')
                have r: "schema_Attributes (ret st'') = schema_Attributes (ret st) @ ?as"
                  "schema_Blocks (ret st'') = schema_Blocks (ret st) @ ?bs"
                  by (simp_all add: st'' st')
                have c: "spec_fieldsWithoutOneofs (field # fs) = spec_fieldsWithoutOneofs fs"
                  "spec_fieldsConsistent (field # fs) = spec_fieldsConsistent fs"
                  using ok g' by (auto simp: spec_noOneofs_def spec_noAnnotationConflicts_def)
                have d: "spec_declared (field # fs) = map as_Name ?as @ map bh_Type ?bs @ spec_declared fs"
                  "spec_attributes (field # fs) = ?as @ spec_attributes fs"
                  "spec_blocks (field # fs) = ?bs @ spec_blocks fs"
                  using g' by simp_all
                have u': "usedNames st' = usedNames st \<union> set (map as_Name ?as)"
                  by (simp add: st')
                show ?thesis
                  unfolding e c d using ih2 a b u u' r
                  by (auto simp: BodySchema_eq_iff)
              qed
            qed
          qed
        next
          case (ElemBlockLabel name)
          have g': "GetFieldElem field = Some (Inr (Some (ElemBlockLabel name)))"
            using g ElemBlockLabel by simp
          show ?thesis
          proof (cases "declareLabel field name st")
            case (Inl err)
            then have "name \<in> usedNames st"
              using declareLabel_iff [of field name st] by auto
            with Inl g' show ?thesis by auto
          next
            case (Inr st')
            then have n: "name \<notin> usedNames st"
              and st': "st' = st\<lparr>blockLabels := (blockLabels st)(name \<mapsto> FullName field)\<rparr>"
              by (auto simp: declareLabel_iff)
            from 3(6) [OF g(1) g(2) g(3) ElemBlockLabel Inr] Inr g' n
            show ?thesis
              by (auto simp: st' BodySchema_eq_iff)
          qed
        qed
      qed
    qed
  qed
qed

lemma count_spec_declared:
  "spec_fieldsConsistent fs \<Longrightarrow>
   count_list (spec_declared fs) n =
     count_list (map as_Name (spec_attributes fs)) n
       + count_list (map bh_Type (spec_blocks fs)) n + count_list (spec_labels fs) n"
proof (induction fs)
  case Nil
  then show ?case by simp
next
  case (Cons field fs)
  have t: "blockTypeSchema elem = Some b \<Longrightarrow> bh_Type b = TypeName elem" for elem b
    by (auto simp: blockTypeSchema_def split: option.splits)
  from Cons show ?case
    by (auto simp: attributeSchema_def dest: t
        split: option.splits sum.splits FieldElem.splits)
qed

lemma distinct_count_list: "distinct xs \<longleftrightarrow> (\<forall>a. count_list xs a \<le> 1)"
proof (induction xs)
  case Nil
  then show ?case by simp
next
  case (Cons x xs)
  show ?case
  proof
    assume d: "distinct (x # xs)"
    then have "count_list xs x = 0" by (simp add: count_list_0_iff)
    moreover have "\<forall>a. count_list xs a \<le> 1" using d Cons by simp
    ultimately show "\<forall>a. count_list (x # xs) a \<le> 1" by simp
  next
    assume c: "\<forall>a. count_list (x # xs) a \<le> 1"
    then have "count_list (x # xs) x \<le> 1" by blast
    then have "x \<notin> set xs" by (simp add: count_list_0_iff [symmetric])
    moreover have "count_list xs a \<le> 1" for a
      using c [rule_format, of a] by (simp split: if_splits)
    ultimately show "distinct (x # xs)" using Cons by simp
  qed
qed

lemma distinct_spec_declared:
  assumes "spec_fieldsConsistent fs"
  shows "distinct (spec_declared fs) \<longleftrightarrow>
         distinct (map as_Name (spec_attributes fs) @ map bh_Type (spec_blocks fs) @ spec_labels fs)"
proof -
  have "count_list (spec_declared fs) n =
        count_list (map as_Name (spec_attributes fs) @ map bh_Type (spec_blocks fs) @ spec_labels fs) n"
    for n
    using count_spec_declared [OF assms, of n] by simp
  then show ?thesis
    by (simp only: distinct_count_list)
qed

lemma flattened_child_consistent:
  "spec_fieldsConsistent fs \<Longrightarrow> spec_fieldsWithoutOneofs fs \<Longrightarrow> k < length fs \<Longrightarrow>
   GetFieldElem (fs ! k) = Some (Inr (Some (ElemFlattened child))) \<Longrightarrow>
   spec_noAnnotationConflicts child \<and> spec_noOneofs child"
proof (induction fs arbitrary: k)
  case Nil
  then show ?case by simp
next
  case (Cons field fs)
  show ?case
  proof (cases k)
    case 0
    with Cons.prems show ?thesis
      by (simp add: spec_noAnnotationConflicts_def spec_noOneofs_def)
  next
    case (Suc k')
    have "spec_fieldsConsistent fs" "spec_fieldsWithoutOneofs fs"
      using Cons.prems(1,2)
      by (auto split: option.splits sum.splits FieldElem.splits)
    with Cons.IH [of k'] Cons.prems(3,4) Suc show ?thesis by simp
  qed
qed

text \<open>
  Claim C4. For a descriptor without annotation conflicts and without a tagged-union
  group that is not synthetic (in the descriptor and in the children it flattens),
  \<open>bodySchema\<close> returns a schema. In it every attribute name, every block type name and
  every name of a label field of the descriptor occurs exactly once over the three
  lists together. Flattening is transparent: the attributes and the blocks are those of
  the descriptor's own fields, in field order, with the entries of a flattened child in
  the place of the flattened field; and these entries are the schema that \<open>bodySchema\<close>
  returns for the child. (A descriptor with a tagged-union group that is not synthetic
  is rejected even when its annotations are without conflict.)
\<close>

theorem bodySchema_unique_names:
  assumes "spec_noAnnotationConflicts desc" and "spec_noOneofs desc"
  shows "\<exists>s. bodySchema desc = Some (Inr s)
           \<and> distinct (map as_Name (schema_Attributes s) @ map bh_Type (schema_Blocks s)
                        @ spec_labels (Fields desc))
           \<and> schema_Attributes s = spec_attributes (Fields desc)
           \<and> schema_Blocks s = spec_blocks (Fields desc)
           \<and> (\<forall>k child. k < length (Fields desc)
                  \<and> GetFieldElem (Fields desc ! k) = Some (Inr (Some (ElemFlattened child)))
                \<longrightarrow> bodySchema child
                      = Some (Inr \<lparr>schema_Attributes = spec_attributes (Fields child),
                                    schema_Blocks = spec_blocks (Fields child)\<rparr>))"
proof -
  let ?s = "\<lparr>schema_Attributes = spec_attributes (Fields desc),
             schema_Blocks = spec_blocks (Fields desc)\<rparr>"
  have s: "bodySchema desc = Some (Inr ?s)"
    using bodySchema_iff_both(1) [of desc] assms by simp
  have d: "distinct (map as_Name (spec_attributes (Fields desc))
      @ map bh_Type (spec_blocks (Fields desc)) @ spec_labels (Fields desc))"
    using assms(1) distinct_spec_declared [of "Fields desc"]
    by (simp add: spec_noAnnotationConflicts_def)
  have c: "bodySchema child
             = Some (Inr \<lparr>schema_Attributes = spec_attributes (Fields child),
                           schema_Blocks = spec_blocks (Fields child)\<rparr>)"
    if "k < length (Fields desc)"
      and "GetFieldElem (Fields desc ! k) = Some (Inr (Some (ElemFlattened child)))"
    for k child
  proof -
    have "spec_noAnnotationConflicts child \<and> spec_noOneofs child"
      using assms that
      by (intro flattened_child_consistent [of "Fields desc" k])
         (simp_all add: spec_noAnnotationConflicts_def spec_noOneofs_def)
    then show ?thesis
      using bodySchema_iff_both(1) [of child] by simp
  qed
  have c': "\<forall>k child. k < length (Fields desc)
                  \<and> GetFieldElem (Fields desc ! k) = Some (Inr (Some (ElemFlattened child)))
                \<longrightarrow> bodySchema child
                      = Some (Inr \<lparr>schema_Attributes = spec_attributes (Fields child),
                                    schema_Blocks = spec_blocks (Fields child)\<rparr>)"
    using c by blast
  show ?thesis
  proof (intro exI [of _ ?s] conjI)
    show "bodySchema desc = Some (Inr ?s)" by (rule s)
    show "distinct (map as_Name (schema_Attributes ?s) @ map bh_Type (schema_Blocks ?s)
                        @ spec_labels (Fields desc))"
      using d by simp
  qed (simp_all add: c')
qed

lemma GetFieldElem_field_species:
  "GetFieldElem field_species = Some (Inr (Some (ElemAttribute elem_species)))"
  by (simp add: field_species_def elem_species_def mkAttr_def GetFieldElem_def GetFieldElem_attr_def
      attrNamed_def blockNamed_def labelNamed_def IsList_def IsMap_def)

lemma GetFieldElem_field_base:
  "GetFieldElem field_base = Some (Inr (Some (ElemFlattened desc_name)))"
  by (simp add: field_base_def GetFieldElem_def GetFieldElem_flatten_def
      attrNamed_def blockNamed_def labelNamed_def IsList_def IsMap_def)

lemma blockTypeSchema_doodad:
  "blockTypeSchema elem_doodad = Some \<lparr>bh_Type = ''doodad'', LabelNames = []\<rparr>"
proof -
  have "Nested elem_doodad = desc_name" "TypeName elem_doodad = ''doodad''"
    by (simp_all add: elem_doodad_def)
  then show ?thesis
    by (simp add: blockTypeSchema_def desc_name_def GetFieldElem_field_name)
qed

lemma example_names:
  "Name elem_species = ''species''" "Name elem_name = ''name''" "TypeName elem_doodad = ''doodad''"
  "attributeSchema elem_species = \<lparr>as_Name = ''species'', as_Required = True\<rparr>"
  "attributeSchema elem_name = \<lparr>as_Name = ''name'', as_Required = False\<rparr>"
  by (simp_all add: elem_species_def elem_name_def elem_doodad_def attributeSchema_def)

lemma desc_pet_sel:
  "Fields desc_pet = [field_species, field_base, field_doodad]" "Oneofs desc_pet = []"
  "Fields desc_name = [field_name]" "Oneofs desc_name = []"
  by (simp_all add: desc_pet_def desc_name_def)

theorem bodySchema_unique_names_witness:
  "spec_noAnnotationConflicts desc_pet \<and> spec_noOneofs desc_pet
   \<and> bodySchema desc_name
       = Some (Inr \<lparr>schema_Attributes = [\<lparr>as_Name = ''name'', as_Required = False\<rparr>],
                     schema_Blocks = []\<rparr>)
   \<and> bodySchema desc_pet
       = Some (Inr \<lparr>schema_Attributes = [\<lparr>as_Name = ''species'', as_Required = True\<rparr>,
                                          \<lparr>as_Name = ''name'', as_Required = False\<rparr>],
                     schema_Blocks = [\<lparr>bh_Type = ''doodad'', LabelNames = []\<rparr>]\<rparr>)"
proof -
  note ev = desc_pet_sel GetFieldElem_field_species GetFieldElem_field_base
    GetFieldElem_field_doodad GetFieldElem_field_name blockTypeSchema_doodad example_names
  have c: "spec_noAnnotationConflicts desc_pet"
    by (simp add: spec_noAnnotationConflicts_def ev)
  have o: "spec_noOneofs desc_pet"
    by (simp add: spec_noOneofs_def ev)
  have a: "spec_attributes (Fields desc_pet) = [\<lparr>as_Name = ''species'', as_Required = True\<rparr>,
                                          \<lparr>as_Name = ''name'', as_Required = False\<rparr>]"
    "spec_blocks (Fields desc_pet) = [\<lparr>bh_Type = ''doodad'', LabelNames = []\<rparr>]"
    "spec_attributes (Fields desc_name) = [\<lparr>as_Name = ''name'', as_Required = False\<rparr>]"
    "spec_blocks (Fields desc_name) = []"
    by (simp_all add: ev)
  have k: "(1::nat) < length (Fields desc_pet)"
    "GetFieldElem (Fields desc_pet ! 1) = Some (Inr (Some (ElemFlattened desc_name)))"
    by (simp_all add: ev)
  obtain s where s: "bodySchema desc_pet = Some (Inr s)"
    "schema_Attributes s = spec_attributes (Fields desc_pet)"
    "schema_Blocks s = spec_blocks (Fields desc_pet)"
    and f: "\<forall>k child. k < length (Fields desc_pet)
                  \<and> GetFieldElem (Fields desc_pet ! k) = Some (Inr (Some (ElemFlattened child)))
                \<longrightarrow> bodySchema child
                      = Some (Inr \<lparr>schema_Attributes = spec_attributes (Fields child),
                                    schema_Blocks = spec_blocks (Fields child)\<rparr>)"
    using bodySchema_unique_names [OF c o] by blast
  have "bodySchema desc_name
          = Some (Inr \<lparr>schema_Attributes = spec_attributes (Fields desc_name),
                        schema_Blocks = spec_blocks (Fields desc_name)\<rparr>)"
    using f k by blast
  then show ?thesis
    using s c o by (simp add: a BodySchema_eq_iff)
qed

theorem bodySchema_unique_names_counterexample:
  "spec_noAnnotationConflicts desc_oneof
   \<and> distinct (spec_declared (Fields desc_oneof))
   \<and> bodySchema desc_oneof = Some (Inl err_oneof)
   \<and> err_oneof = schemaErrorf ''pkg.WithOneof.choice''
        ''oneof declarations are not yet supported in messages used for HCL decoding''"
proof -
  have f: "Fields desc_oneof = [field_name]" by (simp add: desc_oneof_def)
  have "spec_noAnnotationConflicts desc_oneof"
    by (simp add: spec_noAnnotationConflicts_def f GetFieldElem_field_name)
  moreover have "distinct (spec_declared (Fields desc_oneof))"
    by (simp add: f GetFieldElem_field_name)
  moreover have "bodySchema desc_oneof = Some (Inl err_oneof)"
    by (simp add: bodySchema.simps desc_oneof_def err_oneof_def)
  ultimately show ?thesis by (simp add: err_oneof_def)
qed

end
